theory Spec2Isabelle
  imports Main "HOL-Library.Word" "HOL-Library.AList" "HOL-Library.Sublist"
begin


section \<open>Go library functions used by the provider\<close>

text \<open>
  Go strings are byte strings; they are modelled as \<open>string\<close> (a list of 8-bit
  characters).  The separators the provider passes to \<open>strings.Split\<close> and
  \<open>strings.Join\<close> are the one-byte strings " ", "." and "_", so the separator is a
  single character here.
\<close>

text \<open>
  \<open>strings.Split(s, sep)\<close> for a non-empty separator: the substrings between the
  separators; a string without separator gives the one-element slice holding it, the
  empty string gives the slice holding the empty string.
\<close>

fun Split :: "string \<Rightarrow> char \<Rightarrow> string list" where
  "Split [] sep = [[]]"
| "Split (c # cs) sep =
     (if c = sep then [] # Split cs sep
      else (case Split cs sep of
              x # xs \<Rightarrow> (c # x) # xs
            | [] \<Rightarrow> [[c]]))"

text \<open>\<open>strings.Join(elems, sep)\<close>.\<close>

fun Join :: "string list \<Rightarrow> char \<Rightarrow> string" where
  "Join [] sep = []"
| "Join [x] sep = x"
| "Join (x # y # ys) sep = x @ sep # Join (y # ys) sep"

text \<open>
  \<open>strings.TrimSpace(s)\<close> is \<open>TrimFunc(s, unicode.IsSpace)\<close>: the white space of
  Unicode is cut from both ends of the string.  A Go string holds the UTF-8 encoding of
  its text, and \<open>unicode.IsSpace\<close> holds for the code points U+0009 to U+000D, U+0020,
  U+0085, U+00A0, U+1680, U+2000 to U+200A, U+2028, U+2029, U+202F, U+205F and U+3000;
  \<open>spaceRunes\<close> lists their encodings.  Decoding accepts the shortest encoding of a
  code point only and reads any other byte sequence as the one-byte error rune, which is
  no white space, so a string starts with a white space rune exactly when one of these
  byte sequences is a prefix of it, and ends with one exactly when one of them is a
  suffix of it.
\<close>

definition spaceRunes :: "string list" where
  "spaceRunes =
     [[CHR 0x09], [CHR 0x0A], [CHR 0x0B], [CHR 0x0C], [CHR 0x0D], [CHR 0x20],
      [CHR 0xC2, CHR 0x85], [CHR 0xC2, CHR 0xA0],
      [CHR 0xE1, CHR 0x9A, CHR 0x80],
      [CHR 0xE2, CHR 0x80, CHR 0x80], [CHR 0xE2, CHR 0x80, CHR 0x81],
      [CHR 0xE2, CHR 0x80, CHR 0x82], [CHR 0xE2, CHR 0x80, CHR 0x83],
      [CHR 0xE2, CHR 0x80, CHR 0x84], [CHR 0xE2, CHR 0x80, CHR 0x85],
      [CHR 0xE2, CHR 0x80, CHR 0x86], [CHR 0xE2, CHR 0x80, CHR 0x87],
      [CHR 0xE2, CHR 0x80, CHR 0x88], [CHR 0xE2, CHR 0x80, CHR 0x89],
      [CHR 0xE2, CHR 0x80, CHR 0x8A],
      [CHR 0xE2, CHR 0x80, CHR 0xA8], [CHR 0xE2, CHR 0x80, CHR 0xA9],
      [CHR 0xE2, CHR 0x80, CHR 0xAF],
      [CHR 0xE2, CHR 0x81, CHR 0x9F],
      [CHR 0xE3, CHR 0x80, CHR 0x80]]"

text \<open>
  \<open>dropRunes rs s\<close> cuts from the start of \<open>s\<close>, one after the other, the byte sequences
  of \<open>rs\<close> it starts with (none of them is empty, so the sequence found is at least the
  first byte).  \<open>TrimLeftFunc\<close> walks the runes from the start in this way and
  \<open>TrimRightFunc\<close> walks them from the end, which is the walk from the start over the
  reversed string with the reversed encodings.
\<close>

fun dropRunes :: "string list \<Rightarrow> string \<Rightarrow> string" where
  "dropRunes rs [] = []"
| "dropRunes rs (c # cs) =
     (case find (\<lambda>r. prefix r (c # cs)) rs of
        None \<Rightarrow> c # cs
      | Some r \<Rightarrow> dropRunes rs (drop (length r - 1) cs))"

definition TrimLeftSpace :: "string \<Rightarrow> string" where
  "TrimLeftSpace s = dropRunes spaceRunes s"

definition TrimRightSpace :: "string \<Rightarrow> string" where
  "TrimRightSpace s = rev (dropRunes (map rev spaceRunes) (rev s))"

definition TrimSpace :: "string \<Rightarrow> string" where
  "TrimSpace s = TrimRightSpace (TrimLeftSpace s)"

section \<open>Errors and the retry helper\<close>

text \<open>
  A Go \<open>error\<close> value is either the vendor SDK's \<open>*errors.TceCloudSDKError\<close>, which
  carries a code, a message and the ID of the request, or any other error: one built by
  \<open>fmt.Errorf\<close> or \<open>errors.New\<close>, or a transport error.  \<open>TimeoutError\<close> is what
  \<open>resource.Retry\<close> returns when its time is over before the callback gave any
  result.
\<close>

datatype err = TceCloudSDKError (Code: string) (Message: string) (RequestId: string)
  | Error string | TimeoutError

text \<open>\<open>resource.RetryError\<close>: an error and whether it may be retried.\<close>

datatype RetryError = RetryableError err | NonRetryableError err

text \<open>
  \<open>resource.Retry(timeout, f)\<close> of the Terraform plugin SDK calls \<open>f\<close> again and again:
  a nil result ends the loop with success, a non-retryable error ends it with that
  error, a retryable error is remembered and \<open>f\<close> is called again until the timeout,
  after which the last error is returned.  Real time is modelled as a budget of
  attempts: \<open>timeout\<close> is the number of calls of \<open>f\<close> that fit into the duration.
  The callback is a state transformer over the variables it captures.
\<close>

fun Retry_from :: "nat \<Rightarrow> err option \<Rightarrow> ('s \<Rightarrow> RetryError option \<times> 's) \<Rightarrow> 's \<Rightarrow> err option \<times> 's" where
  "Retry_from 0 resultErr f s =
     (Some (case resultErr of None \<Rightarrow> TimeoutError | Some e \<Rightarrow> e), s)"
| "Retry_from (Suc n) resultErr f s =
     (case f s of
        (None, s') \<Rightarrow> (None, s')
      | (Some (RetryableError e), s') \<Rightarrow> Retry_from n (Some e) f s'
      | (Some (NonRetryableError e), s') \<Rightarrow> (Some e, s'))"

definition Retry :: "nat \<Rightarrow> ('s \<Rightarrow> RetryError option \<times> 's) \<Rightarrow> 's \<Rightarrow> err option \<times> 's" where
  "Retry timeout f s = Retry_from timeout None f s"

text \<open>
  Constants and helpers of the provider whose declarations are not among the sources
  are parameters of the model: the two retry durations, the error codes and status
  names the resources compare with, the classification of errors that
  \<open>retryError\<close> applies, and the text of the timeout error, which names the duration.
\<close>

record settings =
  readRetryTimeout :: nat
  writeRetryTimeout :: nat
  recoverable :: "err \<Rightarrow> string list \<Rightarrow> bool"
  InternalError :: string
  VPCNotFound :: string
  CVM_NOT_FOUND_ERROR :: string
  KYE_PAIR_INVALID_ERROR :: string
  KEY_PAIR_NOT_SUPPORT_ERROR :: string
  GATE_WAY_TYPE_EIP :: string
  CBS_STORAGE_STATUS_EXPANDING :: string
  CBS_STORAGE_STATUS_ROLLBACKING :: string
  VPN_CHARGE_TYPE_PREPAID :: string
  Region :: string
  TimeoutText :: string

text \<open>
  Modelled from the spec: \<open>retryError(err, codes...)\<close>, the provider's helper that turns
  an error into a \<open>resource.RetryError\<close>, is not among the sources.  The spec calls it a
  "recoverable error classification": transient failures are retried, non-retryable
  failures are returned to Terraform core.  Which errors count as recoverable (also
  depending on the additional codes a call site passes) is the parameter
  \<open>recoverable\<close>.
\<close>

definition retryError :: "settings \<Rightarrow> err \<Rightarrow> string list \<Rightarrow> RetryError" where
  "retryError cf e codes =
     (if recoverable cf e codes then RetryableError e else NonRetryableError e)"

text \<open>The text of an error, \<open>err.Error()\<close>.\<close>

definition ErrorText :: "settings \<Rightarrow> err \<Rightarrow> string" where
  "ErrorText cf e =
     (case e of
        Error m \<Rightarrow> m
      | TceCloudSDKError code msg requestId \<Rightarrow>
          ''[TceCloudSDKError] Code='' @ code @ '', Message='' @ msg @ '', RequestId='' @ requestId
      | TimeoutError \<Rightarrow> TimeoutText cf)"

text \<open>\<open>fmt.Sprintf("%x", s)\<close> for a string: two lower-case hexadecimal digits for every byte.\<close>

definition hexDigit :: "nat \<Rightarrow> char" where
  "hexDigit n = ''0123456789abcdef'' ! n"

definition Sprintf_x :: "string \<Rightarrow> string" where
  "Sprintf_x s = concat (map (\<lambda>c. [hexDigit (of_char c div 16), hexDigit (of_char c mod 16)]) s)"

section \<open>Terraform resource data\<close>

text \<open>
  \<open>schema.ResourceData\<close> of the plugin SDK: the resource ID, the attribute values of
  the prior state, the values the plan gives to the attributes it sets or changes (an
  attribute the plan does not mention keeps its prior value), and what the operation
  has written with \<open>d.Set\<close>.  \<open>d.Get\<close> reads a written value first, then the plan,
  then the prior state.  \<open>d.GetChange\<close> gives the prior and the planned value of an
  attribute, and \<open>d.HasChange\<close> compares the two as they are read, an attribute
  without value being read as the zero value of its type.
\<close>

datatype val = VString string | VInt int | VBool bool | VStrings "string list"
  | VTags "(string \<times> string) list" | VNil

record ResourceData =
  ResourceId :: string
  state :: "string \<rightharpoonup> val"
  config :: "string \<rightharpoonup> val"
  written :: "string \<rightharpoonup> val"
  partial :: bool
  partialKeys :: "string list"

definition planned :: "ResourceData \<Rightarrow> string \<Rightarrow> val option" where
  "planned d k = (case config d k of Some v \<Rightarrow> Some v | None \<Rightarrow> state d k)"

definition Get :: "ResourceData \<Rightarrow> string \<Rightarrow> val option" where
  "Get d k = (case written d k of Some v \<Rightarrow> Some v | None \<Rightarrow> planned d k)"

definition GetString :: "ResourceData \<Rightarrow> string \<Rightarrow> string" where
  "GetString d k = (case Get d k of Some (VString s) \<Rightarrow> s | _ \<Rightarrow> [])"

definition GetInt :: "ResourceData \<Rightarrow> string \<Rightarrow> int" where
  "GetInt d k = (case Get d k of Some (VInt i) \<Rightarrow> i | _ \<Rightarrow> 0)"

definition GetStrings :: "ResourceData \<Rightarrow> string \<Rightarrow> string list" where
  "GetStrings d k = (case Get d k of Some (VStrings xs) \<Rightarrow> xs | _ \<Rightarrow> [])"

definition GetTags :: "ResourceData \<Rightarrow> string \<Rightarrow> (string \<times> string) list" where
  "GetTags d k = (case Get d k of Some (VTags xs) \<Rightarrow> xs | _ \<Rightarrow> [])"

text \<open>\<open>d.GetOk\<close>: the value, and whether it is set to something other than the zero value.\<close>

definition GetOkString :: "ResourceData \<Rightarrow> string \<Rightarrow> string \<times> bool" where
  "GetOkString d k = (GetString d k, GetString d k \<noteq> [])"

definition GetOkInt :: "ResourceData \<Rightarrow> string \<Rightarrow> int \<times> bool" where
  "GetOkInt d k = (GetInt d k, GetInt d k \<noteq> 0)"

definition isZero :: "val option \<Rightarrow> bool" where
  "isZero v =
     (case v of
        None \<Rightarrow> True
      | Some (VString s) \<Rightarrow> s = []
      | Some (VInt i) \<Rightarrow> i = 0
      | Some (VBool b) \<Rightarrow> b = False
      | Some (VStrings xs) \<Rightarrow> xs = []
      | Some (VTags xs) \<Rightarrow> xs = []
      | Some VNil \<Rightarrow> True)"

definition sameValue :: "val option \<Rightarrow> val option \<Rightarrow> bool" where
  "sameValue old new = (if isZero old then isZero new else old = new)"

definition HasChange :: "ResourceData \<Rightarrow> string \<Rightarrow> bool" where
  "HasChange d k = (\<not> sameValue (state d k) (planned d k))"

definition oldInt :: "ResourceData \<Rightarrow> string \<Rightarrow> int" where
  "oldInt d k = (case state d k of Some (VInt i) \<Rightarrow> i | _ \<Rightarrow> 0)"

definition newInt :: "ResourceData \<Rightarrow> string \<Rightarrow> int" where
  "newInt d k = (case planned d k of Some (VInt i) \<Rightarrow> i | _ \<Rightarrow> 0)"

definition oldString :: "ResourceData \<Rightarrow> string \<Rightarrow> string" where
  "oldString d k = (case state d k of Some (VString s) \<Rightarrow> s | _ \<Rightarrow> [])"

definition newString :: "ResourceData \<Rightarrow> string \<Rightarrow> string" where
  "newString d k = (case planned d k of Some (VString s) \<Rightarrow> s | _ \<Rightarrow> [])"

definition oldTags :: "ResourceData \<Rightarrow> string \<Rightarrow> (string \<times> string) list" where
  "oldTags d k = (case state d k of Some (VTags xs) \<Rightarrow> xs | _ \<Rightarrow> [])"

definition newTags :: "ResourceData \<Rightarrow> string \<Rightarrow> (string \<times> string) list" where
  "newTags d k = (case planned d k of Some (VTags xs) \<Rightarrow> xs | _ \<Rightarrow> [])"

definition Set :: "ResourceData \<Rightarrow> string \<Rightarrow> val \<Rightarrow> ResourceData" where
  "Set d k v = d\<lparr>written := (written d)(k \<mapsto> v)\<rparr>"

definition SetId :: "ResourceData \<Rightarrow> string \<Rightarrow> ResourceData" where
  "SetId d v = d\<lparr>ResourceId := v\<rparr>"

definition Partial :: "ResourceData \<Rightarrow> bool \<Rightarrow> ResourceData" where
  "Partial d on = d\<lparr>partial := on\<rparr>"

definition SetPartial :: "ResourceData \<Rightarrow> string \<Rightarrow> ResourceData" where
  "SetPartial d k = d\<lparr>partialKeys := partialKeys d @ [k]\<rparr>"

text \<open>A nil pointer handed to \<open>d.Set\<close> stores no value.\<close>

definition strPtr :: "string option \<Rightarrow> val" where
  "strPtr p = (case p of None \<Rightarrow> VNil | Some s \<Rightarrow> VString s)"

definition intPtr :: "int option \<Rightarrow> val" where
  "intPtr p = (case p of None \<Rightarrow> VNil | Some i \<Rightarrow> VInt i)"

definition boolPtr :: "bool option \<Rightarrow> val" where
  "boolPtr p = (case p of None \<Rightarrow> VNil | Some b \<Rightarrow> VBool b)"

section \<open>The remote API\<close>

text \<open>
  The cloud API is outside the program.  Every remote operation is an oracle that
  answers a request; the first argument of an oracle is the number of API calls made
  so far, so the answer to the same request may change with time.  The calls an
  operation makes are recorded, in order, in a trace.
\<close>

datatype call = Call string "val list"

type_synonym trace = "call list"

subsection \<open>CVM key pairs\<close>

text \<open>
  \<open>cvm.KeyPair\<close> of the vendor SDK, and the methods of \<open>CvmService\<close> the key pair
  resource calls.
\<close>

record KeyPair =
  KeyName :: "string option"
  KeyProjectId :: "int option"
  PublicKey :: "string option"
  AssociatedInstanceIds :: "string list"

record cvm_api =
  api_CreateKeyPair :: "nat \<Rightarrow> string \<Rightarrow> string \<Rightarrow> int \<Rightarrow> err + string"
  api_DescribeKeyPairById :: "nat \<Rightarrow> string \<Rightarrow> err + KeyPair option"
  api_ModifyKeyPairName :: "nat \<Rightarrow> string \<Rightarrow> string \<Rightarrow> err option"
  api_UnbindKeyPair :: "nat \<Rightarrow> string \<Rightarrow> string list \<Rightarrow> err option"
  api_DeleteKeyPair :: "nat \<Rightarrow> string \<Rightarrow> err option"

definition CreateKeyPair :: "cvm_api \<Rightarrow> string \<Rightarrow> string \<Rightarrow> int \<Rightarrow> trace \<Rightarrow> (err + string) \<times> trace" where
  "CreateKeyPair cvm keyName publicKey projectId tr =
     (api_CreateKeyPair cvm (length tr) keyName publicKey projectId,
      tr @ [Call ''CreateKeyPair'' [VString keyName, VString publicKey, VInt projectId]])"

definition DescribeKeyPairById :: "cvm_api \<Rightarrow> string \<Rightarrow> trace \<Rightarrow> (err + KeyPair option) \<times> trace" where
  "DescribeKeyPairById cvm keyId tr =
     (api_DescribeKeyPairById cvm (length tr) keyId,
      tr @ [Call ''DescribeKeyPairById'' [VString keyId]])"

definition ModifyKeyPairName :: "cvm_api \<Rightarrow> string \<Rightarrow> string \<Rightarrow> trace \<Rightarrow> err option \<times> trace" where
  "ModifyKeyPairName cvm keyId keyName tr =
     (api_ModifyKeyPairName cvm (length tr) keyId keyName,
      tr @ [Call ''ModifyKeyPairName'' [VString keyId, VString keyName]])"



section \<open>The key pair resource\<close>

text \<open>
  The \<open>StateFunc\<close> of the \<open>public_key\<close> attribute.  Its argument is an
  \<open>interface{}\<close>; the type switch has a case for strings and a default.
\<close>

definition publicKeyStateFunc :: "val \<Rightarrow> string" where
  "publicKeyStateFunc v =
     (case v of
        VString value \<Rightarrow>
          (let publicKey = value;
               split = Split value CHR '' '';
               publicKey = (if length split > 2 then Join (take 2 split) CHR '' '' else publicKey)
           in TrimSpace publicKey)
      | _ \<Rightarrow> [])"

text \<open>The callback that \<open>Read\<close> and \<open>Delete\<close> hand to \<open>resource.Retry\<close>.\<close>

definition describeKeyPairRetry :: "settings \<Rightarrow> cvm_api \<Rightarrow> string \<Rightarrow>
    KeyPair option \<times> trace \<Rightarrow> RetryError option \<times> (KeyPair option \<times> trace)" where
  "describeKeyPairRetry cf cvm keyId s =
     (case DescribeKeyPairById cvm keyId (snd s) of
        (Inl errRet, tr) \<Rightarrow> (Some (retryError cf errRet [InternalError cf]), (None, tr))
      | (Inr keyPair, tr) \<Rightarrow> (None, (keyPair, tr)))"

definition resourceTencentCloudKeyPairRead :: "settings \<Rightarrow> cvm_api \<Rightarrow> ResourceData \<Rightarrow> trace \<Rightarrow>
    err option \<times> ResourceData \<times> trace" where
  "resourceTencentCloudKeyPairRead cf cvm d tr =
     (let keyId = ResourceId d in
      case Retry (readRetryTimeout cf) (describeKeyPairRetry cf cvm keyId) (None, tr) of
        (Some err, (_, tr)) \<Rightarrow> (Some err, d, tr)
      | (None, (None, tr)) \<Rightarrow> (None, SetId d [], tr)
      | (None, (Some keyPair, tr)) \<Rightarrow>
          (let d = Set d ''key_name'' (strPtr (KeyName keyPair));
               d = Set d ''project_id'' (intPtr (KeyProjectId keyPair));
               d = (case PublicKey keyPair of
                      None \<Rightarrow> d
                    | Some publicKey \<Rightarrow>
                        (let split = Split publicKey CHR '' '';
                             publicKey = (if length split > 2 then Join (take 2 split) CHR '' ''
                                          else publicKey)
                         in Set d ''public_key'' (VString publicKey)))
           in (None, d, tr)))"

definition resourceTencentCloudKeyPairCreate :: "settings \<Rightarrow> cvm_api \<Rightarrow> ResourceData \<Rightarrow> trace \<Rightarrow>
    err option \<times> ResourceData \<times> trace" where
  "resourceTencentCloudKeyPairCreate cf cvm d tr =
     (let keyName = GetString d ''key_name'';
          publicKey = GetString d ''public_key'';
          projectId = GetInt d ''project_id''
      in case Retry (writeRetryTimeout cf)
             (\<lambda>s. case CreateKeyPair cvm keyName publicKey projectId (snd s) of
                    (Inl err, tr) \<Rightarrow> (Some (retryError cf err []), (fst s, tr))
                  | (Inr newId, tr) \<Rightarrow> (None, (newId, tr)))
             ([], tr) of
           (Some err, (_, tr)) \<Rightarrow> (Some err, d, tr)
         | (None, (keyId, tr)) \<Rightarrow> resourceTencentCloudKeyPairRead cf cvm (SetId d keyId) tr)"

definition resourceTencentCloudKeyPairUpdate :: "settings \<Rightarrow> cvm_api \<Rightarrow> ResourceData \<Rightarrow> trace \<Rightarrow>
    err option \<times> ResourceData \<times> trace" where
  "resourceTencentCloudKeyPairUpdate cf cvm d tr =
     (let keyId = ResourceId d in
      if HasChange d ''key_name'' then
        (case ModifyKeyPairName cvm keyId (GetString d ''key_name'') tr of
           (Some err, tr) \<Rightarrow> (Some err, d, tr)
         | (None, tr) \<Rightarrow> resourceTencentCloudKeyPairRead cf cvm d tr)
      else resourceTencentCloudKeyPairRead cf cvm d tr)"




section \<open>Decimal numbers\<close>

text \<open>
  \<open>fmt.Sprintf("%d", n)\<close> and \<open>strconv.ParseUint(s, 10, 64)\<close>.  An unsigned 64-bit
  integer is a \<open>64 word\<close>.  \<open>ParseUint\<close> with base 10 accepts a non-empty string of
  decimal digits (no sign, no underscore) whose value fits into 64 bits; everything
  else is an error, which the callers only test for.
\<close>

fun decimal :: "nat \<Rightarrow> string" where
  "decimal n =
     (if n < 10 then [char_of (48 + n)]
      else decimal (n div 10) @ [char_of (48 + n mod 10)])"

declare decimal.simps [simp del]

definition Sprintf_d :: "int \<Rightarrow> string" where
  "Sprintf_d i = (if i < 0 then CHR ''-'' # decimal (nat (- i)) else decimal (nat i))"

definition digit :: "char \<Rightarrow> nat option" where
  "digit c =
     (let n = (of_char c :: nat) in if 48 \<le> n \<and> n \<le> 57 then Some (n - 48) else None)"

fun parseDigits :: "nat \<Rightarrow> string \<Rightarrow> nat option" where
  "parseDigits acc [] = Some acc"
| "parseDigits acc (c # cs) =
     (case digit c of None \<Rightarrow> None | Some k \<Rightarrow> parseDigits (acc * 10 + k) cs)"


subsection \<open>VPC route tables\<close>

text \<open>
  The methods of \<open>VpcService\<close> the route table entry resource calls, and the route
  table information \<open>DescribeRouteTable\<close> returns with the number of tables found.
  The service's declarations are not among the sources; the entry ID that
  \<open>CreateRoutes\<close> returns is an unsigned 64-bit integer, the type \<open>DeleteRoutes\<close>
  takes it back in.
\<close>

record VpcRouteEntryBasicInfo =
  routeEntryId :: int
  destinationCidr :: string
  entryNextType :: string
  nextBub :: string
  entryDescription :: string

record VpcRouteTableBasicInfo =
  entryInfos :: "VpcRouteEntryBasicInfo list"

record route_api =
  api_CreateRoutes :: "nat \<Rightarrow> string \<Rightarrow> string \<Rightarrow> string \<Rightarrow> string \<Rightarrow> string \<Rightarrow> err + 64 word"
  api_DescribeRouteTable :: "nat \<Rightarrow> string \<Rightarrow> err + (VpcRouteTableBasicInfo \<times> int)"
  api_DeleteRoutes :: "nat \<Rightarrow> string \<Rightarrow> 64 word \<Rightarrow> err option"

definition CreateRoutes :: "route_api \<Rightarrow> string \<Rightarrow> string \<Rightarrow> string \<Rightarrow> string \<Rightarrow> string \<Rightarrow> trace \<Rightarrow>
    (err + 64 word) \<times> trace" where
  "CreateRoutes vpc routeTableId destinationCidrBlock nextType nextHub description tr =
     (api_CreateRoutes vpc (length tr) routeTableId destinationCidrBlock nextType nextHub description,
      tr @ [Call ''CreateRoutes'' [VString routeTableId, VString destinationCidrBlock,
              VString nextType, VString nextHub, VString description]])"

definition DescribeRouteTable :: "route_api \<Rightarrow> string \<Rightarrow> trace \<Rightarrow>
    (err + (VpcRouteTableBasicInfo \<times> int)) \<times> trace" where
  "DescribeRouteTable vpc routeTableId tr =
     (api_DescribeRouteTable vpc (length tr) routeTableId,
      tr @ [Call ''DescribeRouteTable'' [VString routeTableId]])"


section \<open>The route table entry resource\<close>

text \<open>The resource ID that \<open>Create\<close> builds: \<open>fmt.Sprintf("%d.%s", entryId, routeTableId)\<close>.\<close>

definition routeEntryResourceId :: "64 word \<Rightarrow> string \<Rightarrow> string" where
  "routeEntryResourceId entryId routeTableId = decimal (unat entryId) @ CHR ''.'' # routeTableId"

definition resourceTencentCloudVpcRouteEntryCreate :: "settings \<Rightarrow> route_api \<Rightarrow> ResourceData \<Rightarrow> trace \<Rightarrow>
    err option \<times> ResourceData \<times> trace" where
  "resourceTencentCloudVpcRouteEntryCreate cf vpc d tr =
     (let description = (case GetOkString d ''description'' of (temp, ok) \<Rightarrow> if ok then temp else []);
          routeTableId = (case GetOkString d ''route_table_id'' of (temp, ok) \<Rightarrow> if ok then temp else []);
          destinationCidrBlock =
            (case GetOkString d ''destination_cidr_block'' of (temp, ok) \<Rightarrow> if ok then temp else []);
          nextType = (case GetOkString d ''next_type'' of (temp, ok) \<Rightarrow> if ok then temp else []);
          nextHub = (case GetOkString d ''next_hub'' of (temp, ok) \<Rightarrow> if ok then temp else [])
      in if routeTableId = [] \<or> destinationCidrBlock = [] \<or> nextType = [] \<or> nextHub = []
         then (Some (Error ''some needed fields is empty string''), d, tr)
         else if nextType = GATE_WAY_TYPE_EIP cf \<and> nextHub \<noteq> ''0''
         then (Some (Error (''if next_type is '' @ GATE_WAY_TYPE_EIP cf @ '', next_hub can only be ''
                       @ [CHR 0x22] @ ''0'' @ [CHR 0x22] @ '' '')), d, tr)
         else (case CreateRoutes vpc routeTableId destinationCidrBlock nextType nextHub description tr of
                 (Inl err, tr) \<Rightarrow> (Some err, d, tr)
               | (Inr entryId, tr) \<Rightarrow> (None, SetId d (routeEntryResourceId entryId routeTableId), tr)))"

text \<open>
  The loop of \<open>Read\<close> over the entries of the route table: the first entry whose ID
  prints as the first part of the resource ID is copied into the resource data.
\<close>

fun findRouteEntry :: "VpcRouteEntryBasicInfo list \<Rightarrow> string \<Rightarrow> VpcRouteEntryBasicInfo option" where
  "findRouteEntry [] item0 = None"
| "findRouteEntry (v # vs) item0 =
     (if Sprintf_d (routeEntryId v) = item0 then Some v else findRouteEntry vs item0)"

definition routeEntryReadRetry :: "settings \<Rightarrow> route_api \<Rightarrow> string \<Rightarrow> string \<Rightarrow>
    ResourceData \<times> trace \<Rightarrow> RetryError option \<times> (ResourceData \<times> trace)" where
  "routeEntryReadRetry cf vpc item0 item1 s =
     (case s of (d, tr) \<Rightarrow>
      case DescribeRouteTable vpc item1 tr of
        (Inl e, tr) \<Rightarrow> (Some (retryError cf e []), (d, tr))
      | (Inr (info, has), tr) \<Rightarrow>
          if has = 0 then (None, (SetId d [], tr))
          else if has \<noteq> 1 then
            (Some (NonRetryableError
               (Error (''one routeTable id get '' @ Sprintf_d has @ '' routeTable infos''))), (d, tr))
          else (case findRouteEntry (entryInfos info) item0 of
                  Some v \<Rightarrow>
                    (let d = Set d ''description'' (VString (entryDescription v));
                         d = Set d ''route_table_id'' (VString item1);
                         d = Set d ''destination_cidr_block'' (VString (destinationCidr v));
                         d = Set d ''next_type'' (VString (entryNextType v));
                         d = Set d ''next_hub'' (VString (nextBub v))
                     in (None, (d, tr)))
                | None \<Rightarrow> (None, (SetId d [], tr))))"

definition resourceTencentCloudVpcRouteEntryRead :: "settings \<Rightarrow> route_api \<Rightarrow> ResourceData \<Rightarrow> trace \<Rightarrow>
    err option \<times> ResourceData \<times> trace" where
  "resourceTencentCloudVpcRouteEntryRead cf vpc d tr =
     (case Split (ResourceId d) CHR ''.'' of
        [item0, item1] \<Rightarrow>
          (case Retry (readRetryTimeout cf) (routeEntryReadRetry cf vpc item0 item1) (d, tr) of
             (Some err, (d, tr)) \<Rightarrow> (Some err, d, tr)
           | (None, (d, tr)) \<Rightarrow> (None, d, tr))
      | _ \<Rightarrow> (Some (Error ''entry id be destroyed, we can not get route table id''), d, tr))"



subsection \<open>Tags\<close>

text \<open>
  \<open>TagService.ModifyTags\<close> and \<open>TagService.DescribeResourceTags\<close>.  A tag map is a list
  of key-value pairs.
\<close>

type_synonym tags = "(string \<times> string) list"

record tag_api =
  api_ModifyTags :: "nat \<Rightarrow> string \<Rightarrow> tags \<Rightarrow> string list \<Rightarrow> err option"
  api_DescribeResourceTags :: "nat \<Rightarrow> string \<Rightarrow> string \<Rightarrow> string \<Rightarrow> string \<Rightarrow> err + tags"

definition ModifyTags :: "tag_api \<Rightarrow> string \<Rightarrow> tags \<Rightarrow> string list \<Rightarrow> trace \<Rightarrow> err option \<times> trace" where
  "ModifyTags tg resourceName replaceTags deleteTags tr =
     (api_ModifyTags tg (length tr) resourceName replaceTags deleteTags,
      tr @ [Call ''ModifyTags'' [VString resourceName, VTags replaceTags, VStrings deleteTags]])"

definition DescribeResourceTags :: "tag_api \<Rightarrow> string \<Rightarrow> string \<Rightarrow> string \<Rightarrow> string \<Rightarrow> trace \<Rightarrow>
    (err + tags) \<times> trace" where
  "DescribeResourceTags tg serviceType resourceType region resourceId tr =
     (api_DescribeResourceTags tg (length tr) serviceType resourceType region resourceId,
      tr @ [Call ''DescribeResourceTags''
              [VString serviceType, VString resourceType, VString region, VString resourceId]])"

text \<open>
  \<open>diffTags(old, new)\<close>, a helper of the provider that is not among the sources,
  computes the tags to replace and the keys to delete; \<open>BuildTagResourceName\<close> builds
  the six-segment resource name of the tag API.  Both are parameters.
\<close>

record helpers =
  diffTags :: "tags \<Rightarrow> tags \<Rightarrow> tags \<times> string list"
  BuildTagResourceName :: "string \<Rightarrow> string \<Rightarrow> string \<Rightarrow> string \<Rightarrow> string"

subsection \<open>CBS disks\<close>

text \<open>
  \<open>cbs.Disk\<close> of the vendor SDK, as far as the storage resource reads it, and the
  methods of \<open>CbsService\<close>.  \<open>DescribeDiskById\<close> returns a nil disk when the API knows
  no disk of that ID.  Pointer fields that the provider dereferences without a nil
  test (here \<open>DiskState\<close> and \<open>Placement\<close>) are plain values: the API sends them with
  every disk.
\<close>

record Placement =
  Zone :: "string option"
  PlacementProjectId :: "int option"

record Disk =
  DiskType :: "string option"
  DiskSize :: "int option"
  DiskPlacement :: Placement
  DiskName :: "string option"
  Encrypt :: "bool option"
  DiskTags :: tags
  DiskState :: string
  Attached :: "bool option"

record cbs_api =
  api_DescribeDiskById :: "nat \<Rightarrow> string \<Rightarrow> err + Disk option"
  api_ModifyDiskAttributes :: "nat \<Rightarrow> string \<Rightarrow> string \<Rightarrow> int \<Rightarrow> err option"
  api_ResizeDisk :: "nat \<Rightarrow> string \<Rightarrow> int \<Rightarrow> err option"
  api_ApplySnapshot :: "nat \<Rightarrow> string \<Rightarrow> string \<Rightarrow> err option"
  api_DeleteDiskById :: "nat \<Rightarrow> string \<Rightarrow> err option"

definition DescribeDiskById :: "cbs_api \<Rightarrow> string \<Rightarrow> trace \<Rightarrow> (err + Disk option) \<times> trace" where
  "DescribeDiskById cbs diskId tr =
     (api_DescribeDiskById cbs (length tr) diskId,
      tr @ [Call ''DescribeDiskById'' [VString diskId]])"

definition ModifyDiskAttributes :: "cbs_api \<Rightarrow> string \<Rightarrow> string \<Rightarrow> int \<Rightarrow> trace \<Rightarrow> err option \<times> trace" where
  "ModifyDiskAttributes cbs diskId name projectId tr =
     (api_ModifyDiskAttributes cbs (length tr) diskId name projectId,
      tr @ [Call ''ModifyDiskAttributes'' [VString diskId, VString name, VInt projectId]])"

definition ResizeDisk :: "cbs_api \<Rightarrow> string \<Rightarrow> int \<Rightarrow> trace \<Rightarrow> err option \<times> trace" where
  "ResizeDisk cbs diskId diskSize tr =
     (api_ResizeDisk cbs (length tr) diskId diskSize,
      tr @ [Call ''ResizeDisk'' [VString diskId, VInt diskSize]])"

definition ApplySnapshot :: "cbs_api \<Rightarrow> string \<Rightarrow> string \<Rightarrow> trace \<Rightarrow> err option \<times> trace" where
  "ApplySnapshot cbs diskId snapshotId tr =
     (api_ApplySnapshot cbs (length tr) diskId snapshotId,
      tr @ [Call ''ApplySnapshot'' [VString diskId, VString snapshotId]])"

definition DeleteDiskById :: "cbs_api \<Rightarrow> string \<Rightarrow> trace \<Rightarrow> err option \<times> trace" where
  "DeleteDiskById cbs diskId tr =
     (api_DeleteDiskById cbs (length tr) diskId,
      tr @ [Call ''DeleteDiskById'' [VString diskId]])"

section \<open>The CBS storage resource\<close>

text \<open>
  An operation is a sequence of steps; a step that fails ends the operation with its
  error (\<open>if err != nil { return err }\<close>).
\<close>

definition andThen :: "err option \<times> 'a \<Rightarrow> ('a \<Rightarrow> err option \<times> 'a) \<Rightarrow> err option \<times> 'a" where
  "andThen r f = (case r of (Some e, s) \<Rightarrow> (Some e, s) | (None, s) \<Rightarrow> f s)"

text \<open>A callback that calls an API method and hands a failure to \<open>retryError\<close>.\<close>

definition callRetry :: "settings \<Rightarrow> string list \<Rightarrow> (trace \<Rightarrow> err option \<times> trace) \<Rightarrow>
    trace \<Rightarrow> RetryError option \<times> trace" where
  "callRetry cf codes api tr =
     (case api tr of
        (Some e, tr) \<Rightarrow> (Some (retryError cf e codes), tr)
      | (None, tr) \<Rightarrow> (None, tr))"

definition resourceTencentCloudCbsStorageRead :: "settings \<Rightarrow> cbs_api \<Rightarrow> ResourceData \<Rightarrow> trace \<Rightarrow>
    err option \<times> ResourceData \<times> trace" where
  "resourceTencentCloudCbsStorageRead cf cbs d tr =
     (let storageId = ResourceId d in
      case Retry (readRetryTimeout cf)
             (\<lambda>s. case DescribeDiskById cbs storageId (snd s) of
                    (Inl e, tr) \<Rightarrow> (Some (retryError cf e []), (None, tr))
                  | (Inr storage, tr) \<Rightarrow> (None, (storage, tr)))
             (None, tr) of
        (Some err, (_, tr)) \<Rightarrow> (Some err, d, tr)
      | (None, (None, tr)) \<Rightarrow> (None, SetId d [], tr)
      | (None, (Some storage, tr)) \<Rightarrow>
          (let d = Set d ''storage_type'' (strPtr (DiskType storage));
               d = Set d ''storage_size'' (intPtr (DiskSize storage));
               d = Set d ''availability_zone'' (strPtr (Zone (DiskPlacement storage)));
               d = Set d ''storage_name'' (strPtr (DiskName storage));
               d = Set d ''project_id'' (intPtr (PlacementProjectId (DiskPlacement storage)));
               d = Set d ''encrypt'' (boolPtr (Encrypt storage));
               d = Set d ''tags'' (VTags (DiskTags storage));
               d = Set d ''storage_status'' (VString (DiskState storage));
               d = Set d ''attached'' (boolPtr (Attached storage))
           in (None, d, tr)))"

text \<open>
  The callback of the poll after a resize: the disk is described again; a disk that
  is there and in the state \<open>EXPANDING\<close> is a retryable error, everything else that
  is no API failure ends the poll.
\<close>

definition expandingRetry :: "settings \<Rightarrow> cbs_api \<Rightarrow> string \<Rightarrow> trace \<Rightarrow> RetryError option \<times> trace" where
  "expandingRetry cf cbs storageId tr =
     (case DescribeDiskById cbs storageId tr of
        (Inl e, tr) \<Rightarrow> (Some (retryError cf e []), tr)
      | (Inr storage, tr) \<Rightarrow>
          (case storage of
             Some disk \<Rightarrow>
               if DiskState disk = CBS_STORAGE_STATUS_EXPANDING cf
               then (Some (RetryableError (Error (''cbs storage status is '' @ DiskState disk))), tr)
               else (None, tr)
           | None \<Rightarrow> (None, tr)))"

definition rollbackingRetry :: "settings \<Rightarrow> cbs_api \<Rightarrow> string \<Rightarrow> trace \<Rightarrow> RetryError option \<times> trace" where
  "rollbackingRetry cf cbs storageId tr =
     (case DescribeDiskById cbs storageId tr of
        (Inl e, tr) \<Rightarrow> (Some (retryError cf e []), tr)
      | (Inr storage, tr) \<Rightarrow>
          (case storage of
             Some disk \<Rightarrow>
               if DiskState disk = CBS_STORAGE_STATUS_ROLLBACKING cf
               then (Some (RetryableError (Error (''cbs storage status is '' @ DiskState disk))), tr)
               else (None, tr)
           | None \<Rightarrow> (None, tr)))"

text \<open>The four parts of \<open>Update\<close>, in the order of the source.\<close>

definition cbsUpdateAttributes :: "settings \<Rightarrow> cbs_api \<Rightarrow> ResourceData \<times> trace \<Rightarrow>
    err option \<times> (ResourceData \<times> trace)" where
  "cbsUpdateAttributes cf cbs s =
     (case s of (d, tr) \<Rightarrow>
      let storageId = ResourceId d;
          storageName = (if HasChange d ''storage_name'' then GetString d ''storage_name'' else []);
          projectId = (if HasChange d ''project_id'' then GetInt d ''project_id'' else - 1);
          changed = (HasChange d ''storage_name'' \<or> HasChange d ''project_id'')
      in if changed then
           (case Retry (writeRetryTimeout cf)
                   (callRetry cf [] (ModifyDiskAttributes cbs storageId storageName projectId)) tr of
              (Some err, tr) \<Rightarrow> (Some err, (d, tr))
            | (None, tr) \<Rightarrow>
                (let d = (if HasChange d ''storage_name'' then SetPartial d ''storage_name'' else d);
                     d = (if HasChange d ''project_id'' then SetPartial d ''project_id'' else d)
                 in (None, (d, tr))))
         else (None, (d, tr)))"

definition cbsUpdateSize :: "settings \<Rightarrow> cbs_api \<Rightarrow> ResourceData \<times> trace \<Rightarrow>
    err option \<times> (ResourceData \<times> trace)" where
  "cbsUpdateSize cf cbs s =
     (case s of (d, tr) \<Rightarrow>
      let storageId = ResourceId d in
      if HasChange d ''storage_size'' then
        (let oldValue = oldInt d ''storage_size'';
             newValue = newInt d ''storage_size''
         in if oldValue > newValue
            then (Some (Error ''storage size must be greater than current storage size''), (d, tr))
            else (case Retry (writeRetryTimeout cf)
                         (callRetry cf [] (ResizeDisk cbs storageId newValue)) tr of
                    (Some err, tr) \<Rightarrow> (Some err, (d, tr))
                  | (None, tr) \<Rightarrow>
                      (case Retry (readRetryTimeout cf) (expandingRetry cf cbs storageId) tr of
                         (Some err, tr) \<Rightarrow> (Some err, (d, tr))
                       | (None, tr) \<Rightarrow> (None, (SetPartial d ''storage_size'', tr)))))
      else (None, (d, tr)))"

definition cbsUpdateSnapshot :: "settings \<Rightarrow> cbs_api \<Rightarrow> ResourceData \<times> trace \<Rightarrow>
    err option \<times> (ResourceData \<times> trace)" where
  "cbsUpdateSnapshot cf cbs s =
     (case s of (d, tr) \<Rightarrow>
      let storageId = ResourceId d in
      if HasChange d ''snapshot_id'' then
        (let snapshotId = GetString d ''snapshot_id'' in
         case Retry (writeRetryTimeout cf)
                (callRetry cf [] (ApplySnapshot cbs storageId snapshotId)) tr of
           (Some err, tr) \<Rightarrow> (Some err, (d, tr))
         | (None, tr) \<Rightarrow>
             (case Retry (readRetryTimeout cf) (rollbackingRetry cf cbs storageId) tr of
                (Some err, tr) \<Rightarrow> (Some err, (d, tr))
              | (None, tr) \<Rightarrow> (None, (SetPartial d ''snapshot_id'', tr))))
      else (None, (d, tr)))"

definition cbsUpdateTags :: "settings \<Rightarrow> helpers \<Rightarrow> tag_api \<Rightarrow> ResourceData \<times> trace \<Rightarrow>
    err option \<times> (ResourceData \<times> trace)" where
  "cbsUpdateTags cf hp tg s =
     (case s of (d, tr) \<Rightarrow>
      let storageId = ResourceId d in
      if HasChange d ''tags'' then
        (case diffTags hp (oldTags d ''tags'') (newTags d ''tags'') of
           (replaceTags, deleteTags) \<Rightarrow>
             (let region = Region cf;
                  resourceName = ''qcs::cvm:'' @ region @ '':uin/:volume/'' @ storageId
              in case ModifyTags tg resourceName replaceTags deleteTags tr of
                   (Some err, tr) \<Rightarrow> (Some err, (d, tr))
                 | (None, tr) \<Rightarrow> (None, (SetPartial d ''tags'', tr))))
      else (None, (d, tr)))"

definition resourceTencentCloudCbsStorageUpdate :: "settings \<Rightarrow> helpers \<Rightarrow> cbs_api \<Rightarrow> tag_api \<Rightarrow>
    ResourceData \<Rightarrow> trace \<Rightarrow> err option \<times> ResourceData \<times> trace" where
  "resourceTencentCloudCbsStorageUpdate cf hp cbs tg d tr =
     andThen (andThen (andThen (andThen (cbsUpdateAttributes cf cbs (Partial d True, tr))
       (cbsUpdateSize cf cbs))
       (cbsUpdateSnapshot cf cbs))
       (cbsUpdateTags cf hp tg))
       (\<lambda>s. (None, (Partial (fst s) False, snd s)))"

definition resourceTencentCloudCbsStorageDelete :: "settings \<Rightarrow> cbs_api \<Rightarrow> ResourceData \<Rightarrow> trace \<Rightarrow>
    err option \<times> ResourceData \<times> trace" where
  "resourceTencentCloudCbsStorageDelete cf cbs d tr =
     (let storageId = ResourceId d in
      case Retry (writeRetryTimeout cf)
             (callRetry cf [InternalError cf] (DeleteDiskById cbs storageId)) tr of
        (Some err, tr) \<Rightarrow> (Some err, d, tr)
      | (None, tr) \<Rightarrow> (None, d, tr))"

subsection \<open>VPN gateways\<close>

text \<open>
  \<open>vpc.VpnGateway\<close> of the vendor SDK and the three API actions the VPN gateway
  resource uses.  \<open>ExpiredTime\<close> is tested for nil by \<open>Delete\<close> and is an option; the
  other fields are dereferenced without a test.  \<open>time_Until\<close> stands for
  \<open>time.Parse\<close> followed by \<open>time.Until\<close>: the error of \<open>time.Parse\<close> when the time
  does not parse, otherwise the duration until it, which depends on the clock.
\<close>

record VpnGateway =
  VpnGatewayName :: string
  PublicIpAddress :: string
  InternetMaxBandwidthOut :: int
  VpnType :: string
  CreatedTime :: string
  VpnState :: string
  RenewFlag :: string
  InstanceChargeType :: string
  ExpiredTime :: "string option"
  IsAddressBlocked :: bool
  NewPurchasePlan :: string
  RestrictState :: string
  VpnZone :: string

record vpn_api =
  api_DescribeVpnGateways :: "nat \<Rightarrow> string list \<Rightarrow> err + VpnGateway list"
  api_DescribeVpnConnections :: "nat \<Rightarrow> (string \<times> string) list \<Rightarrow> err + string list"
  api_DeleteVpnGateway :: "nat \<Rightarrow> string \<Rightarrow> err option"
  time_Until :: "nat \<Rightarrow> string \<Rightarrow> err + int"

definition DescribeVpnGateways :: "vpn_api \<Rightarrow> string list \<Rightarrow> trace \<Rightarrow> (err + VpnGateway list) \<times> trace" where
  "DescribeVpnGateways vpn ids tr =
     (api_DescribeVpnGateways vpn (length tr) ids,
      tr @ [Call ''DescribeVpnGateways'' [VStrings ids]])"

definition DescribeVpnConnections :: "vpn_api \<Rightarrow> (string \<times> string) list \<Rightarrow> trace \<Rightarrow>
    (err + string list) \<times> trace" where
  "DescribeVpnConnections vpn filters tr =
     (api_DescribeVpnConnections vpn (length tr) filters,
      tr @ [Call ''DescribeVpnConnections'' [VTags filters]])"

definition DeleteVpnGateway :: "vpn_api \<Rightarrow> string \<Rightarrow> trace \<Rightarrow> err option \<times> trace" where
  "DeleteVpnGateway vpn gatewayId tr =
     (api_DeleteVpnGateway vpn (length tr) gatewayId,
      tr @ [Call ''DeleteVpnGateway'' [VString gatewayId]])"

section \<open>The VPN gateway resource\<close>

text \<open>
  A Go function returns, or it panics: \<open>Read\<close> dereferences the response of
  \<open>DescribeVpnGateways\<close>, which is still nil when the callback has ended the retry
  loop on the not-found code, and the \<open>ExpiredTime\<close> of the gateway.
\<close>

datatype outcome = Returns "err option" | Panics

definition vpnReadRetry :: "settings \<Rightarrow> vpn_api \<Rightarrow> string \<Rightarrow>
    VpnGateway list option \<times> trace \<Rightarrow> RetryError option \<times> (VpnGateway list option \<times> trace)" where
  "vpnReadRetry cf vpn gatewayId s =
     (case s of (response, tr) \<Rightarrow>
      case DescribeVpnGateways vpn [gatewayId] tr of
        (Inl e, tr) \<Rightarrow>
          (case e of
             TceCloudSDKError code msg requestId \<Rightarrow>
               if code = VPCNotFound cf then (None, (response, tr))
               else (Some (retryError cf e []), (response, tr))
           | _ \<Rightarrow> (Some (retryError cf e []), (response, tr)))
      | (Inr result, tr) \<Rightarrow> (None, (Some result, tr)))"

definition resourceTencentCloudVpnGatewayRead :: "settings \<Rightarrow> vpn_api \<Rightarrow> tag_api \<Rightarrow>
    ResourceData \<Rightarrow> trace \<Rightarrow> outcome \<times> ResourceData \<times> trace" where
  "resourceTencentCloudVpnGatewayRead cf vpn tg d tr =
     (let gatewayId = ResourceId d in
      case Retry (readRetryTimeout cf) (vpnReadRetry cf vpn gatewayId) (None, tr) of
        (Some err, (_, tr)) \<Rightarrow> (Returns (Some err), d, tr)
      | (None, (None, tr)) \<Rightarrow> (Panics, d, tr)
      | (None, (Some VpnGatewaySet, tr)) \<Rightarrow>
          (case VpnGatewaySet of
             [] \<Rightarrow> (Returns None, SetId d [], tr)
           | gateway # _ \<Rightarrow>
               (let d = Set d ''name'' (VString (VpnGatewayName gateway));
                    d = Set d ''public_ip_address'' (VString (PublicIpAddress gateway));
                    d = Set d ''bandwidth'' (VInt (InternetMaxBandwidthOut gateway));
                    d = Set d ''type'' (VString (VpnType gateway));
                    d = Set d ''create_time'' (VString (CreatedTime gateway));
                    d = Set d ''state'' (VString (VpnState gateway));
                    d = Set d ''prepaid_renew_flag'' (VString (RenewFlag gateway));
                    d = Set d ''charge_type'' (VString (InstanceChargeType gateway))
                in case ExpiredTime gateway of
                     None \<Rightarrow> (Panics, d, tr)
                   | Some expiredTime \<Rightarrow>
                       (let d = Set d ''expired_time'' (VString expiredTime);
                            d = Set d ''is_address_blocked'' (VBool (IsAddressBlocked gateway));
                            d = Set d ''new_purchase_plan'' (VString (NewPurchasePlan gateway));
                            d = Set d ''restrict_state'' (VString (RestrictState gateway));
                            d = Set d ''zone'' (VString (VpnZone gateway))
                        in case DescribeResourceTags tg ''vpc'' ''vpngw'' (Region cf) gatewayId tr of
                             (Inl err, tr) \<Rightarrow> (Returns (Some err), d, tr)
                           | (Inr tags, tr) \<Rightarrow> (Returns None, Set d ''tags'' (VTags tags), tr)))))"

text \<open>The four retry loops of \<open>Delete\<close>, in the order of the source.\<close>

definition vpnChargeRetry :: "settings \<Rightarrow> vpn_api \<Rightarrow> string \<Rightarrow> trace \<Rightarrow> RetryError option \<times> trace" where
  "vpnChargeRetry cf vpn gatewayId tr =
     (case DescribeVpnGateways vpn [gatewayId] tr of
        (Inl e, tr') \<Rightarrow> (Some (retryError cf e []), tr')
      | (Inr VpnGatewaySet, tr') \<Rightarrow>
          (case VpnGatewaySet of
             [] \<Rightarrow> (None, tr')
           | gateway # _ \<Rightarrow>
               (case ExpiredTime gateway of
                  Some expiredTime \<Rightarrow>
                    if InstanceChargeType gateway = VPN_CHARGE_TYPE_PREPAID cf then
                      (if expiredTime \<noteq> ''0000-00-00 00:00:00'' then
                         (case time_Until vpn (length tr) expiredTime of
                            Inl err \<Rightarrow>
                              (Some (NonRetryableError (Error (''Error format expired time.''
                                 @ Sprintf_x expiredTime @ '' '' @ ErrorText cf err))), tr')
                          | Inr t \<Rightarrow>
                              if t > 0 then
                                (Some (NonRetryableError (Error
                                   ''Delete operation is unsupport when VPN gateway is not expired.'')), tr')
                              else (None, tr'))
                       else (None, tr'))
                    else (None, tr')
                | None \<Rightarrow> (None, tr'))))"

definition vpnTunnelRetry :: "settings \<Rightarrow> vpn_api \<Rightarrow> (string \<times> string) list \<Rightarrow> trace \<Rightarrow>
    RetryError option \<times> trace" where
  "vpnTunnelRetry cf vpn filters tr =
     (case DescribeVpnConnections vpn filters tr of
        (Inl e, tr) \<Rightarrow> (Some (retryError cf e []), tr)
      | (Inr VpnConnectionSet, tr) \<Rightarrow>
          if length VpnConnectionSet = 0 then (None, tr)
          else (Some (NonRetryableError (Error
                  ''There is associated tunnel exists, please delete associated tunnels first.'')), tr))"

text \<open>
  The poll that ends \<open>Delete\<close>: the gateway is described again until the result set is
  empty or the API answers with the not-found code.
\<close>

definition vpnGoneRetry :: "settings \<Rightarrow> vpn_api \<Rightarrow> string \<Rightarrow> trace \<Rightarrow> RetryError option \<times> trace" where
  "vpnGoneRetry cf vpn gatewayId tr =
     (case DescribeVpnGateways vpn [gatewayId] tr of
        (Inl e, tr) \<Rightarrow>
          (case e of
             TceCloudSDKError code msg requestId \<Rightarrow>
               if code = VPCNotFound cf then (None, tr)
               else (Some (retryError cf e []), tr)
           | _ \<Rightarrow> (Some (retryError cf e []), tr))
      | (Inr VpnGatewaySet, tr) \<Rightarrow>
          if length VpnGatewaySet = 0 then (None, tr)
          else (Some (RetryableError (Error ''deleting retry'')), tr))"

definition resourceTencentCloudVpnGatewayDelete :: "settings \<Rightarrow> vpn_api \<Rightarrow> ResourceData \<Rightarrow> trace \<Rightarrow>
    err option \<times> ResourceData \<times> trace" where
  "resourceTencentCloudVpnGatewayDelete cf vpn d tr =
     (let gatewayId = ResourceId d in
      case Retry (readRetryTimeout cf) (vpnChargeRetry cf vpn gatewayId) tr of
        (Some chargeErr, tr) \<Rightarrow> (Some chargeErr, d, tr)
      | (None, tr) \<Rightarrow>
          (let params = [(''vpn-gateway-id'', gatewayId)];
               params = (case GetOkString d ''vpc_id'' of
                           (v, ok) \<Rightarrow> if ok then params @ [(''vpc-id'', v)] else params)
           in case Retry (readRetryTimeout cf) (vpnTunnelRetry cf vpn params) tr of
                (Some tErr, tr) \<Rightarrow> (Some tErr, d, tr)
              | (None, tr) \<Rightarrow>
                  (case Retry (writeRetryTimeout cf)
                          (callRetry cf [] (DeleteVpnGateway vpn gatewayId)) tr of
                     (Some err, tr) \<Rightarrow> (Some err, d, tr)
                   | (None, tr) \<Rightarrow>
                       (case Retry (readRetryTimeout cf) (vpnGoneRetry cf vpn gatewayId) tr of
                          (Some err, tr) \<Rightarrow> (Some err, d, tr)
                        | (None, tr) \<Rightarrow> (None, d, tr)))))"

subsection \<open>TKE clusters and CVM instances\<close>

text \<open>
  What the cluster attachment resource reads: whether the cluster exists, the CVM
  instance, and the workers of the cluster.
\<close>

record Instance =
  LoginKeyIds :: "string list"
  SecurityGroupIds :: "string list"

record tke_api =
  api_DescribeCluster :: "nat \<Rightarrow> string \<Rightarrow> err + bool"
  api_DescribeInstanceById :: "nat \<Rightarrow> string \<Rightarrow> err + Instance option"
  api_DescribeClusterInstances :: "nat \<Rightarrow> string \<Rightarrow> err + string list"

definition DescribeCluster :: "tke_api \<Rightarrow> string \<Rightarrow> trace \<Rightarrow> (err + bool) \<times> trace" where
  "DescribeCluster tke clusterId tr =
     (api_DescribeCluster tke (length tr) clusterId,
      tr @ [Call ''DescribeCluster'' [VString clusterId]])"

definition DescribeInstanceById :: "tke_api \<Rightarrow> string \<Rightarrow> trace \<Rightarrow> (err + Instance option) \<times> trace" where
  "DescribeInstanceById tke instanceId tr =
     (api_DescribeInstanceById tke (length tr) instanceId,
      tr @ [Call ''DescribeInstanceById'' [VString instanceId]])"

definition DescribeClusterInstances :: "tke_api \<Rightarrow> string \<Rightarrow> trace \<Rightarrow> (err + string list) \<times> trace" where
  "DescribeClusterInstances tke clusterId tr =
     (api_DescribeClusterInstances tke (length tr) clusterId,
      tr @ [Call ''DescribeClusterInstances'' [VString clusterId]])"

section \<open>The cluster attachment resource\<close>

text \<open>
  \<open>Read\<close> asks three things in turn: is the cluster there, is the instance there, is
  the instance among the workers of the cluster.  The first and the third question
  are asked once directly and again in a retry loop when the direct call fails.  An
  API call that is retried keeps the last answer in the variables the callback
  captures.
\<close>

definition describeClusterRetry :: "settings \<Rightarrow> tke_api \<Rightarrow> string \<Rightarrow>
    bool \<times> trace \<Rightarrow> RetryError option \<times> (bool \<times> trace)" where
  "describeClusterRetry cf tke clusterId s =
     (case DescribeCluster tke clusterId (snd s) of
        (Inl err, tr) \<Rightarrow> (Some (retryError cf err [InternalError cf]), (False, tr))
      | (Inr has, tr) \<Rightarrow> (None, (has, tr)))"

definition describeInstanceRetry :: "settings \<Rightarrow> tke_api \<Rightarrow> string \<Rightarrow>
    Instance option \<times> trace \<Rightarrow> RetryError option \<times> (Instance option \<times> trace)" where
  "describeInstanceRetry cf tke instanceId s =
     (case DescribeInstanceById tke instanceId (snd s) of
        (Inl err, tr) \<Rightarrow> (Some (retryError cf err [InternalError cf]), (None, tr))
      | (Inr instance, tr) \<Rightarrow> (None, (instance, tr)))"

definition describeWorkersRetry :: "settings \<Rightarrow> tke_api \<Rightarrow> string \<Rightarrow>
    string list \<times> trace \<Rightarrow> RetryError option \<times> (string list \<times> trace)" where
  "describeWorkersRetry cf tke clusterId s =
     (case DescribeClusterInstances tke clusterId (snd s) of
        (Inl err, tr) \<Rightarrow> (Some (retryError cf err [InternalError cf]), ([], tr))
      | (Inr workers, tr) \<Rightarrow> (None, (workers, tr)))"

definition tkeAttachmentReadInstance :: "settings \<Rightarrow> tke_api \<Rightarrow> string \<Rightarrow> string \<Rightarrow>
    ResourceData \<Rightarrow> trace \<Rightarrow> err option \<times> ResourceData \<times> trace" where
  "tkeAttachmentReadInstance cf tke instanceId clusterId d tr =
     (case Retry (readRetryTimeout cf) (describeInstanceRetry cf tke instanceId) (None, tr) of
        (Some err, (_, tr)) \<Rightarrow> (Some err, d, tr)
      | (None, (None, tr)) \<Rightarrow> (None, SetId d [], tr)
      | (None, (Some instance, tr)) \<Rightarrow>
          (case (case DescribeClusterInstances tke clusterId tr of
                   (Inl err, tr) \<Rightarrow>
                     Retry (readRetryTimeout cf) (describeWorkersRetry cf tke clusterId) ([], tr)
                 | (Inr workers, tr) \<Rightarrow> (None, (workers, tr))) of
             (Some err, (_, tr)) \<Rightarrow> (Some err, d, tr)
           | (None, (workers, tr)) \<Rightarrow>
               (let has = (instanceId \<in> set workers) in
                if \<not> has then (None, SetId d [], tr)
                else
                  (let d = (if length (LoginKeyIds instance) > 0
                            then Set d ''key_ids'' (VStrings (LoginKeyIds instance)) else d);
                       d = Set d ''security_groups'' (VStrings (SecurityGroupIds instance))
                   in (None, d, tr)))))"

definition resourceTencentCloudTkeClusterAttachmentRead :: "settings \<Rightarrow> tke_api \<Rightarrow>
    ResourceData \<Rightarrow> trace \<Rightarrow> err option \<times> ResourceData \<times> trace" where
  "resourceTencentCloudTkeClusterAttachmentRead cf tke d tr =
     (case Split (ResourceId d) CHR ''_'' of
        [instanceId, clusterId] \<Rightarrow>
          (case (case DescribeCluster tke clusterId tr of
                   (Inl err, tr) \<Rightarrow>
                     Retry (readRetryTimeout cf) (describeClusterRetry cf tke clusterId) (False, tr)
                 | (Inr has, tr) \<Rightarrow> (None, (has, tr))) of
             (Some err, (_, tr)) \<Rightarrow> (None, d, tr)
           | (None, (has, tr)) \<Rightarrow>
               if \<not> has then (None, SetId d [], tr)
               else tkeAttachmentReadInstance cf tke instanceId clusterId d tr)
      | _ \<Rightarrow> (Some (Error ''the resource id is corrupted''), d, tr))"

section \<open>The Redis service\<close>

text \<open>
  \<open>strconv.ParseInt(s, 10, 64)\<close>: an optional sign, then decimal digits; the value must
  fit into a signed 64-bit integer.
\<close>

definition ParseInt :: "string \<Rightarrow> int option" where
  "ParseInt s =
     (case s of
        [] \<Rightarrow> None
      | c # cs \<Rightarrow>
          if c = CHR ''+'' \<or> c = CHR ''-'' then
            (if cs = [] then None
             else case parseDigits 0 cs of
                    None \<Rightarrow> None
                  | Some n \<Rightarrow>
                      if c = CHR ''-'' then (if n \<le> 2 ^ 63 then Some (- int n) else None)
                      else (if n < 2 ^ 63 then Some (int n) else None))
          else (case parseDigits 0 s of
                  None \<Rightarrow> None
                | Some n \<Rightarrow> if n < 2 ^ 63 then Some (int n) else None))"

text \<open>Signed 64-bit arithmetic wraps around.\<close>

definition wrap64 :: "int \<Rightarrow> int" where
  "wrap64 x = (x + 2 ^ 63) mod 2 ^ 64 - 2 ^ 63"

text \<open>
  The status and type tables of the provider (\<open>REDIS_STATUS\<close>, \<open>REDIS_NAMES\<close>: Go maps
  from numbers to names, where a missing key reads as the empty string) and the status
  numbers are declared outside the sources and are parameters.
\<close>

record redis_consts =
  REDIS_NAMES :: "int \<Rightarrow> string"
  REDIS_STATUS :: "int \<Rightarrow> string"
  REDIS_STATUS_INIT :: int
  REDIS_STATUS_PROCESSING :: int
  REDIS_STATUS_ONLINE :: int
  REDIS_STATUS_ISOLATE :: int
  REDIS_STATUS_TODELETE :: int

text \<open>
  The vendor SDK's Redis structures, as far as the provider reads them.  Fields
  tested for nil are options.  \<open>Size\<close> is the size as the integer the provider
  converts it to.
\<close>

record InstanceTagInfo =
  TagKey :: "string option"
  TagValue :: "string option"

record InstanceSet =
  InstanceName :: string
  InstanceId :: string
  ZoneId :: int
  RedisType :: int
  RedisStatus :: int
  Createtime :: string
  WanIp :: string
  Size :: int
  Port :: int
  ProjectId :: int
  UniqSubnetId :: string
  UniqVpcId :: string
  RedisReplicasNum :: "int option"
  RedisShardNum :: "int option"
  InstanceTags :: "InstanceTagInfo list"

record DescribeInstancesRequest =
  ReqInstanceId :: "string option"
  ReqLimit :: "nat option"
  ReqOffset :: "nat option"
  ReqSearchKey :: "string option"
  ReqProjectIds :: "int list"

record DescribeInstancesResponse =
  TotalCount :: int
  RespInstanceSet :: "InstanceSet list"

text \<open>
  The Redis and CVM API actions behind the service, the method
  \<open>RedisService.CreateInstances\<close> in the form the instance resource calls it (with
  the type as a name; this form of the method is not among the sources), and the
  order in which Go ranges over the zone map, which the language leaves open.
\<close>

type_synonym zoneMap = "(int \<times> string) list"

record redis_api =
  api_DescribeZones :: "nat \<Rightarrow> err + (string \<times> string) list"
  api_DescribeInstances :: "nat \<Rightarrow> DescribeInstancesRequest \<Rightarrow> err + DescribeInstancesResponse"
  api_DescribeInstanceSecurityGroup :: "nat \<Rightarrow> string list \<Rightarrow> err + (string \<times> string list) list"
  svc_CreateInstances :: "nat \<Rightarrow> string \<Rightarrow> string \<Rightarrow> string \<Rightarrow> string \<Rightarrow> string \<Rightarrow> string \<Rightarrow>
    int \<Rightarrow> int \<Rightarrow> int \<Rightarrow> string list \<Rightarrow> err + string"
  mapRange :: "zoneMap \<Rightarrow> zoneMap"

definition NewDescribeInstancesRequest :: DescribeInstancesRequest where
  "NewDescribeInstancesRequest =
     \<lparr> ReqInstanceId = None, ReqLimit = None, ReqOffset = None, ReqSearchKey = None,
       ReqProjectIds = [] \<rparr>"

definition natPtr :: "nat option \<Rightarrow> val" where
  "natPtr p = (case p of None \<Rightarrow> VNil | Some n \<Rightarrow> VInt (int n))"

definition RedisDescribeInstances :: "redis_api \<Rightarrow> DescribeInstancesRequest \<Rightarrow> trace \<Rightarrow>
    (err + DescribeInstancesResponse) \<times> trace" where
  "RedisDescribeInstances redis request tr =
     (api_DescribeInstances redis (length tr) request,
      tr @ [Call ''DescribeInstances''
              [strPtr (ReqInstanceId request), natPtr (ReqOffset request), natPtr (ReqLimit request)]])"

definition DescribeZones :: "redis_api \<Rightarrow> trace \<Rightarrow> (err + (string \<times> string) list) \<times> trace" where
  "DescribeZones redis tr = (api_DescribeZones redis (length tr), tr @ [Call ''DescribeZones'' []])"

definition RedisCreateInstances :: "redis_api \<Rightarrow> string \<Rightarrow> string \<Rightarrow> string \<Rightarrow> string \<Rightarrow> string \<Rightarrow> string \<Rightarrow>
    int \<Rightarrow> int \<Rightarrow> int \<Rightarrow> string list \<Rightarrow> trace \<Rightarrow> (err + string) \<times> trace" where
  "RedisCreateInstances redis zoneName redisType password vpcId subnetId redisName memSize
       projectId port securityGroups tr =
     (svc_CreateInstances redis (length tr) zoneName redisType password vpcId subnetId redisName
        memSize projectId port securityGroups,
      tr @ [Call ''CreateInstances'' [VString zoneName, VString redisType, VString vpcId,
              VString subnetId, VString redisName, VInt memSize, VInt projectId, VInt port,
              VStrings securityGroups]])"

text \<open>\<open>fullZoneId\<close>, \<open>getZoneId\<close> and \<open>getZoneName\<close>; the zone map is the state of the service.\<close>

fun fillZoneMap :: "(string \<times> string) list \<Rightarrow> zoneMap \<Rightarrow> err option \<times> zoneMap" where
  "fillZoneMap [] zm = (None, zm)"
| "fillZoneMap ((itemZoneId, itemZone) # items) zm =
     (case ParseInt itemZoneId of
        None \<Rightarrow> (Some (Error (''[sdk]DescribeZones return ZoneId is not illegal,'' @ itemZoneId)), zm)
      | Some zoneId \<Rightarrow> fillZoneMap items (AList.update zoneId itemZone zm))"

definition fullZoneId :: "redis_api \<Rightarrow> zoneMap \<Rightarrow> trace \<Rightarrow> err option \<times> zoneMap \<times> trace" where
  "fullZoneId redis zm tr =
     (if length zm \<noteq> 0 then (None, zm, tr)
      else case DescribeZones redis tr of
             (Inl err, tr) \<Rightarrow> (Some err, zm, tr)
           | (Inr ZoneSet, tr) \<Rightarrow> (case fillZoneMap ZoneSet zm of (e, zm) \<Rightarrow> (e, zm, tr)))"

definition getZoneId :: "redis_api \<Rightarrow> string \<Rightarrow> zoneMap \<Rightarrow> trace \<Rightarrow> (err + int) \<times> zoneMap \<times> trace" where
  "getZoneId redis name zm tr =
     (case fullZoneId redis zm tr of
        (Some errRet, zm, tr) \<Rightarrow> (Inl errRet, zm, tr)
      | (None, zm, tr) \<Rightarrow>
          (case find (\<lambda>kv. snd kv = name) (mapRange redis zm) of
             Some kv \<Rightarrow> (Inr (fst kv), zm, tr)
           | None \<Rightarrow> (Inl (Error (''this redis zone '' @ name @ '' not support yet'')), zm, tr)))"

definition getZoneName :: "redis_api \<Rightarrow> int \<Rightarrow> zoneMap \<Rightarrow> trace \<Rightarrow> (err + string) \<times> zoneMap \<times> trace" where
  "getZoneName redis zid zm tr =
     (case fullZoneId redis zm tr of
        (Some errRet, zm, tr) \<Rightarrow> (Inl errRet, zm, tr)
      | (None, zm, tr) \<Rightarrow>
          (let name = (case map_of zm zid of Some n \<Rightarrow> n | None \<Rightarrow> []) in
           if name = []
           then (Inl (Error (''this redis zoneid '' @ Sprintf_d zid @ '' not support yet'')), zm, tr)
           else (Inr name, zm, tr)))"

text \<open>\<open>TencentCloudRedisDetail\<close>, the instance description the service returns.\<close>

record TencentCloudRedisDetail =
  RedisId :: string
  DetailName :: string
  DetailZone :: string
  DetailProjectId :: int
  TypeId :: int
  DetailType :: string
  MemSize :: int
  DetailStatus :: string
  DetailVpcId :: string
  DetailSubnetId :: string
  Ip :: string
  DetailPort :: int
  DetailRedisShardNum :: int
  DetailRedisReplicasNum :: int
  CreateTime :: string
  DetailTags :: tags

text \<open>The loop that copies the tags of an instance; a tag with a nil key or value is an error.\<close>

fun redisTags :: "string \<Rightarrow> string \<Rightarrow> InstanceTagInfo list \<Rightarrow> tags \<Rightarrow> err + tags" where
  "redisTags keyNil valueNil [] acc = Inr acc"
| "redisTags keyNil valueNil (tag # ts) acc =
     (case TagKey tag of
        None \<Rightarrow> Inl (Error keyNil)
      | Some k \<Rightarrow>
          (case TagValue tag of
             None \<Rightarrow> Inl (Error valueNil)
           | Some v \<Rightarrow> redisTags keyNil valueNil ts (AList.update k v acc)))"

text \<open>
  \<open>DescribeInstances\<close>: the loop over the instances of one page either goes on to the
  next page (\<open>Next\<close>) or returns from the function (\<open>Done\<close>), with the instances
  collected so far and the error.
\<close>

datatype flow = Next "TencentCloudRedisDetail list" zoneMap trace
  | Done "TencentCloudRedisDetail list" "err option" zoneMap trace

fun describeInstancesItems :: "redis_consts \<Rightarrow> redis_api \<Rightarrow> int \<Rightarrow> int \<Rightarrow> InstanceSet list \<Rightarrow>
    TencentCloudRedisDetail list \<Rightarrow> zoneMap \<Rightarrow> trace \<Rightarrow> flow" where
  "describeInstancesItems rc redis zoneId needLimit [] instances zm tr = Next instances zm tr"
| "describeInstancesItems rc redis zoneId needLimit (item # items) instances zm tr =
     (if zoneId \<noteq> - 1 \<and> ZoneId item \<noteq> zoneId
      then describeInstancesItems rc redis zoneId needLimit items instances zm tr
      else
        (case getZoneName redis (ZoneId item) zm tr of
           (Inl err, zm, tr) \<Rightarrow> Done instances (Some err) zm tr
         | (Inr name, zm, tr) \<Rightarrow>
             (case redisTags ''[CRITAL] api[DescribeInstances] redis instance tag key is nil''
                     ''[CRITAL] api[DescribeInstances] redis instance tag value is nil''
                     (InstanceTags item) [] of
                Inl err \<Rightarrow> Done [] (Some err) zm tr
              | Inr itemTags \<Rightarrow>
                  (let instance = \<lparr>
                         RedisId = InstanceId item,
                         DetailName = InstanceName item,
                         DetailZone = name,
                         DetailProjectId = ProjectId item,
                         TypeId = RedisType item,
                         DetailType = REDIS_NAMES rc (RedisType item),
                         MemSize = Size item,
                         DetailStatus = (if REDIS_STATUS rc (RedisStatus item) = [] then ''unknown''
                                         else REDIS_STATUS rc (RedisStatus item)),
                         DetailVpcId = UniqVpcId item,
                         DetailSubnetId = UniqSubnetId item,
                         Ip = WanIp item,
                         DetailPort = Port item,
                         DetailRedisShardNum = (case RedisShardNum item of Some n \<Rightarrow> n | None \<Rightarrow> 0),
                         DetailRedisReplicasNum =
                           (case RedisReplicasNum item of Some n \<Rightarrow> n | None \<Rightarrow> 0),
                         CreateTime = Createtime item,
                         DetailTags = itemTags \<rparr>;
                       instances = instances @ [instance]
                   in if needLimit > 0 \<and> int (length instances) \<ge> needLimit
                      then Done instances None zm tr
                      else describeInstancesItems rc redis zoneId needLimit items instances zm tr))))"

text \<open>
  The variables of the paging loop: the offset of the next request (the page size
  \<open>limit\<close> is the constant 2), the count of instances left, and whether that count has
  been taken from a response yet.
\<close>

record pager =
  offset :: nat
  leftNumber :: int
  leftNumberInit :: bool
  found :: "TencentCloudRedisDetail list"
  zones :: zoneMap
  calls :: trace

definition pageLimit :: nat where
  "pageLimit = 2"

text \<open>One pass from the label \<open>needMoreItems\<close> to the \<open>goto\<close>.\<close>

definition describeInstancesPage :: "redis_consts \<Rightarrow> redis_api \<Rightarrow> string \<Rightarrow> int \<Rightarrow> int \<Rightarrow> int \<Rightarrow>
    pager \<Rightarrow> flow + pager" where
  "describeInstancesPage rc redis searchKey projectId zoneId needLimit st =
     (let request = NewDescribeInstancesRequest
            \<lparr> ReqLimit := Some pageLimit, ReqOffset := Some (offset st),
              ReqSearchKey := (if searchKey \<noteq> [] then Some searchKey else None),
              ReqProjectIds := (if projectId \<ge> 0 then [projectId] else []) \<rparr>
      in case RedisDescribeInstances redis request (calls st) of
           (Inl err, tr) \<Rightarrow> Inl (Done (found st) (Some err) (zones st) tr)
         | (Inr response, tr) \<Rightarrow>
             (let left = (if \<not> leftNumberInit st then TotalCount response else leftNumber st);
                  left = wrap64 (left - int pageLimit);
                  off = (offset st + pageLimit) mod 2 ^ 64
              in case describeInstancesItems rc redis zoneId needLimit (RespInstanceSet response)
                        (found st) (zones st) tr of
                   Done instances errRet zm tr \<Rightarrow> Inl (Done instances errRet zm tr)
                 | Next instances zm tr \<Rightarrow>
                     if left < 0 then Inl (Done instances None zm tr)
                     else Inr \<lparr> offset = off, leftNumber = left, leftNumberInit = True,
                                found = instances, zones = zm, calls = tr \<rparr>))"

function describeInstancesFrom :: "redis_consts \<Rightarrow> redis_api \<Rightarrow> string \<Rightarrow> int \<Rightarrow> int \<Rightarrow> int \<Rightarrow>
    pager \<Rightarrow> flow" where
  "describeInstancesFrom rc redis searchKey projectId zoneId needLimit st =
     (case describeInstancesPage rc redis searchKey projectId zoneId needLimit st of
        Inl res \<Rightarrow> res
      | Inr st' \<Rightarrow> describeInstancesFrom rc redis searchKey projectId zoneId needLimit st')"
  by pat_completeness auto
termination
proof (relation "measure (\<lambda>(rc, redis, searchKey, projectId, zoneId, needLimit, st).
          if \<not> leftNumberInit st then 2 ^ 64 + 20
          else if - (2 ^ 63) \<le> leftNumber st - 2 \<and> leftNumber st - 2 < 2 ^ 63
               then nat (leftNumber st + 2 ^ 63) else 2 ^ 64 + 10)")
  show "wf (measure (\<lambda>(rc, redis, searchKey, projectId, zoneId, needLimit, st).
          if \<not> leftNumberInit st then 2 ^ 64 + 20
          else if - (2 ^ 63) \<le> leftNumber st - 2 \<and> leftNumber st - 2 < 2 ^ 63
               then nat (leftNumber st + 2 ^ 63) else 2 ^ 64 + 10))"
    by simp
next
  fix rc :: redis_consts and redis :: redis_api and searchKey :: string
    and projectId zoneId needLimit :: int and st st' :: pager
  assume step: "describeInstancesPage rc redis searchKey projectId zoneId needLimit st = Inr st'"
  then obtain t where init: "leftNumberInit st'" and nonneg: "0 \<le> leftNumber st'"
    and left: "leftNumber st' = wrap64 (t - 2)"
    and t: "leftNumberInit st \<longrightarrow> t = leftNumber st"
    by (auto simp: describeInstancesPage_def Let_def pageLimit_def
          split: prod.splits sum.splits flow.splits if_splits)
  have range: "leftNumber st' < 2 ^ 63"
    unfolding left wrap64_def
    using pos_mod_bound[of "2 ^ 64 :: int" "t - 2 + 2 ^ 63"] by simp
  show "((rc, redis, searchKey, projectId, zoneId, needLimit, st'),
         (rc, redis, searchKey, projectId, zoneId, needLimit, st)) \<in>
        measure (\<lambda>(rc, redis, searchKey, projectId, zoneId, needLimit, st).
          if \<not> leftNumberInit st then 2 ^ 64 + 20
          else if - (2 ^ 63) \<le> leftNumber st - 2 \<and> leftNumber st - 2 < 2 ^ 63
               then nat (leftNumber st + 2 ^ 63) else 2 ^ 64 + 10)"
  proof (cases "leftNumberInit st")
    case False
    then show ?thesis using init nonneg range by simp
  next
    case True
    then have tl: "t = leftNumber st" using t by simp
    show ?thesis
    proof (cases "- (2 ^ 63) \<le> leftNumber st - 2 \<and> leftNumber st - 2 < 2 ^ 63")
      case inr: True
      then have "wrap64 (leftNumber st - 2) = leftNumber st - 2"
        unfolding wrap64_def by (simp add: mod_pos_pos_trivial)
      then have "leftNumber st' = leftNumber st - 2" using left tl by simp
      then show ?thesis using True init nonneg range inr by simp
    next
      case False
      have "- (2 ^ 63) \<le> leftNumber st' - 2 \<and> leftNumber st' - 2 < 2 ^ 63"
        using nonneg range by simp
      moreover have "nat (leftNumber st' + 2 ^ 63) < 2 ^ 64 + 10"
        using nonneg range by simp
      ultimately show ?thesis using True init False by auto
    qed
  qed
qed

text \<open>\<open>RedisService.DescribeInstances\<close>.  It returns the instances and the error.\<close>

definition DescribeInstances :: "redis_consts \<Rightarrow> redis_api \<Rightarrow> string \<Rightarrow> string \<Rightarrow> int \<Rightarrow> int \<Rightarrow>
    zoneMap \<Rightarrow> trace \<Rightarrow> flow" where
  "DescribeInstances rc redis zoneName searchKey projectId needLimit zm tr =
     (case (if zoneName \<noteq> [] then getZoneId redis zoneName zm tr else (Inr (- 1), zm, tr)) of
        (Inl errRet, zm, tr) \<Rightarrow> Done [] (Some errRet) zm tr
      | (Inr zoneId, zm, tr) \<Rightarrow>
          describeInstancesFrom rc redis searchKey projectId zoneId needLimit
            \<lparr> offset = 0, leftNumber = 0, leftNumberInit = False,
              found = [], zones = zm, calls = tr \<rparr>)"

text \<open>
  \<open>CheckRedisCreateOk\<close>: the instance is described; a failure that is no SDK error is
  tried again, up to three more times (the pauses between the tries are not
  modelled).  The result is \<open>(has, online, info, errRet)\<close>.
\<close>

definition isSdkError :: "err \<Rightarrow> bool" where
  "isSdkError e = (case e of TceCloudSDKError code msg requestId \<Rightarrow> True | _ \<Rightarrow> False)"

definition describeAgain :: "redis_api \<Rightarrow> DescribeInstancesRequest \<Rightarrow>
    (err + DescribeInstancesResponse) \<times> trace \<Rightarrow> (err + DescribeInstancesResponse) \<times> trace" where
  "describeAgain redis request r =
     (case r of
        (Inl err, tr) \<Rightarrow> if \<not> isSdkError err then RedisDescribeInstances redis request tr else r
      | (Inr response, tr) \<Rightarrow> r)"

definition CheckRedisCreateOk :: "redis_consts \<Rightarrow> redis_api \<Rightarrow> string \<Rightarrow> trace \<Rightarrow>
    (bool \<times> bool \<times> InstanceSet option \<times> err option) \<times> trace" where
  "CheckRedisCreateOk rc redis redisId tr =
     (let request = NewDescribeInstancesRequest \<lparr> ReqInstanceId := Some redisId \<rparr>;
          r = RedisDescribeInstances redis request tr;
          r = describeAgain redis request r;
          r = describeAgain redis request r;
          r = describeAgain redis request r
      in case r of
           (Inl err, tr) \<Rightarrow> ((False, False, None, Some err), tr)
         | (Inr response, tr) \<Rightarrow>
             (case RespInstanceSet response of
                [] \<Rightarrow> ((False, False, None, None), tr)
              | [info] \<Rightarrow>
                  if RedisStatus info = REDIS_STATUS_ONLINE rc
                  then ((True, True, Some info, None), tr)
                  else if RedisStatus info = REDIS_STATUS_INIT rc
                          \<or> RedisStatus info = REDIS_STATUS_PROCESSING rc
                  then ((True, False, Some info, None), tr)
                  else ((True, False, Some info,
                         Some (Error (''redis instance delivery failure, status is ''
                                 @ Sprintf_d (RedisStatus info)))), tr)
              | _ \<Rightarrow>
                  ((False, False, None,
                    Some (Error (''redis DescribeInstances one id get ''
                            @ Sprintf_d (int (length (RespInstanceSet response))) @ '' redis info''))), tr)))"

text \<open>\<open>DescribeInstanceSecurityGroup\<close>: the security groups of the first detail with the instance's ID.\<close>

definition DescribeInstanceSecurityGroup :: "redis_api \<Rightarrow> string \<Rightarrow> trace \<Rightarrow> (err + string list) \<times> trace" where
  "DescribeInstanceSecurityGroup redis redisId tr =
     (case (api_DescribeInstanceSecurityGroup redis (length tr) [redisId],
            tr @ [Call ''DescribeInstanceSecurityGroup'' [VString redisId]]) of
        (Inl err, tr) \<Rightarrow> (Inl err, tr)
      | (Inr details, tr) \<Rightarrow>
          (case find (\<lambda>item. fst item = redisId) details of
             Some item \<Rightarrow> (Inr (snd item), tr)
           | None \<Rightarrow> (Inr [], tr)))"

section \<open>The Redis instance resource\<close>

text \<open>\<open>strings.Contains\<close>.\<close>

fun Contains :: "string \<Rightarrow> string \<Rightarrow> bool" where
  "Contains [] substr = (substr = [])"
| "Contains (c # cs) substr = (take (length substr) (c # cs) = substr \<or> Contains cs substr)"

text \<open>
  The callback of \<open>Read\<close>.  It captures the resource data, the flag \<open>onlineHas\<close> and
  the instance information.
\<close>

definition redisReadRetry :: "redis_consts \<Rightarrow> redis_api \<Rightarrow>
    ResourceData \<times> bool \<times> InstanceSet option \<times> trace \<Rightarrow>
    RetryError option \<times> (ResourceData \<times> bool \<times> InstanceSet option \<times> trace)" where
  "redisReadRetry rc redis s =
     (case s of (d, onlineHas, _, tr) \<Rightarrow>
      case CheckRedisCreateOk rc redis (ResourceId d) tr of
        ((has, _, info, e), tr) \<Rightarrow>
          if (case info of
                Some i \<Rightarrow> RedisStatus i = REDIS_STATUS_ISOLATE rc \<or> RedisStatus i = REDIS_STATUS_TODELETE rc
              | None \<Rightarrow> False)
          then (None, (SetId d [], False, info, tr))
          else (case e of
                  Some e \<Rightarrow> (Some (NonRetryableError e), (d, onlineHas, info, tr))
                | None \<Rightarrow>
                    if \<not> has then (None, (SetId d [], False, info, tr))
                    else (None, (d, onlineHas, info, tr))))"

text \<open>What \<open>Read\<close> does with the information of an instance that is there.\<close>

definition redisReadInfo :: "redis_consts \<Rightarrow> redis_api \<Rightarrow> InstanceSet \<Rightarrow> ResourceData \<Rightarrow> trace \<Rightarrow>
    outcome \<times> ResourceData \<times> trace" where
  "redisReadInfo rc redis info d tr =
     (let statusName = REDIS_STATUS rc (RedisStatus info) in
      if statusName = []
      then (Returns (Some (Error (''redis read unkwnow status '' @ Sprintf_d (RedisStatus info)))), d, tr)
      else
       (let d = Set d ''status'' (VString statusName);
            d = Set d ''name'' (VString (InstanceName info))
        in case getZoneName redis (ZoneId info) [] tr of
             (Inl err, _, tr) \<Rightarrow> (Returns (Some err), d, tr)
           | (Inr zoneName, _, tr) \<Rightarrow>
               (let d = Set d ''availability_zone'' (VString zoneName);
                    typeName = REDIS_NAMES rc (RedisType info)
                in if typeName = []
                   then (Returns (Some (Error (''redis read unkwnow type ''
                                          @ Sprintf_d (RedisType info)))), d, tr)
                   else
                    (let d = Set d ''type'' (VString typeName);
                         d = Set d ''mem_size'' (VInt (Size info));
                         d = Set d ''vpc_id'' (VString (UniqVpcId info));
                         d = Set d ''subnet_id'' (VString (UniqSubnetId info));
                         d = Set d ''project_id'' (VInt (ProjectId info));
                         d = Set d ''port'' (VInt (Port info));
                         d = Set d ''ip'' (VString (WanIp info));
                         d = Set d ''create_time'' (VString (Createtime info))
                     in case (if GetString d ''vpc_id'' \<noteq> []
                              then (case DescribeInstanceSecurityGroup redis (ResourceId d) tr of
                                      (Inl err, tr) \<Rightarrow> (Some err, d, tr)
                                    | (Inr securityGroups, tr) \<Rightarrow>
                                        (None,
                                         if length securityGroups > 0
                                         then Set d ''security_groups'' (VStrings securityGroups)
                                         else d, tr))
                              else (None, d, tr)) of
                          (Some err, d, tr) \<Rightarrow> (Returns (Some err), d, tr)
                        | (None, d, tr) \<Rightarrow>
                            (case redisTags ''redis tag key is nil'' ''redis tag value is nil''
                                    (InstanceTags info) [] of
                               Inl err \<Rightarrow> (Returns (Some err), d, tr)
                             | Inr tags \<Rightarrow> (Returns None, Set d ''tags'' (VTags tags), tr))))))"

definition resourceTencentCloudRedisInstanceRead :: "settings \<Rightarrow> redis_consts \<Rightarrow> redis_api \<Rightarrow>
    ResourceData \<Rightarrow> trace \<Rightarrow> outcome \<times> ResourceData \<times> trace" where
  "resourceTencentCloudRedisInstanceRead cf rc redis d tr =
     (case Retry (readRetryTimeout cf) (redisReadRetry rc redis) (d, True, None, tr) of
        (Some err, (d, _, _, tr)) \<Rightarrow>
          (Returns (Some (Error (''Fail to get info from redis, reaseon '' @ ErrorText cf err))), d, tr)
      | (None, (d, onlineHas, info, tr)) \<Rightarrow>
          if \<not> onlineHas then (Returns None, d, tr)
          else (case info of
                  None \<Rightarrow> (Panics, d, tr)
                | Some info \<Rightarrow> redisReadInfo rc redis info d tr))"

text \<open>
  The callback of the poll in \<open>Create\<close>: an error of the check and a missing instance
  end the poll with an error, an online instance ends it with success, anything else
  is retried.
\<close>

definition redisCreateRetry :: "redis_consts \<Rightarrow> redis_api \<Rightarrow> string \<Rightarrow> trace \<Rightarrow>
    RetryError option \<times> trace" where
  "redisCreateRetry rc redis dealId tr =
     (case CheckRedisCreateOk rc redis dealId tr of
        ((has, online, _, err), tr) \<Rightarrow>
          (case err of
             Some err \<Rightarrow> (Some (NonRetryableError err), tr)
           | None \<Rightarrow>
               if \<not> has then (Some (NonRetryableError (Error ''redis instance not exists.'')), tr)
               else if online then (None, tr)
               else (Some (RetryableError (Error ''create redis task is processing'')), tr)))"

definition resourceTencentCloudRedisInstanceCreate :: "settings \<Rightarrow> helpers \<Rightarrow> redis_consts \<Rightarrow>
    redis_api \<Rightarrow> tag_api \<Rightarrow> ResourceData \<Rightarrow> trace \<Rightarrow> outcome \<times> ResourceData \<times> trace" where
  "resourceTencentCloudRedisInstanceCreate cf hp rc redis tg d tr =
     (let region = Region cf;
          availabilityZone = GetString d ''availability_zone'';
          redisName = GetString d ''name'';
          redisType = GetString d ''type'';
          password = GetString d ''password'';
          memSize = GetInt d ''mem_size'';
          vpcId = GetString d ''vpc_id'';
          subnetId = GetString d ''subnet_id'';
          securityGroups = GetStrings d ''security_groups'';
          projectId = GetInt d ''project_id'';
          port = GetInt d ''port'';
          tags = GetTags d ''tags''
      in if availabilityZone \<noteq> [] \<and> \<not> Contains availabilityZone region
         then (Returns (Some (Error (''zone['' @ availabilityZone @ ''] not in region['' @ region @ '']''))),
               d, tr)
         else
          (case RedisCreateInstances redis availabilityZone redisType password vpcId subnetId
                  redisName memSize projectId port securityGroups tr of
             (Inl err, tr) \<Rightarrow> (Returns (Some err), d, tr)
           | (Inr dealId, tr) \<Rightarrow>
               if dealId = []
               then (Returns (Some (Error ''redis api CreateInstances return empty redis id'')), d, tr)
               else
                (let redisId = dealId in
                 case Retry (20 * readRetryTimeout cf) (redisCreateRetry rc redis dealId) tr of
                   (Some err, tr) \<Rightarrow> (Returns (Some err), d, tr)
                 | (None, tr) \<Rightarrow>
                     (let d = SetId d redisId in
                      case (if length tags > 0
                            then ModifyTags tg (BuildTagResourceName hp ''redis'' ''instance'' region redisId)
                                   tags [] tr
                            else (None, tr)) of
                        (Some err, tr) \<Rightarrow> (Returns (Some err), d, tr)
                      | (None, tr) \<Rightarrow> resourceTencentCloudRedisInstanceRead cf rc redis d tr))))"

section \<open>The provider\<close>

text \<open>
  The part of \<open>schema.Schema\<close> the provider's own fields use.  \<open>DefaultFunc\<close> reads the
  environment: \<open>schema.EnvDefaultFunc(k, dv)\<close> gives the value of the environment
  variable \<open>k\<close> when it is not empty and \<open>dv\<close> otherwise (\<open>os.Getenv\<close> gives the empty
  string for a variable that is not set).
\<close>

record Schema =
  Required :: bool
  Optional :: bool
  Sensitive :: bool
  DefaultFunc :: "(string \<Rightarrow> string) \<Rightarrow> val option"
  InputDefault :: string

definition EnvDefaultFunc :: "string \<Rightarrow> val option \<Rightarrow> (string \<Rightarrow> string) \<Rightarrow> val option" where
  "EnvDefaultFunc k dv getenv = (if getenv k \<noteq> [] then Some (VString (getenv k)) else dv)"

definition PROVIDER_SECRET_ID :: string where
  "PROVIDER_SECRET_ID = ''TENCENTCLOUD_SECRET_ID''"

definition PROVIDER_SECRET_KEY :: string where
  "PROVIDER_SECRET_KEY = ''TENCENTCLOUD_SECRET_KEY''"

definition PROVIDER_SECURITY_TOKEN :: string where
  "PROVIDER_SECURITY_TOKEN = ''TENCENTCLOUD_SECURITY_TOKEN''"

definition PROVIDER_REGION :: string where
  "PROVIDER_REGION = ''TENCENTCLOUD_REGION''"

definition PROVIDER_PROTOCOL :: string where
  "PROVIDER_PROTOCOL = ''TENCENTCLOUD_PROTOCOL''"

definition PROVIDER_DOMAIN :: string where
  "PROVIDER_DOMAIN = ''TENCENTCLOUD_DOMAIN''"

definition PROVIDER_ASSUME_ROLE_SESSION_DURATION :: string where
  "PROVIDER_ASSUME_ROLE_SESSION_DURATION = ''TENCENTCLOUD_ASSUME_ROLE_SESSION_DURATION''"

text \<open>The schema of the provider: the fields of \<open>Provider()\<close> that hold one value.\<close>

definition ProviderSchema :: "(string \<times> Schema) list" where
  "ProviderSchema =
     [(''secret_id'',
         \<lparr> Required = True, Optional = False, Sensitive = False,
           DefaultFunc = EnvDefaultFunc PROVIDER_SECRET_ID None, InputDefault = [] \<rparr>),
      (''secret_key'',
         \<lparr> Required = True, Optional = False, Sensitive = True,
           DefaultFunc = EnvDefaultFunc PROVIDER_SECRET_KEY None, InputDefault = [] \<rparr>),
      (''security_token'',
         \<lparr> Required = False, Optional = True, Sensitive = True,
           DefaultFunc = EnvDefaultFunc PROVIDER_SECURITY_TOKEN None, InputDefault = [] \<rparr>),
      (''region'',
         \<lparr> Required = True, Optional = False, Sensitive = False,
           DefaultFunc = EnvDefaultFunc PROVIDER_REGION None, InputDefault = ''ap-guangzhou'' \<rparr>),
      (''protocol'',
         \<lparr> Required = False, Optional = True, Sensitive = False,
           DefaultFunc = EnvDefaultFunc PROVIDER_PROTOCOL (Some (VString ''HTTPS'')),
           InputDefault = [] \<rparr>),
      (''domain'',
         \<lparr> Required = False, Optional = True, Sensitive = False,
           DefaultFunc = EnvDefaultFunc PROVIDER_DOMAIN None, InputDefault = [] \<rparr>)]"

text \<open>
  How the plugin SDK fills the resource data of the provider from the configuration
  block: a field that the configuration sets has that value; a field that it does not
  set has the value of the field's \<open>DefaultFunc\<close>.  A required field that has neither
  is reported as missing, and the provider is not configured.
\<close>

definition fieldValue :: "(string \<times> Schema) list \<Rightarrow> (string \<rightharpoonup> val) \<Rightarrow> (string \<Rightarrow> string) \<Rightarrow>
    string \<Rightarrow> val option" where
  "fieldValue sm raw getenv k =
     (case raw k of
        Some v \<Rightarrow> Some v
      | None \<Rightarrow> (case map_of sm k of Some sc \<Rightarrow> DefaultFunc sc getenv | None \<Rightarrow> None))"

definition missingRequired :: "(string \<times> Schema) list \<Rightarrow> (string \<rightharpoonup> val) \<Rightarrow> (string \<Rightarrow> string) \<Rightarrow>
    string list" where
  "missingRequired sm raw getenv =
     map fst (filter (\<lambda>(k, sc). Required sc \<and> fieldValue sm raw getenv k = None) sm)"

definition providerData :: "(string \<rightharpoonup> val) \<Rightarrow> (string \<Rightarrow> string) \<Rightarrow> ResourceData" where
  "providerData raw getenv =
     \<lparr> ResourceId = [], state = Map.empty, config = fieldValue ProviderSchema raw getenv,
       written = Map.empty, partial = False, partialKeys = [] \<rparr>"

text \<open>
  \<open>providerConfigure\<close>.  The blocks of \<open>assume_role\<close> are a list; with exactly one block
  the credentials are replaced by those the STS action \<open>AssumeRole\<close> returns.
  \<open>url.QueryEscape\<close> is a parameter.
\<close>

record Credential =
  SecretId :: string
  SecretKey :: string
  Token :: string

record TencentCloudClient =
  ClientCredential :: Credential
  ClientRegion :: string
  Protocol :: string
  Domain :: string

record AssumeRole =
  role_arn :: string
  session_name :: string
  session_duration :: int
  policy :: string

record sts_api =
  api_AssumeRole :: "nat \<Rightarrow> string \<Rightarrow> string \<Rightarrow> int \<Rightarrow> string option \<Rightarrow> err + Credential"
  QueryEscape :: "string \<Rightarrow> string"

definition providerConfigure :: "sts_api \<Rightarrow> (string \<Rightarrow> string) \<Rightarrow> ResourceData \<Rightarrow> AssumeRole list \<Rightarrow>
    trace \<Rightarrow> (err + TencentCloudClient) \<times> trace" where
  "providerConfigure sts getenv d assumeRoleList tr =
     (let secretId = GetString d ''secret_id'';
          secretKey = GetString d ''secret_key'';
          securityToken = GetString d ''security_token'';
          region = GetString d ''region'';
          protocol = GetString d ''protocol'';
          domain = GetString d ''domain'';
          tcClient = \<lparr> ClientCredential =
                         \<lparr> SecretId = secretId, SecretKey = secretKey, Token = securityToken \<rparr>,
                       ClientRegion = region, Protocol = protocol, Domain = domain \<rparr>
      in case assumeRoleList of
           [assumeRole] \<Rightarrow>
             (case (if session_duration assumeRole = 0
                    then (let duration = getenv PROVIDER_ASSUME_ROLE_SESSION_DURATION in
                          if duration \<noteq> [] then
                            (case ParseInt duration of
                               None \<Rightarrow> Inl (Error (''strconv.Atoi: parsing '' @ duration))
                             | Some n \<Rightarrow> Inr (if n = 0 then 7200 else n))
                          else Inr (session_duration assumeRole))
                    else Inr (session_duration assumeRole)) of
                Inl err \<Rightarrow> (Inl err, tr)
              | Inr assumeRoleSessionDuration \<Rightarrow>
                  (case (api_AssumeRole sts (length tr) (role_arn assumeRole) (session_name assumeRole)
                           assumeRoleSessionDuration
                           (if policy assumeRole \<noteq> [] then Some (QueryEscape sts (policy assumeRole))
                            else None),
                         tr @ [Call ''AssumeRole'' [VString (role_arn assumeRole),
                                 VString (session_name assumeRole), VInt assumeRoleSessionDuration]]) of
                     (Inl err, tr) \<Rightarrow> (Inl err, tr)
                   | (Inr credentials, tr) \<Rightarrow>
                       (Inr (tcClient\<lparr> ClientCredential := credentials \<rparr>), tr)))
         | _ \<Rightarrow> (Inr tcClient, tr))"

section \<open>Predicates the properties are stated with\<close>

text \<open>An SDK error with the given code.\<close>

definition hasCode :: "string \<Rightarrow> err \<Rightarrow> bool" where
  "hasCode c e = (case e of TceCloudSDKError code msg requestId \<Rightarrow> code = c | _ \<Rightarrow> False)"

section \<open>Concrete configurations\<close>

text \<open>
  Example values of the parameters, used to run the model on concrete inputs: two
  attempts fit into each retry duration; an SDK error is recoverable when its code is
  among the codes the call site passes, every other error is recoverable.
\<close>

definition settings0 :: settings where
  "settings0 = \<lparr>
     readRetryTimeout = 2,
     writeRetryTimeout = 2,
     recoverable = (\<lambda>e codes. case e of TceCloudSDKError c m r \<Rightarrow> c \<in> set codes | _ \<Rightarrow> True),
     InternalError = ''InternalError'',
     VPCNotFound = ''ResourceNotFound'',
     CVM_NOT_FOUND_ERROR = ''InvalidInstanceId.NotFound'',
     KYE_PAIR_INVALID_ERROR = ''InvalidKeyPair'',
     KEY_PAIR_NOT_SUPPORT_ERROR = ''InvalidKeyPairId.NotSupported'',
     GATE_WAY_TYPE_EIP = ''EIP'',
     CBS_STORAGE_STATUS_EXPANDING = ''EXPANDING'',
     CBS_STORAGE_STATUS_ROLLBACKING = ''ROLLBACKING'',
     VPN_CHARGE_TYPE_PREPAID = ''PREPAID'',
     Region = ''ap-guangzhou'',
     TimeoutText = ''timeout while waiting for state to become 'success' (timeout: 1m0s)'' \<rparr>"

definition noData :: ResourceData where
  "noData = \<lparr> ResourceId = [], state = Map.empty, config = Map.empty, written = Map.empty,
     partial = False, partialKeys = [] \<rparr>"

text \<open>A key pair whose public key carries a comment, bound to one instance.\<close>

definition keyPair0 :: KeyPair where
  "keyPair0 = \<lparr> KeyName = Some ''terraform_test'', KeyProjectId = Some 0,
     PublicKey = Some ''ssh-rsa AAAAB3Nza user@host'',
     AssociatedInstanceIds = [''ins-1''] \<rparr>"

definition cvm0 :: cvm_api where
  "cvm0 = \<lparr>
     api_CreateKeyPair = (\<lambda>n keyName publicKey projectId. Inr ''skey-1''),
     api_DescribeKeyPairById = (\<lambda>n keyId. Inr (Some keyPair0)),
     api_ModifyKeyPairName = (\<lambda>n keyId keyName. None),
     api_UnbindKeyPair = (\<lambda>n keyId ids. Some (TceCloudSDKError ''InvalidParameter'' ''bad request'' ''req-1'')),
     api_DeleteKeyPair = (\<lambda>n keyId. None) \<rparr>"

text \<open>A route table with one entry, and a VPC API that creates, finds and deletes it.\<close>

definition routeEntry0 :: VpcRouteEntryBasicInfo where
  "routeEntry0 = \<lparr> routeEntryId = 77, destinationCidr = ''10.4.4.0/24'', entryNextType = ''EIP'',
     nextBub = ''0'', entryDescription = ''ci-test-route-table-entry'' \<rparr>"

definition route0 :: route_api where
  "route0 = \<lparr>
     api_CreateRoutes = (\<lambda>n routeTableId cidr nextType nextHub description. Inr 77),
     api_DescribeRouteTable = (\<lambda>n routeTableId. Inr (\<lparr> entryInfos = [routeEntry0] \<rparr>, 1)),
     api_DeleteRoutes = (\<lambda>n routeTableId entryId. None) \<rparr>"

definition routeEntryData :: "string \<Rightarrow> string \<Rightarrow> ResourceData" where
  "routeEntryData nextType nextHub = noData \<lparr> config :=
     [''route_table_id'' \<mapsto> VString ''rtb-abc'',
      ''destination_cidr_block'' \<mapsto> VString ''10.4.4.0/24'',
      ''next_type'' \<mapsto> VString nextType,
      ''next_hub'' \<mapsto> VString nextHub] \<rparr>"



text \<open>
  A disk that is expanding when it is described at the first two calls and unattached
  afterwards; a CBS API where every request succeeds; one where describing fails; a
  resource whose planned storage size differs from the size in the state.
\<close>

definition disk0 :: "nat \<Rightarrow> Disk" where
  "disk0 n = \<lparr> DiskType = Some ''CLOUD_PREMIUM'', DiskSize = Some 20,
     DiskPlacement = \<lparr> Zone = Some ''ap-guangzhou-3'', PlacementProjectId = Some 0 \<rparr>,
     DiskName = Some ''mystorage'', Encrypt = Some False, DiskTags = [],
     DiskState = (if n < 2 then ''EXPANDING'' else ''UNATTACHED''), Attached = Some False \<rparr>"

definition cbs0 :: cbs_api where
  "cbs0 = \<lparr>
     api_DescribeDiskById = (\<lambda>n diskId. Inr (Some (disk0 n))),
     api_ModifyDiskAttributes = (\<lambda>n diskId name projectId. None),
     api_ResizeDisk = (\<lambda>n diskId diskSize. None),
     api_ApplySnapshot = (\<lambda>n diskId snapshotId. None),
     api_DeleteDiskById = (\<lambda>n diskId. None) \<rparr>"

definition cbsDown :: cbs_api where
  "cbsDown = cbs0 \<lparr> api_DescribeDiskById := (\<lambda>n diskId. Inl (Error ''connection reset'')) \<rparr>"

definition tag0 :: tag_api where
  "tag0 = \<lparr> api_ModifyTags = (\<lambda>n resourceName replaceTags deleteTags. None),
     api_DescribeResourceTags = (\<lambda>n serviceType resourceType region resourceId. Inr []) \<rparr>"

definition helpers0 :: helpers where
  "helpers0 = \<lparr>
     diffTags = (\<lambda>old new. (filter (\<lambda>kv. kv \<notin> set old) new,
                            filter (\<lambda>k. k \<notin> set (map fst new)) (map fst old))),
     BuildTagResourceName = (\<lambda>serviceType resourceType region resourceId.
       ''qcs::'' @ serviceType @ '':'' @ region @ '':uin/:'' @ resourceType @ ''/'' @ resourceId) \<rparr>"

definition diskData :: "int \<Rightarrow> int \<Rightarrow> ResourceData" where
  "diskData oldSize newSize = noData \<lparr> ResourceId := ''disk-1'',
     state := [''storage_size'' \<mapsto> VInt oldSize],
     config := [''storage_size'' \<mapsto> VInt newSize] \<rparr>"

text \<open>
  Redis: the status and type tables, an instance with a given status in a given zone,
  and an API that knows two zones, answers every describe request with one instance
  whose status may change from call to call, and creates the instance \<open>crs-1\<close>.
\<close>

definition rconsts0 :: redis_consts where
  "rconsts0 = \<lparr>
     REDIS_NAMES = (\<lambda>t. if t = 2 then ''master_slave_redis'' else if t = 5 then ''cluster_ckv'' else []),
     REDIS_STATUS = (\<lambda>s. if s = 0 then ''init'' else if s = 1 then ''processing''
                         else if s = 2 then ''online'' else if s = - 2 then ''isolate''
                         else if s = - 3 then ''todelete'' else []),
     REDIS_STATUS_INIT = 0,
     REDIS_STATUS_PROCESSING = 1,
     REDIS_STATUS_ONLINE = 2,
     REDIS_STATUS_ISOLATE = - 2,
     REDIS_STATUS_TODELETE = - 3 \<rparr>"

definition redisInstance :: "string \<Rightarrow> int \<Rightarrow> int \<Rightarrow> InstanceSet" where
  "redisInstance name status zoneId = \<lparr>
     InstanceName = name, InstanceId = ''crs-1'', ZoneId = zoneId, RedisType = 2,
     RedisStatus = status, Createtime = ''2020-01-01 00:00:00'', WanIp = ''10.0.0.7'', Size = 1024,
     Port = 6379, ProjectId = 0, UniqSubnetId = [], UniqVpcId = [],
     RedisReplicasNum = None, RedisShardNum = None, InstanceTags = [] \<rparr>"

definition redisApi :: "(nat \<Rightarrow> err + DescribeInstancesResponse) \<Rightarrow> redis_api" where
  "redisApi answer = \<lparr>
     api_DescribeZones = (\<lambda>n. Inr [(''100003'', ''ap-guangzhou-3''), (''100004'', ''ap-guangzhou-4'')]),
     api_DescribeInstances = (\<lambda>n request. answer n),
     api_DescribeInstanceSecurityGroup = (\<lambda>n ids. Inr []),
     svc_CreateInstances = (\<lambda>n zoneName redisType password vpcId subnetId redisName memSize
                              projectId port securityGroups. Inr ''crs-1''),
     mapRange = (\<lambda>zm. zm) \<rparr>"

definition oneInstance :: "int \<Rightarrow> err + DescribeInstancesResponse" where
  "oneInstance status =
     Inr \<lparr> TotalCount = 1, RespInstanceSet = [redisInstance ''terrform_test'' status 100003] \<rparr>"

definition noInstance :: "err + DescribeInstancesResponse" where
  "noInstance = Inr \<lparr> TotalCount = 0, RespInstanceSet = [] \<rparr>"

definition redisData :: "string \<Rightarrow> ResourceData" where
  "redisData zone = noData \<lparr> config :=
     [''availability_zone'' \<mapsto> VString zone,
      ''name'' \<mapsto> VString ''terrform_test'',
      ''type'' \<mapsto> VString ''master_slave_redis'',
      ''password'' \<mapsto> VString ''test12345789'',
      ''mem_size'' \<mapsto> VInt 8192,
      ''port'' \<mapsto> VInt 6379] \<rparr>"

text \<open>
  A postpaid VPN gateway that the API still describes at its first four calls and no
  longer afterwards, with no tunnel attached.
\<close>

definition gateway0 :: VpnGateway where
  "gateway0 = \<lparr> VpnGatewayName = ''test'', PublicIpAddress = ''1.2.3.4'',
     InternetMaxBandwidthOut = 5, VpnType = ''IPSEC'', CreatedTime = ''2020-01-01 00:00:00'',
     VpnState = ''AVAILABLE'', RenewFlag = ''NOTIFY_AND_MANUAL_RENEW'',
     InstanceChargeType = ''POSTPAID_BY_HOUR'', ExpiredTime = Some ''0000-00-00 00:00:00'',
     IsAddressBlocked = False, NewPurchasePlan = ''PRE_PAID_TO_POST_PAID'',
     RestrictState = ''NORMAL'', VpnZone = ''ap-guangzhou-3'' \<rparr>"

definition vpn0 :: vpn_api where
  "vpn0 = \<lparr>
     api_DescribeVpnGateways = (\<lambda>n ids. Inr (if n < 4 then [gateway0] else [])),
     api_DescribeVpnConnections = (\<lambda>n filters. Inr []),
     api_DeleteVpnGateway = (\<lambda>n gatewayId. None),
     time_Until = (\<lambda>n t. Inr 0) \<rparr>"

text \<open>
  APIs that report a resource as absent: no disk, no key pair, no route table or a
  route table without the entry, no gateway; and a TKE API with a given answer to
  each of the three questions of the cluster attachment.
\<close>

definition cbsGone :: cbs_api where
  "cbsGone = cbs0 \<lparr> api_DescribeDiskById := (\<lambda>n diskId. Inr None) \<rparr>"

definition cvmGone :: cvm_api where
  "cvmGone = cvm0 \<lparr> api_DescribeKeyPairById := (\<lambda>n keyId. Inr None) \<rparr>"

definition routeGone :: route_api where
  "routeGone = route0 \<lparr> api_DescribeRouteTable := (\<lambda>n routeTableId. Inr (\<lparr> entryInfos = [] \<rparr>, 0)) \<rparr>"

definition vpnGone :: vpn_api where
  "vpnGone = vpn0 \<lparr> api_DescribeVpnGateways := (\<lambda>n ids. Inr []) \<rparr>"


text \<open>A CBS API whose first delete request fails with an internal error; the next one succeeds.\<close>

definition cbsBusy :: cbs_api where
  "cbsBusy = cbs0 \<lparr> api_DeleteDiskById :=
     (\<lambda>n diskId. if n < 1 then Some (TceCloudSDKError ''InternalError'' ''try again'' ''req-1'') else None) \<rparr>"

definition tkeApi :: "bool \<Rightarrow> Instance option \<Rightarrow> string list \<Rightarrow> tke_api" where
  "tkeApi has instance workers = \<lparr>
     api_DescribeCluster = (\<lambda>n clusterId. Inr has),
     api_DescribeInstanceById = (\<lambda>n instanceId. Inr instance),
     api_DescribeClusterInstances = (\<lambda>n clusterId. Inr workers) \<rparr>"

definition instance0 :: Instance where
  "instance0 = \<lparr> LoginKeyIds = [''skey-1''], SecurityGroupIds = [''sg-1''] \<rparr>"

section \<open>Properties of the string functions\<close>

lemma Split_not_Nil: "Split s c \<noteq> []"
  by (induction s) (auto split: list.splits)

lemma length_Split: "length (Split s c) = Suc (count_list s c)"
  by (induction s) (auto split: list.splits)

lemma Split_no_sep: "x \<in> set (Split s c) \<Longrightarrow> c \<notin> set x"
proof (induction s arbitrary: x)
  case Nil
  then show ?case by simp
next
  case (Cons a s)
  show ?case
  proof (cases "a = c")
    case True
    with Cons show ?thesis by auto
  next
    case False
    obtain y ys where sp: "Split s c = y # ys"
      using Split_not_Nil[of s c] by (cases "Split s c") auto
    with Cons.prems False have "x = a # y \<or> x \<in> set ys" by simp
    then show ?thesis
    proof
      assume "x = a # y"
      moreover have "c \<notin> set y" using Cons.IH[of y] sp by simp
      ultimately show ?thesis using False by auto
    next
      assume "x \<in> set ys"
      then show ?thesis using Cons.IH[of x] sp by simp
    qed
  qed
qed

lemma count_list_0: "c \<notin> set x \<Longrightarrow> count_list x c = 0"
  by (induction x) auto

lemma count_list_append: "count_list (xs @ ys) c = count_list xs c + count_list ys c"
  by (induction xs) auto

lemma count_Join_take2:
  assumes "length (Split s c) > 2"
  shows "count_list (Join (take 2 (Split s c)) c) c = 1"
proof -
  obtain a b rest where sp: "Split s c = a # b # rest"
    using assms by (cases "Split s c"; cases "tl (Split s c)") auto
  have "c \<notin> set a" "c \<notin> set b" using Split_no_sep[of _ s c] sp by auto
  then show ?thesis using sp by (simp add: count_list_append count_list_0)
qed

lemma dropRunes_fixed:
  assumes "\<forall>r\<in>set rs. \<not> prefix r s"
  shows "dropRunes rs s = s"
proof (cases s)
  case Nil
  then show ?thesis by simp
next
  case (Cons c cs)
  have "find (\<lambda>r. prefix r (c # cs)) rs = None"
    using assms Cons by (simp add: find_None_iff)
  then show ?thesis using Cons by simp
qed

lemma dropRunes_cut:
  "[] \<notin> set rs \<Longrightarrow> \<exists>ws. set ws \<subseteq> set rs \<and> s = concat ws @ dropRunes rs s"
proof (induction rs s rule: dropRunes.induct)
  case (1 rs)
  have "set [] \<subseteq> set rs \<and> [] = concat [] @ dropRunes rs []" by simp
  then show ?case by blast
next
  case (2 rs c cs)
  show ?case
  proof (cases "find (\<lambda>r. prefix r (c # cs)) rs")
    case None
    then have "set [] \<subseteq> set rs \<and> c # cs = concat [] @ dropRunes rs (c # cs)" by simp
    then show ?thesis by blast
  next
    case (Some r)
    then have r: "r \<in> set rs" "prefix r (c # cs)"
      by (auto simp: find_Some_iff)
    then have ne: "r \<noteq> []" using 2(2) by auto
    obtain ws where ws: "set ws \<subseteq> set rs"
        "drop (length r - 1) cs = concat ws @ dropRunes rs (drop (length r - 1) cs)"
      using 2(1)[OF Some 2(2)] by blast
    have d: "dropRunes rs (c # cs) = dropRunes rs (drop (length r - 1) cs)"
      using Some by simp
    have "c # cs = r @ drop (length r) (c # cs)"
      using r(2) by (metis append_eq_conv_conj prefix_def)
    also have "drop (length r) (c # cs) = drop (length r - 1) cs"
      using ne by (cases r) simp_all
    also have "\<dots> = concat ws @ dropRunes rs (c # cs)"
      using ws(2) by (simp only: d)
    finally have "c # cs = concat (r # ws) @ dropRunes rs (c # cs)"
      by simp
    moreover have "set (r # ws) \<subseteq> set rs" using r(1) ws(1) by simp
    ultimately show ?thesis by blast
  qed
qed

lemma dropRunes_no_prefix:
  "[] \<notin> set rs \<Longrightarrow> r \<in> set rs \<Longrightarrow> \<not> prefix r (dropRunes rs s)"
proof (induction rs s rule: dropRunes.induct)
  case (1 rs)
  then show ?case by auto
next
  case (2 rs c cs)
  show ?case
  proof (cases "find (\<lambda>r. prefix r (c # cs)) rs")
    case None
    then have "\<not> prefix r (c # cs)" using 2(3) by (simp add: find_None_iff)
    then show ?thesis using None by simp
  next
    case (Some r')
    then show ?thesis using 2 by simp
  qed
qed

lemma spaceRunes_not_Nil: "[] \<notin> set spaceRunes"
  by (simp add: spaceRunes_def)

lemma revRunes_not_Nil: "[] \<notin> set (map rev spaceRunes)"
  by (simp add: spaceRunes_def)

lemma TrimLeftSpace_cut: "\<exists>ws. set ws \<subseteq> set spaceRunes \<and> s = concat ws @ TrimLeftSpace s"
  unfolding TrimLeftSpace_def by (rule dropRunes_cut[OF spaceRunes_not_Nil])

lemma concat_rev_runes:
  "set ws \<subseteq> set (map rev rs) \<Longrightarrow> \<exists>vs. set vs \<subseteq> set rs \<and> rev (concat ws) = concat vs"
proof (induction ws)
  case Nil
  have "set [] \<subseteq> set rs \<and> rev (concat []) = concat []" by simp
  then show ?case by blast
next
  case (Cons w ws)
  then obtain vs where vs: "set vs \<subseteq> set rs" "rev (concat ws) = concat vs" by auto
  from Cons.prems obtain r where r: "r \<in> set rs" "w = rev r" by auto
  have "set (vs @ [r]) \<subseteq> set rs \<and> rev (concat (w # ws)) = concat (vs @ [r])"
    using vs r by simp
  then show ?case by blast
qed

lemma TrimRightSpace_cut: "\<exists>ws. set ws \<subseteq> set spaceRunes \<and> s = TrimRightSpace s @ concat ws"
proof -
  obtain ws where ws: "set ws \<subseteq> set (map rev spaceRunes)"
      "rev s = concat ws @ dropRunes (map rev spaceRunes) (rev s)"
    using dropRunes_cut[OF revRunes_not_Nil, of "rev s"] by blast
  obtain vs where vs: "set vs \<subseteq> set spaceRunes" "rev (concat ws) = concat vs"
    using concat_rev_runes[OF ws(1)] by blast
  have "s = rev (concat ws @ dropRunes (map rev spaceRunes) (rev s))"
    using ws(2) by (metis rev_rev_ident)
  then have "s = TrimRightSpace s @ concat vs"
    using vs(2) by (simp add: TrimRightSpace_def)
  then show ?thesis using vs(1) by blast
qed

lemma TrimLeftSpace_no_prefix: "r \<in> set spaceRunes \<Longrightarrow> \<not> prefix r (TrimLeftSpace s)"
  unfolding TrimLeftSpace_def by (rule dropRunes_no_prefix[OF spaceRunes_not_Nil])

lemma TrimRightSpace_no_suffix: "r \<in> set spaceRunes \<Longrightarrow> \<not> suffix r (TrimRightSpace s)"
  using dropRunes_no_prefix[OF revRunes_not_Nil, of "rev r" "rev s"]
  by (simp add: TrimRightSpace_def suffix_to_prefix)

lemma TrimSpace_cut:
  "\<exists>ls rs. set ls \<subseteq> set spaceRunes \<and> set rs \<subseteq> set spaceRunes
     \<and> s = concat ls @ TrimSpace s @ concat rs"
proof -
  obtain ls where ls: "set ls \<subseteq> set spaceRunes" "s = concat ls @ TrimLeftSpace s"
    using TrimLeftSpace_cut by blast
  obtain rs where rs: "set rs \<subseteq> set spaceRunes"
      "TrimLeftSpace s = TrimRightSpace (TrimLeftSpace s) @ concat rs"
    using TrimRightSpace_cut by blast
  have "s = concat ls @ TrimSpace s @ concat rs"
    using ls(2) rs(2) by (simp add: TrimSpace_def)
  then show ?thesis using ls(1) rs(1) by blast
qed

lemma TrimSpace_no_suffix: "r \<in> set spaceRunes \<Longrightarrow> \<not> suffix r (TrimSpace s)"
  unfolding TrimSpace_def by (rule TrimRightSpace_no_suffix)

lemma TrimSpace_no_prefix:
  assumes "r \<in> set spaceRunes"
  shows "\<not> prefix r (TrimSpace s)"
proof
  assume p: "prefix r (TrimSpace s)"
  obtain ws where "TrimLeftSpace s = TrimRightSpace (TrimLeftSpace s) @ concat ws"
    using TrimRightSpace_cut by blast
  then have "prefix (TrimSpace s) (TrimLeftSpace s)"
    by (metis TrimSpace_def prefixI)
  with p have "prefix r (TrimLeftSpace s)" by (rule prefix_order.trans)
  then show False using TrimLeftSpace_no_prefix[OF assms] by simp
qed

lemma TrimSpace_fixed:
  assumes "\<forall>r\<in>set spaceRunes. \<not> prefix r s \<and> \<not> suffix r s"
  shows "TrimSpace s = s"
proof -
  have l: "TrimLeftSpace s = s"
    unfolding TrimLeftSpace_def using assms by (intro dropRunes_fixed) simp
  have "\<forall>r\<in>set (map rev spaceRunes). \<not> prefix r (rev s)"
    using assms by (auto simp: suffix_to_prefix)
  then have "dropRunes (map rev spaceRunes) (rev s) = rev s" by (rule dropRunes_fixed)
  then show ?thesis by (simp add: TrimSpace_def TrimRightSpace_def l)
qed

lemma TrimSpace_idem: "TrimSpace (TrimSpace s) = TrimSpace s"
  by (rule TrimSpace_fixed) (simp add: TrimSpace_no_prefix TrimSpace_no_suffix)

lemma count_TrimSpace_le: "count_list (TrimSpace s) c \<le> count_list s c"
proof -
  obtain ls rs where "s = concat ls @ TrimSpace s @ concat rs"
    using TrimSpace_cut by blast
  then have "count_list s c = count_list (concat ls) c + count_list (TrimSpace s) c
      + count_list (concat rs) c"
    by (metis count_list_append add.assoc)
  then show ?thesis by simp
qed

section \<open>The key pair's public key\<close>

lemma stateFunc_count: "count_list (publicKeyStateFunc (VString v)) CHR '' '' \<le> 1"
proof (cases "length (Split v CHR '' '') > 2")
  case True
  then have "count_list (Join (take 2 (Split v CHR '' '')) CHR '' '') CHR '' '' = 1"
    by (rule count_Join_take2)
  then show ?thesis
    using True count_TrimSpace_le[of "Join (take 2 (Split v CHR '' '')) CHR '' ''" "CHR '' ''"]
    by (simp add: publicKeyStateFunc_def)
next
  case False
  then have "count_list v CHR '' '' \<le> 1" by (simp add: length_Split)
  then show ?thesis using False count_TrimSpace_le[of v "CHR '' ''"]
    by (simp add: publicKeyStateFunc_def)
qed

lemma stateFunc_idem:
  "publicKeyStateFunc (VString (publicKeyStateFunc (VString v))) = publicKeyStateFunc (VString v)"
proof -
  let ?n = "publicKeyStateFunc (VString v)"
  have "\<not> length (Split ?n CHR '' '') > 2"
    using stateFunc_count[of v] by (simp add: length_Split)
  then have "publicKeyStateFunc (VString ?n) = TrimSpace ?n"
    by (simp add: publicKeyStateFunc_def)
  moreover have "TrimSpace ?n = ?n"
    by (cases "length (Split v CHR '' '') > 2") (simp_all add: publicKeyStateFunc_def TrimSpace_idem)
  ultimately show ?thesis by simp
qed

lemma Retry_first_success:
  "0 < n \<Longrightarrow> f s = (None, s') \<Longrightarrow> Retry n f s = (None, s')"
  by (cases n) (simp_all add: Retry_def)

lemma keyPairRead_found:
  assumes "0 < readRetryTimeout cf"
    and "api_DescribeKeyPairById cvm (length tr) (ResourceId d) = Inr (Some kp)"
    and "PublicKey kp = Some k"
  shows "Get (fst (snd (resourceTencentCloudKeyPairRead cf cvm d tr))) ''public_key'' =
     Some (VString (if length (Split k CHR '' '') > 2
                    then Join (take 2 (Split k CHR '' '')) CHR '' '' else k))"
proof -
  have "describeKeyPairRetry cf cvm (ResourceId d) (None, tr) =
      (None, (Some kp, tr @ [Call ''DescribeKeyPairById'' [VString (ResourceId d)]]))"
    using assms(2) by (simp add: describeKeyPairRetry_def DescribeKeyPairById_def)
  then have "Retry (readRetryTimeout cf) (describeKeyPairRetry cf cvm (ResourceId d)) (None, tr) =
      (None, (Some kp, tr @ [Call ''DescribeKeyPairById'' [VString (ResourceId d)]]))"
    using assms(1) by (rule Retry_first_success[rotated])
  then show ?thesis
    using assms(3) by (simp add: resourceTencentCloudKeyPairRead_def Let_def Get_def planned_def Set_def)
qed

text \<open>
  C10.  The normalisation of \<open>public_key\<close> is idempotent and shared by the state
  function and \<open>Read\<close>.  The \<open>StateFunc\<close> keeps the first two space-separated fields of
  the key and trims the white space around them: its result is the cut key without a
  run of white space runes at its start and one at its end, and no white space rune is
  left at either end of the result.  Applied to its own result the \<open>StateFunc\<close> changes
  nothing, and its result never has more than two space-separated fields.  When the API
  returns a key pair with a public key, \<open>Read\<close> stores the key cut to its first two
  fields by the same truncation: the stored value has at most two space-separated
  fields, and the state function maps the API's key and the stored value to the same
  string.
\<close>

theorem public_key_normalization:
  "publicKeyStateFunc (VString v) =
     TrimSpace (if length (Split v CHR '' '') > 2
                then Join (take 2 (Split v CHR '' '')) CHR '' '' else v)
   \<and> (\<exists>ls rs. set ls \<subseteq> set spaceRunes \<and> set rs \<subseteq> set spaceRunes
         \<and> (if length (Split v CHR '' '') > 2
             then Join (take 2 (Split v CHR '' '')) CHR '' '' else v)
            = concat ls @ publicKeyStateFunc (VString v) @ concat rs)
   \<and> (\<forall>w\<in>set spaceRunes. \<not> prefix w (publicKeyStateFunc (VString v))
                           \<and> \<not> suffix w (publicKeyStateFunc (VString v)))
   \<and> publicKeyStateFunc (VString (publicKeyStateFunc (VString v))) = publicKeyStateFunc (VString v)
   \<and> length (Split (publicKeyStateFunc (VString v)) CHR '' '') \<le> 2
   \<and> (0 < readRetryTimeout cf
        \<and> api_DescribeKeyPairById cvm (length tr) (ResourceId d) = Inr (Some kp)
        \<and> PublicKey kp = Some k \<longrightarrow>
      (\<exists>p. Get (fst (snd (resourceTencentCloudKeyPairRead cf cvm d tr))) ''public_key''
             = Some (VString p)
           \<and> p = (if length (Split k CHR '' '') > 2
                  then Join (take 2 (Split k CHR '' '')) CHR '' '' else k)
           \<and> length (Split p CHR '' '') \<le> 2
           \<and> publicKeyStateFunc (VString p) = publicKeyStateFunc (VString k)))"
proof (intro conjI impI ballI)
  let ?c = "if length (Split v CHR '' '') > 2
            then Join (take 2 (Split v CHR '' '')) CHR '' '' else v"
  show e: "publicKeyStateFunc (VString v) = TrimSpace ?c"
    by (simp add: publicKeyStateFunc_def)
  show "\<exists>ls rs. set ls \<subseteq> set spaceRunes \<and> set rs \<subseteq> set spaceRunes
         \<and> ?c = concat ls @ publicKeyStateFunc (VString v) @ concat rs"
    unfolding e by (rule TrimSpace_cut)
  show "publicKeyStateFunc (VString (publicKeyStateFunc (VString v))) = publicKeyStateFunc (VString v)"
    by (rule stateFunc_idem)
  show "length (Split (publicKeyStateFunc (VString v)) CHR '' '') \<le> 2"
    using stateFunc_count[of v] by (simp add: length_Split)
  fix w
  assume w: "w \<in> set spaceRunes"
  show "\<not> prefix w (publicKeyStateFunc (VString v))"
    unfolding e using w by (rule TrimSpace_no_prefix)
  show "\<not> suffix w (publicKeyStateFunc (VString v))"
    unfolding e using w by (rule TrimSpace_no_suffix)
next
  assume a: "0 < readRetryTimeout cf
        \<and> api_DescribeKeyPairById cvm (length tr) (ResourceId d) = Inr (Some kp)
        \<and> PublicKey kp = Some k"
  let ?p = "if length (Split k CHR '' '') > 2
            then Join (take 2 (Split k CHR '' '')) CHR '' '' else k"
  have g: "Get (fst (snd (resourceTencentCloudKeyPairRead cf cvm d tr))) ''public_key''
             = Some (VString ?p)"
    using a keyPairRead_found[of cf cvm tr d kp k] by simp
  have c: "count_list ?p CHR '' '' \<le> 1"
  proof (cases "length (Split k CHR '' '') > 2")
    case True
    then show ?thesis using count_Join_take2[of k "CHR '' ''"] by simp
  next
    case False
    then show ?thesis by (simp add: length_Split)
  qed
  then have l: "length (Split ?p CHR '' '') \<le> 2" by (simp only: length_Split)
  then have "publicKeyStateFunc (VString ?p) = TrimSpace ?p"
    by (simp add: publicKeyStateFunc_def)
  also have "\<dots> = publicKeyStateFunc (VString k)" by (simp add: publicKeyStateFunc_def)
  finally have s: "publicKeyStateFunc (VString ?p) = publicKeyStateFunc (VString k)" .
  show "\<exists>p. Get (fst (snd (resourceTencentCloudKeyPairRead cf cvm d tr))) ''public_key''
             = Some (VString p)
           \<and> p = (if length (Split k CHR '' '') > 2
                  then Join (take 2 (Split k CHR '' '')) CHR '' '' else k)
           \<and> length (Split p CHR '' '') \<le> 2
           \<and> publicKeyStateFunc (VString p) = publicKeyStateFunc (VString k)"
    using g l s by blast
qed

theorem public_key_normalization_witness:
  "publicKeyStateFunc (VString ''ssh-rsa AAAAB3Nza user@host '') = ''ssh-rsa AAAAB3Nza''
   \<and> publicKeyStateFunc (VString ''ssh-rsa AAAAB3Nza'') = ''ssh-rsa AAAAB3Nza''
   \<and> publicKeyStateFunc (VString (''ssh-rsa AAAAB3Nza'' @ [CHR 0x0D, CHR 0x0A])) = ''ssh-rsa AAAAB3Nza''
   \<and> publicKeyStateFunc (VString ([CHR 0x09] @ ''AAAAB3Nza host'' @ [CHR 0xC2, CHR 0xA0]))
       = ''AAAAB3Nza host''
   \<and> [CHR 0x0A] \<in> set spaceRunes
   \<and> \<not> suffix [CHR 0x0A] (publicKeyStateFunc (VString (''ssh-rsa AAAAB3Nza'' @ [CHR 0x0D, CHR 0x0A])))
   \<and> Get (fst (snd (resourceTencentCloudKeyPairRead settings0 cvm0 noData []))) ''public_key''
       = Some (VString ''ssh-rsa AAAAB3Nza'')"
proof -
  note trim = publicKeyStateFunc_def TrimSpace_def TrimLeftSpace_def TrimRightSpace_def spaceRunes_def
  have h: "0 < readRetryTimeout settings0
        \<and> api_DescribeKeyPairById cvm0 (length ([]::trace)) (ResourceId noData) = Inr (Some keyPair0)
        \<and> PublicKey keyPair0 = Some ''ssh-rsa AAAAB3Nza user@host''"
    by (simp add: settings0_def cvm0_def keyPair0_def)
  have e: "Split ''ssh-rsa AAAAB3Nza user@host'' CHR '' '' = [''ssh-rsa'', ''AAAAB3Nza'', ''user@host'']"
    by simp
  have t: "publicKeyStateFunc (VString ''ssh-rsa AAAAB3Nza user@host '') = ''ssh-rsa AAAAB3Nza''"
    by (simp add: trim)
  have t2: "publicKeyStateFunc (VString ''ssh-rsa AAAAB3Nza'') = ''ssh-rsa AAAAB3Nza''"
    by (simp add: trim)
  have t3: "publicKeyStateFunc (VString (''ssh-rsa AAAAB3Nza'' @ [CHR 0x0D, CHR 0x0A])) = ''ssh-rsa AAAAB3Nza''"
    by (simp add: trim)
  have t4: "publicKeyStateFunc (VString ([CHR 0x09] @ ''AAAAB3Nza host'' @ [CHR 0xC2, CHR 0xA0]))
       = ''AAAAB3Nza host''"
    by (simp add: trim)
  have m: "[CHR 0x0A] \<in> set spaceRunes" by (simp add: spaceRunes_def)
  have n: "\<not> suffix [CHR 0x0A] (publicKeyStateFunc (VString (''ssh-rsa AAAAB3Nza'' @ [CHR 0x0D, CHR 0x0A])))"
    using public_key_normalization[of "''ssh-rsa AAAAB3Nza'' @ [CHR 0x0D, CHR 0x0A]" settings0 cvm0 "[]"
        noData keyPair0 "''ssh-rsa AAAAB3Nza user@host''"] m
    by blast
  from public_key_normalization[of "''ssh-rsa AAAAB3Nza user@host ''" settings0 cvm0 "[]" noData
      keyPair0 "''ssh-rsa AAAAB3Nza user@host''"] h
  have "\<exists>p. Get (fst (snd (resourceTencentCloudKeyPairRead settings0 cvm0 noData []))) ''public_key''
             = Some (VString p)
           \<and> p = (if length (Split ''ssh-rsa AAAAB3Nza user@host'' CHR '' '') > 2
                  then Join (take 2 (Split ''ssh-rsa AAAAB3Nza user@host'' CHR '' '')) CHR '' ''
                  else ''ssh-rsa AAAAB3Nza user@host'')"
    by blast
  then have "Get (fst (snd (resourceTencentCloudKeyPairRead settings0 cvm0 noData []))) ''public_key''
       = Some (VString ''ssh-rsa AAAAB3Nza'')"
    by (simp only: e) simp
  with t t2 t3 t4 m n show ?thesis by simp
qed

section \<open>Route table entry IDs\<close>














section \<open>Retry loops\<close>

lemma Retry_from_exhausted:
  assumes "\<And>i. i < n \<Longrightarrow>
     f (tr @ replicate i c) = (Some (RetryableError (g i)), tr @ replicate (Suc i) c)"
  shows "Retry_from n resultErr f tr =
     (Some (if n = 0 then (case resultErr of None \<Rightarrow> TimeoutError | Some e \<Rightarrow> e) else g (n - 1)),
      tr @ replicate n c)"
  using assms
proof (induction n arbitrary: tr resultErr g)
  case 0
  show ?case by simp
next
  case (Suc n)
  have f0: "f tr = (Some (RetryableError (g 0)), tr @ [c])"
    using Suc.prems[of 0] by simp
  have step: "\<And>i. i < n \<Longrightarrow> f ((tr @ [c]) @ replicate i c) =
      (Some (RetryableError (g (Suc i))), (tr @ [c]) @ replicate (Suc i) c)"
  proof -
    fix i assume "i < n"
    then have "f (tr @ replicate (Suc i) c) =
      (Some (RetryableError (g (Suc i))), tr @ replicate (Suc (Suc i)) c)"
      using Suc.prems[of "Suc i"] by simp
    then show "f ((tr @ [c]) @ replicate i c) =
      (Some (RetryableError (g (Suc i))), (tr @ [c]) @ replicate (Suc i) c)"
      by simp
  qed
  have "Retry_from n (Some (g 0)) f (tr @ [c]) =
     (Some (if n = 0 then g 0 else g (Suc (n - 1))), (tr @ [c]) @ replicate n c)"
    using Suc.IH[of "tr @ [c]" "\<lambda>i. g (Suc i)" "Some (g 0)", OF step] by simp
  then show ?case using f0 by (cases n) simp_all
qed

lemma Retry_first_failure:
  "0 < n \<Longrightarrow> f s = (Some (NonRetryableError e), s') \<Longrightarrow> Retry n f s = (Some e, s')"
  by (cases n) (simp_all add: Retry_def)



section \<open>Not-found errors on the delete path\<close>




section \<open>The CBS storage resource: resizing\<close>

lemma andThen_error: "andThen (Some e, s) f = (Some e, s)"
  by (simp add: andThen_def)

lemma andThen_ok: "andThen (None, s) f = f s"
  by (simp add: andThen_def)

lemma expandingRetry_described:
  assumes "api_DescribeDiskById cbs (length tr) storageId = Inr storage"
  shows "fst (expandingRetry cf cbs storageId tr) =
     (if \<exists>disk. storage = Some disk \<and> DiskState disk = CBS_STORAGE_STATUS_EXPANDING cf
      then Some (RetryableError (Error (''cbs storage status is '' @ CBS_STORAGE_STATUS_EXPANDING cf)))
      else None)"
  using assms by (cases storage) (simp_all add: expandingRetry_def DescribeDiskById_def)

lemma expandingRetry_success:
  assumes "fst (expandingRetry cf cbs storageId tr) = None"
  shows "\<exists>storage. api_DescribeDiskById cbs (length tr) storageId = Inr storage
     \<and> \<not> (\<exists>disk. storage = Some disk \<and> DiskState disk = CBS_STORAGE_STATUS_EXPANDING cf)"
proof (cases "api_DescribeDiskById cbs (length tr) storageId")
  case (Inl e)
  then have "fst (expandingRetry cf cbs storageId tr) = Some (retryError cf e [])"
    by (simp add: expandingRetry_def DescribeDiskById_def)
  then show ?thesis using assms by simp
next
  case (Inr storage)
  then show ?thesis using assms expandingRetry_described[OF Inr, of cf]
    by (auto split: if_splits)
qed

lemma cbsUpdateSize_poll:
  assumes "HasChange d ''storage_size''"
    and "\<not> oldInt d ''storage_size'' > newInt d ''storage_size''"
    and "Retry (writeRetryTimeout cf)
           (callRetry cf [] (ResizeDisk cbs (ResourceId d) (newInt d ''storage_size''))) tr = (None, tr1)"
  shows "cbsUpdateSize cf cbs (d, tr) =
     (case Retry (readRetryTimeout cf) (expandingRetry cf cbs (ResourceId d)) tr1 of
        (Some err, tr2) \<Rightarrow> (Some err, (d, tr2))
      | (None, tr2) \<Rightarrow> (None, (SetPartial d ''storage_size'', tr2)))"
  using assms by (simp add: cbsUpdateSize_def Let_def)

lemma cbsUpdate_size_error:
  assumes "cbsUpdateAttributes cf cbs (Partial d True, tr) = (None, s1)"
    and "cbsUpdateSize cf cbs s1 = (Some err, s2)"
  shows "resourceTencentCloudCbsStorageUpdate cf hp cbs tg d tr = (Some err, s2)"
  using assms by (simp add: resourceTencentCloudCbsStorageUpdate_def andThen_ok andThen_error)

text \<open>
  C3.  During an update of \<open>storage_size\<close>, after the resize request has succeeded,
  the operation polls \<open>DescribeDiskById\<close>.  When the describe call succeeds, the
  callback of the poll gives a retryable error exactly when the disk is not nil and
  its \<open>DiskState\<close> is \<open>EXPANDING\<close>, and success otherwise; a failure of the describe
  call is handed to \<open>retryError\<close>.  So the callback returns success only when the
  API has described the disk and its state is not \<open>EXPANDING\<close> (or there is no disk).
  An error that the poll ends with is the result of the size step, and an error of the
  size step is the result of \<open>Update\<close>: no later step runs.
\<close>

theorem cbs_resize_poll:
  "(api_DescribeDiskById cbs (length tr) storageId = Inr storage \<longrightarrow>
      fst (expandingRetry cf cbs storageId tr) =
        (if \<exists>disk. storage = Some disk \<and> DiskState disk = CBS_STORAGE_STATUS_EXPANDING cf
         then Some (RetryableError (Error (''cbs storage status is '' @ CBS_STORAGE_STATUS_EXPANDING cf)))
         else None))
   \<and> (api_DescribeDiskById cbs (length tr) storageId = Inl e \<longrightarrow>
      fst (expandingRetry cf cbs storageId tr) = Some (retryError cf e []))
   \<and> (fst (expandingRetry cf cbs storageId tr) = None \<longrightarrow>
      (\<exists>storage. api_DescribeDiskById cbs (length tr) storageId = Inr storage
         \<and> \<not> (\<exists>disk. storage = Some disk \<and> DiskState disk = CBS_STORAGE_STATUS_EXPANDING cf)))
   \<and> (HasChange d ''storage_size'' \<and> \<not> oldInt d ''storage_size'' > newInt d ''storage_size''
        \<and> Retry (writeRetryTimeout cf)
             (callRetry cf [] (ResizeDisk cbs (ResourceId d) (newInt d ''storage_size''))) tr = (None, tr1) \<longrightarrow>
      cbsUpdateSize cf cbs (d, tr) =
        (case Retry (readRetryTimeout cf) (expandingRetry cf cbs (ResourceId d)) tr1 of
           (Some err, tr2) \<Rightarrow> (Some err, (d, tr2))
         | (None, tr2) \<Rightarrow> (None, (SetPartial d ''storage_size'', tr2))))
   \<and> (cbsUpdateAttributes cf cbs (Partial d True, tr) = (None, s1)
        \<and> cbsUpdateSize cf cbs s1 = (Some err, s2) \<longrightarrow>
      resourceTencentCloudCbsStorageUpdate cf hp cbs tg d tr = (Some err, s2))"
proof (intro conjI impI)
  assume "api_DescribeDiskById cbs (length tr) storageId = Inr storage"
  then show "fst (expandingRetry cf cbs storageId tr) =
        (if \<exists>disk. storage = Some disk \<and> DiskState disk = CBS_STORAGE_STATUS_EXPANDING cf
         then Some (RetryableError (Error (''cbs storage status is '' @ CBS_STORAGE_STATUS_EXPANDING cf)))
         else None)"
    by (rule expandingRetry_described)
next
  assume "api_DescribeDiskById cbs (length tr) storageId = Inl e"
  then show "fst (expandingRetry cf cbs storageId tr) = Some (retryError cf e [])"
    by (simp add: expandingRetry_def DescribeDiskById_def)
next
  assume "fst (expandingRetry cf cbs storageId tr) = None"
  then show "\<exists>storage. api_DescribeDiskById cbs (length tr) storageId = Inr storage
         \<and> \<not> (\<exists>disk. storage = Some disk \<and> DiskState disk = CBS_STORAGE_STATUS_EXPANDING cf)"
    by (rule expandingRetry_success)
next
  assume a: "HasChange d ''storage_size'' \<and> \<not> oldInt d ''storage_size'' > newInt d ''storage_size''
        \<and> Retry (writeRetryTimeout cf)
             (callRetry cf [] (ResizeDisk cbs (ResourceId d) (newInt d ''storage_size''))) tr = (None, tr1)"
  show "cbsUpdateSize cf cbs (d, tr) =
        (case Retry (readRetryTimeout cf) (expandingRetry cf cbs (ResourceId d)) tr1 of
           (Some err, tr2) \<Rightarrow> (Some err, (d, tr2))
         | (None, tr2) \<Rightarrow> (None, (SetPartial d ''storage_size'', tr2)))"
    using a by (intro cbsUpdateSize_poll) simp_all
next
  assume a: "cbsUpdateAttributes cf cbs (Partial d True, tr) = (None, s1)
        \<and> cbsUpdateSize cf cbs s1 = (Some err, s2)"
  show "resourceTencentCloudCbsStorageUpdate cf hp cbs tg d tr = (Some err, s2)"
    using a by (intro cbsUpdate_size_error[of cf cbs d tr s1]) simp_all
qed

theorem cbs_resize_poll_witness:
  "fst (expandingRetry settings0 cbs0 ''disk-1'' []) =
     Some (RetryableError (Error ''cbs storage status is EXPANDING''))
   \<and> fst (expandingRetry settings0 cbsDown ''disk-1'' []) =
     Some (RetryableError (Error ''connection reset''))
   \<and> api_DescribeDiskById cbs0 2 ''disk-1'' = Inr (Some (disk0 2))
   \<and> DiskState (disk0 2) = ''UNATTACHED''
   \<and> cbsUpdateSize settings0 cbs0 (diskData 10 20, []) =
     (None, (SetPartial (diskData 10 20) ''storage_size'',
       [Call ''ResizeDisk'' [VString ''disk-1'', VInt 20],
        Call ''DescribeDiskById'' [VString ''disk-1''],
        Call ''DescribeDiskById'' [VString ''disk-1'']]))
   \<and> resourceTencentCloudCbsStorageUpdate settings0 helpers0 cbsDown tag0 (diskData 10 20) [] =
     (Some (Error ''connection reset''), (Partial (diskData 10 20) True,
       [Call ''ResizeDisk'' [VString ''disk-1'', VInt 20],
        Call ''DescribeDiskById'' [VString ''disk-1''],
        Call ''DescribeDiskById'' [VString ''disk-1'']]))"
proof -
  let ?R = "Call ''ResizeDisk'' [VString ''disk-1'', VInt 20]"
  let ?D = "Call ''DescribeDiskById'' [VString ''disk-1'']"
  have a: "fst (expandingRetry settings0 cbs0 ''disk-1'' []) =
     Some (RetryableError (Error ''cbs storage status is EXPANDING''))"
    using cbs_resize_poll[where cbs = cbs0 and tr = "[]" and storageId = "''disk-1''"
        and storage = "Some (disk0 0)" and cf = settings0]
    by (simp add: cbs0_def disk0_def settings0_def)
  have b: "fst (expandingRetry settings0 cbsDown ''disk-1'' []) =
     Some (RetryableError (Error ''connection reset''))"
    using cbs_resize_poll[where cbs = cbsDown and tr = "[]" and storageId = "''disk-1''"
        and e = "Error ''connection reset''" and cf = settings0]
    by (simp add: cbsDown_def cbs0_def settings0_def retryError_def)
  have c0: "fst (expandingRetry settings0 cbs0 ''disk-1'' [?R, ?D]) = None"
    by (simp add: expandingRetry_def DescribeDiskById_def cbs0_def disk0_def settings0_def)
  have "\<exists>storage. api_DescribeDiskById cbs0 (length [?R, ?D]) ''disk-1'' = Inr storage
         \<and> \<not> (\<exists>disk. storage = Some disk \<and> DiskState disk = CBS_STORAGE_STATUS_EXPANDING settings0)"
    using cbs_resize_poll[where cbs = cbs0 and tr = "[?R, ?D]" and storageId = "''disk-1''"
        and cf = settings0] c0 by blast
  then have c: "api_DescribeDiskById cbs0 2 ''disk-1'' = Inr (Some (disk0 2))
      \<and> DiskState (disk0 2) = ''UNATTACHED''"
    by (simp add: cbs0_def disk0_def)
  have hc: "HasChange (diskData 10 20) ''storage_size''"
    by (simp add: HasChange_def sameValue_def isZero_def planned_def diskData_def noData_def)
  have sz: "\<not> oldInt (diskData 10 20) ''storage_size'' > newInt (diskData 10 20) ''storage_size''"
    by (simp add: oldInt_def newInt_def planned_def diskData_def noData_def)
  have rs: "Retry (writeRetryTimeout settings0)
      (callRetry settings0 [] (ResizeDisk cbs0 (ResourceId (diskData 10 20))
         (newInt (diskData 10 20) ''storage_size''))) [] = (None, [?R])"
    by (rule Retry_first_success)
      (simp_all add: settings0_def callRetry_def ResizeDisk_def cbs0_def diskData_def noData_def
        newInt_def planned_def)
  have poll: "Retry (readRetryTimeout settings0)
      (expandingRetry settings0 cbs0 (ResourceId (diskData 10 20))) [?R] = (None, [?R, ?D, ?D])"
    by (simp add: Retry_def numeral_2_eq_2 settings0_def expandingRetry_def DescribeDiskById_def
        cbs0_def disk0_def diskData_def noData_def)
  have d: "cbsUpdateSize settings0 cbs0 (diskData 10 20, []) =
     (None, (SetPartial (diskData 10 20) ''storage_size'', [?R, ?D, ?D]))"
    using cbs_resize_poll[where cf = settings0 and cbs = cbs0 and d = "diskData 10 20" and tr = "[]"
        and ?tr1.0 = "[?R]"] hc sz rs
    by (simp add: poll)
  have at: "cbsUpdateAttributes settings0 cbsDown (Partial (diskData 10 20) True, []) =
      (None, (Partial (diskData 10 20) True, []))"
    by (simp add: cbsUpdateAttributes_def Let_def HasChange_def sameValue_def isZero_def planned_def Partial_def diskData_def noData_def)
  have rs': "Retry (writeRetryTimeout settings0)
      (callRetry settings0 [] (ResizeDisk cbsDown ''disk-1'' 20)) [] = (None, [?R])"
    by (rule Retry_first_success)
      (simp_all add: settings0_def callRetry_def ResizeDisk_def cbs0_def cbsDown_def)
  have poll': "Retry (readRetryTimeout settings0) (expandingRetry settings0 cbsDown ''disk-1'') [?R] =
      (Some (Error ''connection reset''), [?R, ?D, ?D])"
    by (simp add: Retry_def numeral_2_eq_2 settings0_def expandingRetry_def DescribeDiskById_def
        cbs0_def cbsDown_def retryError_def)
  have se: "cbsUpdateSize settings0 cbsDown (Partial (diskData 10 20) True, []) =
      (Some (Error ''connection reset''), (Partial (diskData 10 20) True, [?R, ?D, ?D]))"
    by (simp add: cbsUpdateSize_def Let_def HasChange_def sameValue_def isZero_def planned_def oldInt_def newInt_def planned_def Partial_def
        diskData_def noData_def rs' poll')
  have e: "resourceTencentCloudCbsStorageUpdate settings0 helpers0 cbsDown tag0 (diskData 10 20) [] =
     (Some (Error ''connection reset''), (Partial (diskData 10 20) True, [?R, ?D, ?D]))"
    using cbs_resize_poll[where cf = settings0 and cbs = cbsDown and d = "diskData 10 20" and tr = "[]"
        and ?s1.0 = "(Partial (diskData 10 20) True, [])" and err = "Error ''connection reset''"
        and ?s2.0 = "(Partial (diskData 10 20) True, [?R, ?D, ?D])" and hp = helpers0 and tg = tag0]
      at se
    by blast
  from a b c d e show ?thesis by blast
qed

section \<open>Checks made before the API is called\<close>

text \<open>
  C1, as stated, fails: \<open>Create\<close> of a route table entry with \<open>next_type\<close> EIP and a
  \<open>next_hub\<close> other than "0" is rejected with an error built locally from the relation
  of the two fields, and \<open>Update\<close> of a CBS storage to a smaller size is rejected from
  the comparison of the old and the new value; neither makes an API call.
\<close>

theorem local_check_rejects_without_api_call:
  "resourceTencentCloudVpcRouteEntryCreate settings0 route0 (routeEntryData ''EIP'' ''1'') [] =
     (Some (Error (''if next_type is EIP, next_hub can only be '' @ [CHR 0x22] @ ''0'' @ [CHR 0x22] @ '' '')),
      routeEntryData ''EIP'' ''1'', [])
   \<and> resourceTencentCloudCbsStorageUpdate settings0 helpers0 cbs0 tag0 (diskData 20 10) [] =
     (Some (Error ''storage size must be greater than current storage size''),
      Partial (diskData 20 10) True, [])"
proof -
  have a: "resourceTencentCloudVpcRouteEntryCreate settings0 route0 (routeEntryData ''EIP'' ''1'') [] =
     (Some (Error (''if next_type is EIP, next_hub can only be '' @ [CHR 0x22] @ ''0'' @ [CHR 0x22] @ '' '')),
      routeEntryData ''EIP'' ''1'', [])"
    by (simp add: resourceTencentCloudVpcRouteEntryCreate_def Let_def routeEntryData_def noData_def
        GetOkString_def GetString_def Get_def planned_def settings0_def)
  have b: "resourceTencentCloudCbsStorageUpdate settings0 helpers0 cbs0 tag0 (diskData 20 10) [] =
     (Some (Error ''storage size must be greater than current storage size''),
      Partial (diskData 20 10) True, [])"
    by (simp add: resourceTencentCloudCbsStorageUpdate_def andThen_def cbsUpdateAttributes_def
        cbsUpdateSize_def Let_def HasChange_def sameValue_def isZero_def planned_def oldInt_def newInt_def planned_def Partial_def diskData_def
        noData_def)
  from a b show ?thesis by simp
qed

lemma routeEntryCreate_empty:
  assumes "GetString d ''route_table_id'' = [] \<or> GetString d ''destination_cidr_block'' = []
     \<or> GetString d ''next_type'' = [] \<or> GetString d ''next_hub'' = []"
  shows "resourceTencentCloudVpcRouteEntryCreate cf vpc d tr =
     (Some (Error ''some needed fields is empty string''), d, tr)"
  using assms
  by (auto simp: resourceTencentCloudVpcRouteEntryCreate_def Let_def GetOkString_def)

lemma routeEntryCreate_eip:
  assumes "GetString d ''route_table_id'' \<noteq> []" "GetString d ''destination_cidr_block'' \<noteq> []"
    "GetString d ''next_type'' = GATE_WAY_TYPE_EIP cf" "GetString d ''next_type'' \<noteq> []"
    "GetString d ''next_hub'' \<noteq> []" "GetString d ''next_hub'' \<noteq> ''0''"
  shows "resourceTencentCloudVpcRouteEntryCreate cf vpc d tr =
     (Some (Error (''if next_type is '' @ GATE_WAY_TYPE_EIP cf @ '', next_hub can only be ''
                       @ [CHR 0x22] @ ''0'' @ [CHR 0x22] @ '' '')), d, tr)"
  using assms
  by (simp add: resourceTencentCloudVpcRouteEntryCreate_def Let_def GetOkString_def)

lemma routeEntryCreate_calls:
  assumes "GetString d ''route_table_id'' \<noteq> []" "GetString d ''destination_cidr_block'' \<noteq> []"
    "GetString d ''next_type'' \<noteq> []" "GetString d ''next_hub'' \<noteq> []"
    "\<not> (GetString d ''next_type'' = GATE_WAY_TYPE_EIP cf \<and> GetString d ''next_hub'' \<noteq> ''0'')"
  shows "snd (snd (resourceTencentCloudVpcRouteEntryCreate cf vpc d tr)) =
     tr @ [Call ''CreateRoutes'' [VString (GetString d ''route_table_id''),
             VString (GetString d ''destination_cidr_block''), VString (GetString d ''next_type''),
             VString (GetString d ''next_hub''), VString (GetString d ''description'')]]"
  using assms
  by (auto simp: resourceTencentCloudVpcRouteEntryCreate_def Let_def GetOkString_def CreateRoutes_def
        split: sum.splits)

lemma cbsUpdateSize_smaller:
  assumes "HasChange d ''storage_size''" "oldInt d ''storage_size'' > newInt d ''storage_size''"
  shows "cbsUpdateSize cf cbs (d, tr) =
     (Some (Error ''storage size must be greater than current storage size''), (d, tr))"
  using assms by (simp add: cbsUpdateSize_def Let_def)

lemma redisCreate_zone:
  assumes "GetString d ''availability_zone'' \<noteq> []"
    "\<not> Contains (GetString d ''availability_zone'') (Region cf)"
  shows "resourceTencentCloudRedisInstanceCreate cf hp rc redis tg d tr =
     (Returns (Some (Error (''zone['' @ GetString d ''availability_zone'' @ ''] not in region[''
                      @ Region cf @ '']''))), d, tr)"
  using assms by (simp add: resourceTencentCloudRedisInstanceCreate_def Let_def)

text \<open>
  C1, amended.  Some operations do check their input locally, before the API call the
  check guards.  \<open>Create\<close> of a route table entry returns a locally built error and
  makes no API call when a required field is the empty string, or when \<open>next_type\<close>
  is EIP and \<open>next_hub\<close> is not "0"; otherwise it sends the fields to \<open>CreateRoutes\<close>.
  The size step of \<open>Update\<close> of a CBS storage returns a locally built error and makes
  no API call when the new \<open>storage_size\<close> is below the old one.  \<open>Create\<close> of a Redis
  instance returns a locally built error and makes no API call when the availability
  zone is set and does not contain the region.
\<close>

theorem local_checks_before_api_calls:
  "(GetString d ''route_table_id'' = [] \<or> GetString d ''destination_cidr_block'' = []
      \<or> GetString d ''next_type'' = [] \<or> GetString d ''next_hub'' = [] \<longrightarrow>
      resourceTencentCloudVpcRouteEntryCreate cf vpc d tr =
        (Some (Error ''some needed fields is empty string''), d, tr))
   \<and> (GetString d ''route_table_id'' \<noteq> [] \<and> GetString d ''destination_cidr_block'' \<noteq> []
      \<and> GetString d ''next_type'' \<noteq> [] \<and> GetString d ''next_hub'' \<noteq> []
      \<and> GetString d ''next_type'' = GATE_WAY_TYPE_EIP cf \<and> GetString d ''next_hub'' \<noteq> ''0'' \<longrightarrow>
      resourceTencentCloudVpcRouteEntryCreate cf vpc d tr =
        (Some (Error (''if next_type is '' @ GATE_WAY_TYPE_EIP cf @ '', next_hub can only be ''
                       @ [CHR 0x22] @ ''0'' @ [CHR 0x22] @ '' '')), d, tr))
   \<and> (GetString d ''route_table_id'' \<noteq> [] \<and> GetString d ''destination_cidr_block'' \<noteq> []
      \<and> GetString d ''next_type'' \<noteq> [] \<and> GetString d ''next_hub'' \<noteq> []
      \<and> \<not> (GetString d ''next_type'' = GATE_WAY_TYPE_EIP cf \<and> GetString d ''next_hub'' \<noteq> ''0'') \<longrightarrow>
      snd (snd (resourceTencentCloudVpcRouteEntryCreate cf vpc d tr)) =
        tr @ [Call ''CreateRoutes'' [VString (GetString d ''route_table_id''),
                VString (GetString d ''destination_cidr_block''), VString (GetString d ''next_type''),
                VString (GetString d ''next_hub''), VString (GetString d ''description'')]])
   \<and> (HasChange d ''storage_size'' \<and> oldInt d ''storage_size'' > newInt d ''storage_size'' \<longrightarrow>
      cbsUpdateSize cf cbs (d, tr) =
        (Some (Error ''storage size must be greater than current storage size''), (d, tr)))
   \<and> (GetString d ''availability_zone'' \<noteq> []
      \<and> \<not> Contains (GetString d ''availability_zone'') (Region cf) \<longrightarrow>
      resourceTencentCloudRedisInstanceCreate cf hp rc redis tg d tr =
        (Returns (Some (Error (''zone['' @ GetString d ''availability_zone'' @ ''] not in region[''
                      @ Region cf @ '']''))), d, tr))"
proof (intro conjI impI)
  assume "GetString d ''route_table_id'' = [] \<or> GetString d ''destination_cidr_block'' = []
      \<or> GetString d ''next_type'' = [] \<or> GetString d ''next_hub'' = []"
  then show "resourceTencentCloudVpcRouteEntryCreate cf vpc d tr =
        (Some (Error ''some needed fields is empty string''), d, tr)"
    by (rule routeEntryCreate_empty)
next
  assume a: "GetString d ''route_table_id'' \<noteq> [] \<and> GetString d ''destination_cidr_block'' \<noteq> []
      \<and> GetString d ''next_type'' \<noteq> [] \<and> GetString d ''next_hub'' \<noteq> []
      \<and> GetString d ''next_type'' = GATE_WAY_TYPE_EIP cf \<and> GetString d ''next_hub'' \<noteq> ''0''"
  show "resourceTencentCloudVpcRouteEntryCreate cf vpc d tr =
        (Some (Error (''if next_type is '' @ GATE_WAY_TYPE_EIP cf @ '', next_hub can only be ''
                       @ [CHR 0x22] @ ''0'' @ [CHR 0x22] @ '' '')), d, tr)"
    by (rule routeEntryCreate_eip) (use a in auto)
next
  assume a: "GetString d ''route_table_id'' \<noteq> [] \<and> GetString d ''destination_cidr_block'' \<noteq> []
      \<and> GetString d ''next_type'' \<noteq> [] \<and> GetString d ''next_hub'' \<noteq> []
      \<and> \<not> (GetString d ''next_type'' = GATE_WAY_TYPE_EIP cf \<and> GetString d ''next_hub'' \<noteq> ''0'')"
  show "snd (snd (resourceTencentCloudVpcRouteEntryCreate cf vpc d tr)) =
        tr @ [Call ''CreateRoutes'' [VString (GetString d ''route_table_id''),
                VString (GetString d ''destination_cidr_block''), VString (GetString d ''next_type''),
                VString (GetString d ''next_hub''), VString (GetString d ''description'')]]"
    by (rule routeEntryCreate_calls) (use a in simp_all)
next
  assume a: "HasChange d ''storage_size'' \<and> oldInt d ''storage_size'' > newInt d ''storage_size''"
  show "cbsUpdateSize cf cbs (d, tr) =
        (Some (Error ''storage size must be greater than current storage size''), (d, tr))"
    by (rule cbsUpdateSize_smaller) (use a in simp_all)
next
  assume a: "GetString d ''availability_zone'' \<noteq> []
      \<and> \<not> Contains (GetString d ''availability_zone'') (Region cf)"
  show "resourceTencentCloudRedisInstanceCreate cf hp rc redis tg d tr =
        (Returns (Some (Error (''zone['' @ GetString d ''availability_zone'' @ ''] not in region[''
                      @ Region cf @ '']''))), d, tr)"
    by (rule redisCreate_zone) (use a in simp_all)
qed

theorem local_checks_before_api_calls_witness:
  "resourceTencentCloudVpcRouteEntryCreate settings0 route0 noData [] =
     (Some (Error ''some needed fields is empty string''), noData, [])
   \<and> resourceTencentCloudVpcRouteEntryCreate settings0 route0 (routeEntryData ''EIP'' ''1'') [] =
     (Some (Error (''if next_type is EIP, next_hub can only be '' @ [CHR 0x22] @ ''0'' @ [CHR 0x22] @ '' '')),
      routeEntryData ''EIP'' ''1'', [])
   \<and> snd (snd (resourceTencentCloudVpcRouteEntryCreate settings0 route0 (routeEntryData ''EIP'' ''0'') [])) =
     [Call ''CreateRoutes'' [VString ''rtb-abc'', VString ''10.4.4.0/24'', VString ''EIP'',
        VString ''0'', VString []]]
   \<and> cbsUpdateSize settings0 cbs0 (diskData 20 10, []) =
     (Some (Error ''storage size must be greater than current storage size''), (diskData 20 10, []))
   \<and> resourceTencentCloudRedisInstanceCreate settings0 helpers0 rconsts0 (redisApi (\<lambda>n. oneInstance 2)) tag0
        (redisData ''ap-beijing-1'') [] =
     (Returns (Some (Error ''zone[ap-beijing-1] not in region[ap-guangzhou]'')),
      redisData ''ap-beijing-1'', [])"
proof -
  have g: "GetString (routeEntryData nt nh) ''route_table_id'' = ''rtb-abc''
      \<and> GetString (routeEntryData nt nh) ''destination_cidr_block'' = ''10.4.4.0/24''
      \<and> GetString (routeEntryData nt nh) ''next_type'' = nt
      \<and> GetString (routeEntryData nt nh) ''next_hub'' = nh
      \<and> GetString (routeEntryData nt nh) ''description'' = []" for nt nh
    by (simp add: routeEntryData_def noData_def GetString_def Get_def planned_def)
  have a: "resourceTencentCloudVpcRouteEntryCreate settings0 route0 noData [] =
     (Some (Error ''some needed fields is empty string''), noData, [])"
    using local_checks_before_api_calls[where d = noData and cf = settings0 and vpc = route0 and tr = "[]"]
    by (simp add: noData_def GetString_def Get_def planned_def)
  have b: "resourceTencentCloudVpcRouteEntryCreate settings0 route0 (routeEntryData ''EIP'' ''1'') [] =
     (Some (Error (''if next_type is EIP, next_hub can only be '' @ [CHR 0x22] @ ''0'' @ [CHR 0x22] @ '' '')),
      routeEntryData ''EIP'' ''1'', [])"
    using local_checks_before_api_calls[where d = "routeEntryData ''EIP'' ''1''" and cf = settings0
        and vpc = route0 and tr = "[]"]
    by (simp add: g) (simp add: settings0_def)
  have c: "snd (snd (resourceTencentCloudVpcRouteEntryCreate settings0 route0 (routeEntryData ''EIP'' ''0'') [])) =
     [Call ''CreateRoutes'' [VString ''rtb-abc'', VString ''10.4.4.0/24'', VString ''EIP'',
        VString ''0'', VString []]]"
    using local_checks_before_api_calls[where d = "routeEntryData ''EIP'' ''0''" and cf = settings0
        and vpc = route0 and tr = "[]"]
    by (simp add: g)
  have d: "cbsUpdateSize settings0 cbs0 (diskData 20 10, []) =
     (Some (Error ''storage size must be greater than current storage size''), (diskData 20 10, []))"
    using local_checks_before_api_calls[where d = "diskData 20 10" and cf = settings0
        and cbs = cbs0 and tr = "[]"]
    by (simp add: HasChange_def sameValue_def isZero_def planned_def oldInt_def newInt_def planned_def diskData_def noData_def)
  have z: "GetString (redisData ''ap-beijing-1'') ''availability_zone'' = ''ap-beijing-1''"
    by (simp add: redisData_def noData_def GetString_def Get_def planned_def)
  have nc: "\<not> Contains ''ap-beijing-1'' ''ap-guangzhou''" by simp
  have e: "resourceTencentCloudRedisInstanceCreate settings0 helpers0 rconsts0 (redisApi (\<lambda>n. oneInstance 2)) tag0
        (redisData ''ap-beijing-1'') [] =
     (Returns (Some (Error ''zone[ap-beijing-1] not in region[ap-guangzhou]'')),
      redisData ''ap-beijing-1'', [])"
    using local_checks_before_api_calls[where d = "redisData ''ap-beijing-1''" and cf = settings0
        and hp = helpers0 and rc = rconsts0 and redis = "redisApi (\<lambda>n. oneInstance 2)" and tg = tag0
        and tr = "[]"] nc
    by (simp add: z) (simp add: settings0_def)
  from a b c d e show ?thesis by blast
qed

section \<open>Delete and the poll for disappearance\<close>

lemma Retry_from_success_last:
  assumes "Retry_from n resultErr f s = (None, s')" and "P s" and "\<And>s. P s \<Longrightarrow> P (snd (f s))"
  shows "\<exists>s0. P s0 \<and> f s0 = (None, s')"
  using assms
proof (induction n arbitrary: s resultErr)
  case 0
  then show ?case by simp
next
  case (Suc n)
  obtain r s1 where f: "f s = (r, s1)" by (cases "f s")
  have p1: "P s1" using Suc.prems(2,3) f by (metis snd_conv)
  show ?case
  proof (cases r)
    case None
    then have "s' = s1" using Suc.prems(1) f by simp
    then show ?thesis using f None Suc.prems(2) by blast
  next
    case (Some re)
    show ?thesis
    proof (cases re)
      case (RetryableError e)
      then have "Retry_from n (Some e) f s1 = (None, s')"
        using Suc.prems(1) f Some by simp
      then show ?thesis using Suc.IH p1 Suc.prems(3) by blast
    next
      case (NonRetryableError e)
      then show ?thesis using Suc.prems(1) f Some by simp
    qed
  qed
qed

lemma Retry_success_last:
  assumes "Retry n f s = (None, s')" and "P s" and "\<And>s. P s \<Longrightarrow> P (snd (f s))"
  shows "\<exists>s0. P s0 \<and> f s0 = (None, s')"
  using assms Retry_from_success_last[of n None f s s' P] by (simp add: Retry_def)

lemma Retry_from_invariant:
  assumes "P s" and "\<And>s. P s \<Longrightarrow> P (snd (f s))"
  shows "P (snd (Retry_from n resultErr f s))"
  using assms
proof (induction n arbitrary: s resultErr)
  case 0
  then show ?case by simp
next
  case (Suc n)
  obtain r s1 where f: "f s = (r, s1)" by (cases "f s")
  have p1: "P s1" using Suc.prems f by (metis snd_conv)
  show ?case
  proof (cases r)
    case None
    then show ?thesis using f p1 by simp
  next
    case (Some re)
    then show ?thesis using f p1 Suc.IH[OF p1 Suc.prems(2)] by (cases re) simp_all
  qed
qed

lemma Retry_invariant:
  assumes "P s" and "\<And>s. P s \<Longrightarrow> P (snd (f s))"
  shows "P (snd (Retry n f s))"
  using assms Retry_from_invariant[of P s f n None] by (simp add: Retry_def)

lemma callRetry_trace:
  assumes "\<And>tr. snd (api tr) = tr @ [c]"
  shows "snd (callRetry cf codes api tr) = tr @ [c]"
  using assms[of tr] by (cases "api tr") (auto simp: callRetry_def split: option.splits)

lemma Retry_from_single_call_trace:
  assumes "\<And>tr. snd (f tr) = tr @ [c]"
  shows "\<exists>k\<le>n. snd (Retry_from n resultErr f tr) = tr @ replicate k c"
proof (induction n arbitrary: tr resultErr)
  case 0
  show ?case by simp
next
  case (Suc n)
  obtain r tr1 where f: "f tr = (r, tr1)" by (cases "f tr")
  then have t1: "tr1 = tr @ [c]" using assms[of tr] by simp
  show ?case
  proof (cases r)
    case None
    then have "snd (Retry_from (Suc n) resultErr f tr) = tr @ replicate 1 c" using f t1 by simp
    then show ?thesis by (metis Suc_leI zero_less_Suc One_nat_def)
  next
    case (Some re)
    show ?thesis
    proof (cases re)
      case (RetryableError e)
      obtain k where k: "k \<le> n" "snd (Retry_from n (Some e) f tr1) = tr1 @ replicate k c"
        using Suc.IH by blast
      then have "snd (Retry_from (Suc n) resultErr f tr) = tr @ replicate (Suc k) c"
        using f Some RetryableError t1 by (simp add: replicate_append_same)
      then show ?thesis using k(1) by (metis Suc_le_mono)
    next
      case (NonRetryableError e)
      then have "snd (Retry_from (Suc n) resultErr f tr) = tr @ replicate 1 c"
        using f Some t1 by simp
      then show ?thesis by (metis Suc_leI zero_less_Suc One_nat_def)
    qed
  qed
qed

lemma cbsDelete_trace:
  "\<exists>k\<le>writeRetryTimeout cf.
     snd (snd (resourceTencentCloudCbsStorageDelete cf cbs d tr)) =
       tr @ replicate k (Call ''DeleteDiskById'' [VString (ResourceId d)])"
proof -
  let ?f = "callRetry cf [InternalError cf] (DeleteDiskById cbs (ResourceId d))"
  let ?c = "Call ''DeleteDiskById'' [VString (ResourceId d)]"
  have "\<And>tr. snd (?f tr) = tr @ [?c]"
    by (rule callRetry_trace) (simp add: DeleteDiskById_def)
  then obtain k where k: "k \<le> writeRetryTimeout cf"
    "snd (Retry_from (writeRetryTimeout cf) None ?f tr) = tr @ replicate k ?c"
    using Retry_from_single_call_trace[of ?f ?c "writeRetryTimeout cf" None tr] by blast
  have "snd (snd (resourceTencentCloudCbsStorageDelete cf cbs d tr)) =
      snd (Retry (writeRetryTimeout cf) ?f tr)"
    by (simp add: resourceTencentCloudCbsStorageDelete_def Let_def split: prod.splits option.splits)
  then show ?thesis using k by (auto simp: Retry_def)
qed

lemma Retry_from_success_at:
  assumes "\<And>i. i < k \<Longrightarrow>
     \<exists>e. f (tr @ replicate i c) = (Some (RetryableError e), tr @ replicate (Suc i) c)"
    and "f (tr @ replicate k c) = (None, tr @ replicate (Suc k) c)"
    and "k < n"
  shows "Retry_from n resultErr f tr = (None, tr @ replicate (Suc k) c)"
  using assms
proof (induction k arbitrary: n tr resultErr)
  case 0
  then obtain m where "n = Suc m" by (cases n) auto
  then show ?case using 0(2) by simp
next
  case (Suc k)
  obtain m where n: "n = Suc m" "k < m" using Suc.prems(3) by (cases n) auto
  obtain e where f0: "f tr = (Some (RetryableError e), tr @ [c])"
    using Suc.prems(1)[of 0] by auto
  have step: "\<And>i. i < k \<Longrightarrow>
      \<exists>e. f ((tr @ [c]) @ replicate i c) = (Some (RetryableError e), (tr @ [c]) @ replicate (Suc i) c)"
  proof -
    fix i assume "i < k"
    then have "\<exists>e. f (tr @ replicate (Suc i) c) =
        (Some (RetryableError e), tr @ replicate (Suc (Suc i)) c)"
      using Suc.prems(1)[of "Suc i"] by simp
    then show "\<exists>e. f ((tr @ [c]) @ replicate i c) =
        (Some (RetryableError e), (tr @ [c]) @ replicate (Suc i) c)"
      by simp
  qed
  have last: "f ((tr @ [c]) @ replicate k c) = (None, (tr @ [c]) @ replicate (Suc k) c)"
    using Suc.prems(2) by simp
  have "Retry_from m (Some e) f (tr @ [c]) = (None, (tr @ [c]) @ replicate (Suc k) c)"
    using Suc.IH[of "tr @ [c]" m "Some e", OF step last n(2)] by simp
  then show ?case using f0 n(1) by simp
qed

lemma Retry_from_success_call:
  assumes "\<And>t. snd (f t) = t @ [c]"
    and "Retry_from n resultErr f tr = (None, tr')"
  shows "\<exists>k<n. f (tr @ replicate k c) = (None, tr') \<and> tr' = tr @ replicate (Suc k) c"
  using assms(2)
proof (induction n arbitrary: tr resultErr)
  case 0
  then show ?case by simp
next
  case (Suc n)
  obtain r tr1 where f: "f tr = (r, tr1)" by (cases "f tr")
  then have t1: "tr1 = tr @ [c]" using assms(1)[of tr] by simp
  show ?case
  proof (cases r)
    case None
    then have "tr' = tr1" using Suc.prems f by simp
    then have "f (tr @ replicate 0 c) = (None, tr') \<and> tr' = tr @ replicate (Suc 0) c"
      using f None t1 by simp
    then show ?thesis by blast
  next
    case (Some re)
    show ?thesis
    proof (cases re)
      case (RetryableError e)
      then have "Retry_from n (Some e) f tr1 = (None, tr')"
        using Suc.prems f Some by simp
      then obtain k where k: "k < n" "f (tr1 @ replicate k c) = (None, tr')"
          "tr' = tr1 @ replicate (Suc k) c"
        using Suc.IH by blast
      then have "Suc k < Suc n \<and> f (tr @ replicate (Suc k) c) = (None, tr')
          \<and> tr' = tr @ replicate (Suc (Suc k)) c"
        using t1 by simp
      then show ?thesis by blast
    next
      case (NonRetryableError e)
      then show ?thesis using Suc.prems f Some by simp
    qed
  qed
qed

lemma cbsDelete_success_call:
  assumes "fst (resourceTencentCloudCbsStorageDelete cf cbs d tr) = None"
  shows "\<exists>k<writeRetryTimeout cf.
       api_DeleteDiskById cbs (length tr + k) (ResourceId d) = None
     \<and> resourceTencentCloudCbsStorageDelete cf cbs d tr =
         (None, d, tr @ replicate (Suc k) (Call ''DeleteDiskById'' [VString (ResourceId d)]))"
proof -
  let ?f = "callRetry cf [InternalError cf] (DeleteDiskById cbs (ResourceId d))"
  let ?c = "Call ''DeleteDiskById'' [VString (ResourceId d)]"
  have tr: "\<And>t. snd (?f t) = t @ [?c]"
    by (rule callRetry_trace) (simp add: DeleteDiskById_def)
  from assms obtain tr' where r: "Retry_from (writeRetryTimeout cf) None ?f tr = (None, tr')"
    by (auto simp: resourceTencentCloudCbsStorageDelete_def Let_def Retry_def
          split: prod.splits option.splits)
  obtain k where k: "k < writeRetryTimeout cf" "?f (tr @ replicate k ?c) = (None, tr')"
      "tr' = tr @ replicate (Suc k) ?c"
    using Retry_from_success_call[of ?f ?c "writeRetryTimeout cf" None tr tr', OF tr r] by blast
  have "api_DeleteDiskById cbs (length tr + k) (ResourceId d) = None"
    using k(2) by (auto simp: callRetry_def DeleteDiskById_def split: option.splits)
  moreover have "resourceTencentCloudCbsStorageDelete cf cbs d tr = (None, d, tr')"
    using r by (simp add: resourceTencentCloudCbsStorageDelete_def Let_def Retry_def)
  ultimately show ?thesis using k(1,3) by blast
qed

lemma cbsDelete_first_success:
  assumes "k < writeRetryTimeout cf"
    and "api_DeleteDiskById cbs (length tr + k) (ResourceId d) = None"
    and "\<forall>i<k. \<exists>e. api_DeleteDiskById cbs (length tr + i) (ResourceId d) = Some e
            \<and> retryError cf e [InternalError cf] = RetryableError e"
  shows "resourceTencentCloudCbsStorageDelete cf cbs d tr =
         (None, d, tr @ replicate (Suc k) (Call ''DeleteDiskById'' [VString (ResourceId d)]))"
proof -
  let ?f = "callRetry cf [InternalError cf] (DeleteDiskById cbs (ResourceId d))"
  let ?c = "Call ''DeleteDiskById'' [VString (ResourceId d)]"
  have a: "\<And>i. i < k \<Longrightarrow>
     \<exists>e. ?f (tr @ replicate i ?c) = (Some (RetryableError e), tr @ replicate (Suc i) ?c)"
  proof -
    fix i assume "i < k"
    then obtain e where "api_DeleteDiskById cbs (length tr + i) (ResourceId d) = Some e"
        "retryError cf e [InternalError cf] = RetryableError e"
      using assms(3) by blast
    then have "?f (tr @ replicate i ?c) = (Some (RetryableError e), tr @ replicate (Suc i) ?c)"
      by (simp add: callRetry_def DeleteDiskById_def replicate_append_same)
    then show "\<exists>e. ?f (tr @ replicate i ?c) = (Some (RetryableError e), tr @ replicate (Suc i) ?c)"
      by blast
  qed
  have b: "?f (tr @ replicate k ?c) = (None, tr @ replicate (Suc k) ?c)"
    using assms(2) by (simp add: callRetry_def DeleteDiskById_def replicate_append_same)
  have "Retry_from (writeRetryTimeout cf) None ?f tr = (None, tr @ replicate (Suc k) ?c)"
    using a b assms(1) by (rule Retry_from_success_at)
  then show ?thesis
    by (simp add: resourceTencentCloudCbsStorageDelete_def Let_def Retry_def)
qed

lemma vpnGoneRetry_success:
  assumes "vpnGoneRetry cf vpn gatewayId tr = (None, tr')"
  shows "tr' = tr @ [Call ''DescribeVpnGateways'' [VStrings [gatewayId]]]
     \<and> (api_DescribeVpnGateways vpn (length tr) [gatewayId] = Inr []
        \<or> (\<exists>e. api_DescribeVpnGateways vpn (length tr) [gatewayId] = Inl e \<and> hasCode (VPCNotFound cf) e))"
  using assms
  by (auto simp: vpnGoneRetry_def DescribeVpnGateways_def hasCode_def
        split: sum.splits err.splits if_splits)

lemma vpnGoneRetry_trace: "snd (vpnGoneRetry cf vpn gatewayId tr) = tr @ [Call ''DescribeVpnGateways'' [VStrings [gatewayId]]]"
  by (auto simp: vpnGoneRetry_def DescribeVpnGateways_def split: sum.splits err.splits)

lemma vpnDelete_success:
  assumes "fst (resourceTencentCloudVpnGatewayDelete cf vpn d tr) = None"
  shows "\<exists>tr1. snd (snd (resourceTencentCloudVpnGatewayDelete cf vpn d tr)) =
        tr1 @ [Call ''DescribeVpnGateways'' [VStrings [ResourceId d]]]
     \<and> Call ''DeleteVpnGateway'' [VString (ResourceId d)] \<in> set tr1
     \<and> (api_DescribeVpnGateways vpn (length tr1) [ResourceId d] = Inr []
        \<or> (\<exists>e. api_DescribeVpnGateways vpn (length tr1) [ResourceId d] = Inl e
              \<and> hasCode (VPCNotFound cf) e))"
proof -
  let ?id = "ResourceId d"
  let ?del = "Call ''DeleteVpnGateway'' [VString ?id]"
  from assms obtain trA trB trC trD params where
    del: "Retry (writeRetryTimeout cf) (callRetry cf [] (DeleteVpnGateway vpn ?id)) trB = (None, trC)"
    and poll: "Retry (readRetryTimeout cf) (vpnGoneRetry cf vpn ?id) trC = (None, trD)"
    and res: "snd (snd (resourceTencentCloudVpnGatewayDelete cf vpn d tr)) = trD"
    by (auto simp: resourceTencentCloudVpnGatewayDelete_def Let_def
          split: prod.splits option.splits if_splits)
  have "\<exists>s0. True \<and> callRetry cf [] (DeleteVpnGateway vpn ?id) s0 = (None, trC)"
    by (rule Retry_success_last[OF del]) simp_all
  then obtain s0 where "callRetry cf [] (DeleteVpnGateway vpn ?id) s0 = (None, trC)" by blast
  then have "snd (callRetry cf [] (DeleteVpnGateway vpn ?id) s0) = trC" by simp
  moreover have "snd (callRetry cf [] (DeleteVpnGateway vpn ?id) s0) = s0 @ [?del]"
    by (rule callRetry_trace) (simp add: DeleteVpnGateway_def)
  ultimately have inC: "?del \<in> set trC" by auto
  have "\<exists>tr1. ?del \<in> set tr1 \<and> vpnGoneRetry cf vpn ?id tr1 = (None, trD)"
    by (rule Retry_success_last[OF poll, where P = "\<lambda>t. ?del \<in> set t"])
      (simp_all add: inC vpnGoneRetry_trace)
  then obtain tr1 where tr1: "?del \<in> set tr1" "vpnGoneRetry cf vpn ?id tr1 = (None, trD)" by blast
  then show ?thesis using vpnGoneRetry_success[OF tr1(2)] res by blast
qed

text \<open>
  C2, as stated, fails: \<open>Delete\<close> of a CBS storage returns success after one
  \<open>DeleteDiskById\<close> request, without describing the disk, although the API would still
  describe the disk at that moment.
\<close>

theorem cbs_delete_returns_without_poll:
  "resourceTencentCloudCbsStorageDelete settings0 cbs0 (diskData 20 20) [] =
     (None, diskData 20 20, [Call ''DeleteDiskById'' [VString ''disk-1'']])
   \<and> api_DescribeDiskById cbs0 1 ''disk-1'' = Inr (Some (disk0 1))"
proof -
  have "Retry (writeRetryTimeout settings0)
      (callRetry settings0 [InternalError settings0] (DeleteDiskById cbs0 ''disk-1'')) [] =
      (None, [Call ''DeleteDiskById'' [VString ''disk-1'']])"
    by (rule Retry_first_success)
      (simp_all add: settings0_def callRetry_def DeleteDiskById_def cbs0_def)
  then show ?thesis
    by (simp add: resourceTencentCloudCbsStorageDelete_def Let_def diskData_def noData_def cbs0_def)
qed

text \<open>
  C2, amended.  \<open>Delete\<close> of a VPN gateway issues the remote delete request and then
  polls: when it returns success, its last API call is a \<open>DescribeVpnGateways\<close> of the
  gateway, made after a \<open>DeleteVpnGateway\<close> request, that returned an empty result set
  or the not-found code.  \<open>Delete\<close> of a CBS storage does not poll: the only API calls
  it makes are \<open>DeleteDiskById\<close> requests, at most as many as fit into the write
  duration, and it returns success as soon as one of them succeeds.  When it returns
  success, its last API call is a \<open>DeleteDiskById\<close> request that succeeded; and when a
  \<open>DeleteDiskById\<close> request within the duration succeeds after requests that failed with
  errors \<open>retryError\<close> holds for retryable, \<open>Delete\<close> returns success with that request
  as its last API call.
\<close>

theorem delete_polls_for_vpn_gateway_not_for_cbs:
  "(fst (resourceTencentCloudVpnGatewayDelete cf vpn d tr) = None \<longrightarrow>
      (\<exists>tr1. snd (snd (resourceTencentCloudVpnGatewayDelete cf vpn d tr)) =
          tr1 @ [Call ''DescribeVpnGateways'' [VStrings [ResourceId d]]]
        \<and> Call ''DeleteVpnGateway'' [VString (ResourceId d)] \<in> set tr1
        \<and> (api_DescribeVpnGateways vpn (length tr1) [ResourceId d] = Inr []
           \<or> (\<exists>e. api_DescribeVpnGateways vpn (length tr1) [ResourceId d] = Inl e
                 \<and> hasCode (VPCNotFound cf) e))))
   \<and> (\<exists>k\<le>writeRetryTimeout cf.
        snd (snd (resourceTencentCloudCbsStorageDelete cf cbs d tr)) =
          tr @ replicate k (Call ''DeleteDiskById'' [VString (ResourceId d)]))
   \<and> (fst (resourceTencentCloudCbsStorageDelete cf cbs d tr) = None \<longrightarrow>
        (\<exists>k<writeRetryTimeout cf.
            api_DeleteDiskById cbs (length tr + k) (ResourceId d) = None
          \<and> resourceTencentCloudCbsStorageDelete cf cbs d tr =
              (None, d, tr @ replicate (Suc k) (Call ''DeleteDiskById'' [VString (ResourceId d)]))))
   \<and> (n < writeRetryTimeout cf
        \<and> api_DeleteDiskById cbs (length tr + n) (ResourceId d) = None
        \<and> (\<forall>i<n. \<exists>e. api_DeleteDiskById cbs (length tr + i) (ResourceId d) = Some e
                    \<and> retryError cf e [InternalError cf] = RetryableError e) \<longrightarrow>
        resourceTencentCloudCbsStorageDelete cf cbs d tr =
          (None, d, tr @ replicate (Suc n) (Call ''DeleteDiskById'' [VString (ResourceId d)])))"
proof (intro conjI impI)
  assume "fst (resourceTencentCloudVpnGatewayDelete cf vpn d tr) = None"
  then show "\<exists>tr1. snd (snd (resourceTencentCloudVpnGatewayDelete cf vpn d tr)) =
          tr1 @ [Call ''DescribeVpnGateways'' [VStrings [ResourceId d]]]
        \<and> Call ''DeleteVpnGateway'' [VString (ResourceId d)] \<in> set tr1
        \<and> (api_DescribeVpnGateways vpn (length tr1) [ResourceId d] = Inr []
           \<or> (\<exists>e. api_DescribeVpnGateways vpn (length tr1) [ResourceId d] = Inl e
                 \<and> hasCode (VPCNotFound cf) e))"
    by (rule vpnDelete_success)
next
  show "\<exists>k\<le>writeRetryTimeout cf.
        snd (snd (resourceTencentCloudCbsStorageDelete cf cbs d tr)) =
          tr @ replicate k (Call ''DeleteDiskById'' [VString (ResourceId d)])"
    by (rule cbsDelete_trace)
next
  assume "fst (resourceTencentCloudCbsStorageDelete cf cbs d tr) = None"
  then show "\<exists>k<writeRetryTimeout cf.
            api_DeleteDiskById cbs (length tr + k) (ResourceId d) = None
          \<and> resourceTencentCloudCbsStorageDelete cf cbs d tr =
              (None, d, tr @ replicate (Suc k) (Call ''DeleteDiskById'' [VString (ResourceId d)]))"
    by (rule cbsDelete_success_call)
next
  assume a: "n < writeRetryTimeout cf
        \<and> api_DeleteDiskById cbs (length tr + n) (ResourceId d) = None
        \<and> (\<forall>i<n. \<exists>e. api_DeleteDiskById cbs (length tr + i) (ResourceId d) = Some e
                    \<and> retryError cf e [InternalError cf] = RetryableError e)"
  show "resourceTencentCloudCbsStorageDelete cf cbs d tr =
          (None, d, tr @ replicate (Suc n) (Call ''DeleteDiskById'' [VString (ResourceId d)]))"
    by (rule cbsDelete_first_success) (use a in simp_all)
qed

theorem delete_polls_for_vpn_gateway_not_for_cbs_witness:
  "resourceTencentCloudVpnGatewayDelete settings0 vpn0 (noData\<lparr>ResourceId := ''vpngw-1''\<rparr>) [] =
     (None, noData\<lparr>ResourceId := ''vpngw-1''\<rparr>,
      [Call ''DescribeVpnGateways'' [VStrings [''vpngw-1'']],
       Call ''DescribeVpnConnections'' [VTags [(''vpn-gateway-id'', ''vpngw-1'')]],
       Call ''DeleteVpnGateway'' [VString ''vpngw-1''],
       Call ''DescribeVpnGateways'' [VStrings [''vpngw-1'']],
       Call ''DescribeVpnGateways'' [VStrings [''vpngw-1'']]])
   \<and> api_DescribeVpnGateways vpn0 4 [''vpngw-1''] = Inr []
   \<and> (\<exists>tr1. snd (snd (resourceTencentCloudVpnGatewayDelete settings0 vpn0
                 (noData\<lparr>ResourceId := ''vpngw-1''\<rparr>) [])) =
          tr1 @ [Call ''DescribeVpnGateways'' [VStrings [''vpngw-1'']]]
        \<and> Call ''DeleteVpnGateway'' [VString ''vpngw-1''] \<in> set tr1)
   \<and> api_DeleteDiskById cbsBusy 0 ''disk-1'' = Some (TceCloudSDKError ''InternalError'' ''try again'' ''req-1'')
   \<and> api_DeleteDiskById cbsBusy 1 ''disk-1'' = None
   \<and> resourceTencentCloudCbsStorageDelete settings0 cbsBusy (diskData 20 20) [] =
        (None, diskData 20 20,
         [Call ''DeleteDiskById'' [VString ''disk-1''], Call ''DeleteDiskById'' [VString ''disk-1'']])"
proof -
  let ?d = "noData\<lparr>ResourceId := ''vpngw-1''\<rparr>"
  have ev: "resourceTencentCloudVpnGatewayDelete settings0 vpn0 ?d [] =
     (None, ?d,
      [Call ''DescribeVpnGateways'' [VStrings [''vpngw-1'']],
       Call ''DescribeVpnConnections'' [VTags [(''vpn-gateway-id'', ''vpngw-1'')]],
       Call ''DeleteVpnGateway'' [VString ''vpngw-1''],
       Call ''DescribeVpnGateways'' [VStrings [''vpngw-1'']],
       Call ''DescribeVpnGateways'' [VStrings [''vpngw-1'']]])"
    by (simp add: resourceTencentCloudVpnGatewayDelete_def Let_def Retry_def numeral_2_eq_2
        vpnChargeRetry_def vpnTunnelRetry_def callRetry_def vpnGoneRetry_def
        DescribeVpnGateways_def DescribeVpnConnections_def DeleteVpnGateway_def
        vpn0_def gateway0_def settings0_def noData_def GetOkString_def GetString_def Get_def planned_def)
  then have ok: "fst (resourceTencentCloudVpnGatewayDelete settings0 vpn0 ?d []) = None" by simp
  have rid: "ResourceId ?d = ''vpngw-1''" by simp
  obtain tr1 where "snd (snd (resourceTencentCloudVpnGatewayDelete settings0 vpn0 ?d [])) =
          tr1 @ [Call ''DescribeVpnGateways'' [VStrings [ResourceId ?d]]]"
      "Call ''DeleteVpnGateway'' [VString (ResourceId ?d)] \<in> set tr1"
    using delete_polls_for_vpn_gateway_not_for_cbs[where cf = settings0 and vpn = vpn0 and d = ?d
        and tr = "[]"] ok by blast
  then have ex: "\<exists>tr1. snd (snd (resourceTencentCloudVpnGatewayDelete settings0 vpn0 ?d [])) =
          tr1 @ [Call ''DescribeVpnGateways'' [VStrings [''vpngw-1'']]]
        \<and> Call ''DeleteVpnGateway'' [VString ''vpngw-1''] \<in> set tr1"
    unfolding rid by blast
  have api: "api_DescribeVpnGateways vpn0 4 [''vpngw-1''] = Inr []" by (simp add: vpn0_def)
  have b0: "api_DeleteDiskById cbsBusy 0 ''disk-1'' =
      Some (TceCloudSDKError ''InternalError'' ''try again'' ''req-1'')"
    by (simp add: cbsBusy_def cbs0_def)
  have b1: "api_DeleteDiskById cbsBusy 1 ''disk-1'' = None"
    by (simp add: cbsBusy_def cbs0_def)
  have re: "retryError settings0 (TceCloudSDKError ''InternalError'' ''try again'' ''req-1'')
      [InternalError settings0] = RetryableError (TceCloudSDKError ''InternalError'' ''try again'' ''req-1'')"
    by (simp add: retryError_def settings0_def)
  have did: "ResourceId (diskData 20 20) = ''disk-1''" by (simp add: diskData_def noData_def)
  have hyp: "(1::nat) < writeRetryTimeout settings0
        \<and> api_DeleteDiskById cbsBusy (length ([]::trace) + 1) (ResourceId (diskData 20 20)) = None
        \<and> (\<forall>i<1. \<exists>e. api_DeleteDiskById cbsBusy (length ([]::trace) + i) (ResourceId (diskData 20 20)) = Some e
                    \<and> retryError settings0 e [InternalError settings0] = RetryableError e)"
    using b0 b1 re by (simp add: did settings0_def)
  have cb: "resourceTencentCloudCbsStorageDelete settings0 cbsBusy (diskData 20 20) [] =
        (None, diskData 20 20,
         [Call ''DeleteDiskById'' [VString ''disk-1''], Call ''DeleteDiskById'' [VString ''disk-1'']])"
    using delete_polls_for_vpn_gateway_not_for_cbs[where n = 1 and cf = settings0 and cbs = cbsBusy
        and d = "diskData 20 20" and tr = "[]"] hyp
    by (simp add: did numeral_2_eq_2)
  from ev api ex b0 b1 cb show ?thesis by blast
qed

section \<open>Read of a resource that is gone\<close>

lemma cbsRead_absent:
  assumes "0 < readRetryTimeout cf"
    and "api_DescribeDiskById cbs (length tr) (ResourceId d) = Inr None"
  shows "resourceTencentCloudCbsStorageRead cf cbs d tr =
     (None, SetId d [], tr @ [Call ''DescribeDiskById'' [VString (ResourceId d)]])"
proof -
  let ?f = "\<lambda>s. case DescribeDiskById cbs (ResourceId d) (snd s) of
                    (Inl e, tr) \<Rightarrow> (Some (retryError cf e []), (None, tr))
                  | (Inr storage, tr) \<Rightarrow> (None, (storage, tr))"
  have "?f (None, tr) = (None, (None, tr @ [Call ''DescribeDiskById'' [VString (ResourceId d)]]))"
    using assms(2) by (simp add: DescribeDiskById_def)
  then have "Retry (readRetryTimeout cf) ?f (None, tr) =
      (None, (None, tr @ [Call ''DescribeDiskById'' [VString (ResourceId d)]]))"
    using assms(1) by (rule Retry_first_success[rotated])
  then show ?thesis by (simp add: resourceTencentCloudCbsStorageRead_def Let_def)
qed

lemma keyPairRead_absent:
  assumes "0 < readRetryTimeout cf"
    and "api_DescribeKeyPairById cvm (length tr) (ResourceId d) = Inr None"
  shows "resourceTencentCloudKeyPairRead cf cvm d tr =
     (None, SetId d [], tr @ [Call ''DescribeKeyPairById'' [VString (ResourceId d)]])"
proof -
  have "describeKeyPairRetry cf cvm (ResourceId d) (None, tr) =
      (None, (None, tr @ [Call ''DescribeKeyPairById'' [VString (ResourceId d)]]))"
    using assms(2) by (simp add: describeKeyPairRetry_def DescribeKeyPairById_def)
  then have "Retry (readRetryTimeout cf) (describeKeyPairRetry cf cvm (ResourceId d)) (None, tr) =
      (None, (None, tr @ [Call ''DescribeKeyPairById'' [VString (ResourceId d)]]))"
    using assms(1) by (rule Retry_first_success[rotated])
  then show ?thesis by (simp add: resourceTencentCloudKeyPairRead_def Let_def)
qed

lemma routeEntryRead_absent:
  assumes "0 < readRetryTimeout cf"
    and "Split (ResourceId d) CHR ''.'' = [item0, item1]"
    and "api_DescribeRouteTable vpc (length tr) item1 = Inr (info, has)"
    and "has = 0 \<or> (has = 1 \<and> findRouteEntry (entryInfos info) item0 = None)"
  shows "resourceTencentCloudVpcRouteEntryRead cf vpc d tr =
     (None, SetId d [], tr @ [Call ''DescribeRouteTable'' [VString item1]])"
proof -
  have "routeEntryReadRetry cf vpc item0 item1 (d, tr) =
      (None, (SetId d [], tr @ [Call ''DescribeRouteTable'' [VString item1]]))"
    using assms(3,4) by (auto simp: routeEntryReadRetry_def DescribeRouteTable_def)
  then have "Retry (readRetryTimeout cf) (routeEntryReadRetry cf vpc item0 item1) (d, tr) =
      (None, (SetId d [], tr @ [Call ''DescribeRouteTable'' [VString item1]]))"
    using assms(1) by (rule Retry_first_success[rotated])
  then show ?thesis by (simp add: resourceTencentCloudVpcRouteEntryRead_def assms(2))
qed

lemma vpnRead_absent:
  assumes "0 < readRetryTimeout cf"
    and "api_DescribeVpnGateways vpn (length tr) [ResourceId d] = Inr []"
  shows "resourceTencentCloudVpnGatewayRead cf vpn tg d tr =
     (Returns None, SetId d [], tr @ [Call ''DescribeVpnGateways'' [VStrings [ResourceId d]]])"
proof -
  have "vpnReadRetry cf vpn (ResourceId d) (None, tr) =
      (None, (Some [], tr @ [Call ''DescribeVpnGateways'' [VStrings [ResourceId d]]]))"
    using assms(2) by (simp add: vpnReadRetry_def DescribeVpnGateways_def)
  then have "Retry (readRetryTimeout cf) (vpnReadRetry cf vpn (ResourceId d)) (None, tr) =
      (None, (Some [], tr @ [Call ''DescribeVpnGateways'' [VStrings [ResourceId d]]]))"
    using assms(1) by (rule Retry_first_success[rotated])
  then show ?thesis by (simp add: resourceTencentCloudVpnGatewayRead_def Let_def)
qed

lemma CheckRedisCreateOk_answered:
  assumes "api_DescribeInstances redis (length tr)
             (NewDescribeInstancesRequest \<lparr> ReqInstanceId := Some redisId \<rparr>) = Inr response"
  shows "CheckRedisCreateOk rc redis redisId tr =
     (case RespInstanceSet response of
        [] \<Rightarrow> (False, False, None, None)
      | [info] \<Rightarrow>
          if RedisStatus info = REDIS_STATUS_ONLINE rc then (True, True, Some info, None)
          else if RedisStatus info = REDIS_STATUS_INIT rc \<or> RedisStatus info = REDIS_STATUS_PROCESSING rc
          then (True, False, Some info, None)
          else (True, False, Some info,
                Some (Error (''redis instance delivery failure, status is ''
                        @ Sprintf_d (RedisStatus info))))
      | _ \<Rightarrow> (False, False, None,
               Some (Error (''redis DescribeInstances one id get ''
                       @ Sprintf_d (int (length (RespInstanceSet response))) @ '' redis info''))),
      tr @ [Call ''DescribeInstances'' [VString redisId, VNil, VNil]])"
  using assms
  by (simp add: CheckRedisCreateOk_def Let_def RedisDescribeInstances_def describeAgain_def
      NewDescribeInstancesRequest_def strPtr_def natPtr_def split: list.splits)

lemma redisRead_absent:
  assumes "0 < readRetryTimeout cf"
    and "api_DescribeInstances redis (length tr)
           (NewDescribeInstancesRequest \<lparr> ReqInstanceId := Some (ResourceId d) \<rparr>) = Inr response"
    and "RespInstanceSet response = []
         \<or> (\<exists>info. RespInstanceSet response = [info]
               \<and> (RedisStatus info = REDIS_STATUS_ISOLATE rc \<or> RedisStatus info = REDIS_STATUS_TODELETE rc))"
  shows "resourceTencentCloudRedisInstanceRead cf rc redis d tr =
     (Returns None, SetId d [], tr @ [Call ''DescribeInstances'' [VString (ResourceId d), VNil, VNil]])"
proof -
  have "\<exists>i. redisReadRetry rc redis (d, True, None, tr) =
      (None, (SetId d [], False, i, tr @ [Call ''DescribeInstances'' [VString (ResourceId d), VNil, VNil]]))"
    using assms(3)
    by (auto simp: redisReadRetry_def CheckRedisCreateOk_answered[OF assms(2)])
  then obtain i where "redisReadRetry rc redis (d, True, None, tr) =
      (None, (SetId d [], False, i, tr @ [Call ''DescribeInstances'' [VString (ResourceId d), VNil, VNil]]))"
    by blast
  then have "Retry (readRetryTimeout cf) (redisReadRetry rc redis) (d, True, None, tr) =
      (None, (SetId d [], False, i, tr @ [Call ''DescribeInstances'' [VString (ResourceId d), VNil, VNil]]))"
    using assms(1) by (rule Retry_first_success[rotated])
  then show ?thesis by (simp add: resourceTencentCloudRedisInstanceRead_def)
qed

lemma tkeRead_no_cluster:
  assumes "Split (ResourceId d) CHR ''_'' = [instanceId, clusterId]"
    and "api_DescribeCluster tke (length tr) clusterId = Inr False"
  shows "resourceTencentCloudTkeClusterAttachmentRead cf tke d tr =
     (None, SetId d [], tr @ [Call ''DescribeCluster'' [VString clusterId]])"
  using assms by (simp add: resourceTencentCloudTkeClusterAttachmentRead_def DescribeCluster_def)

lemma tkeRead_no_instance:
  assumes "0 < readRetryTimeout cf"
    and "Split (ResourceId d) CHR ''_'' = [instanceId, clusterId]"
    and "api_DescribeCluster tke (length tr) clusterId = Inr True"
    and "api_DescribeInstanceById tke (Suc (length tr)) instanceId = Inr None"
  shows "resourceTencentCloudTkeClusterAttachmentRead cf tke d tr =
     (None, SetId d [], tr @ [Call ''DescribeCluster'' [VString clusterId],
                             Call ''DescribeInstanceById'' [VString instanceId]])"
proof -
  let ?t1 = "tr @ [Call ''DescribeCluster'' [VString clusterId]]"
  have "describeInstanceRetry cf tke instanceId (None, ?t1) =
      (None, (None, ?t1 @ [Call ''DescribeInstanceById'' [VString instanceId]]))"
    using assms(4) by (simp add: describeInstanceRetry_def DescribeInstanceById_def)
  then have "Retry (readRetryTimeout cf) (describeInstanceRetry cf tke instanceId) (None, ?t1) =
      (None, (None, ?t1 @ [Call ''DescribeInstanceById'' [VString instanceId]]))"
    using assms(1) by (rule Retry_first_success[rotated])
  then show ?thesis
    using assms(2,3)
    by (simp add: resourceTencentCloudTkeClusterAttachmentRead_def DescribeCluster_def
        tkeAttachmentReadInstance_def)
qed

lemma tkeRead_not_attached:
  assumes "0 < readRetryTimeout cf"
    and "Split (ResourceId d) CHR ''_'' = [instanceId, clusterId]"
    and "api_DescribeCluster tke (length tr) clusterId = Inr True"
    and "api_DescribeInstanceById tke (Suc (length tr)) instanceId = Inr (Some inst)"
    and "api_DescribeClusterInstances tke (Suc (Suc (length tr))) clusterId = Inr workers"
    and "instanceId \<notin> set workers"
  shows "resourceTencentCloudTkeClusterAttachmentRead cf tke d tr =
     (None, SetId d [], tr @ [Call ''DescribeCluster'' [VString clusterId],
                             Call ''DescribeInstanceById'' [VString instanceId],
                             Call ''DescribeClusterInstances'' [VString clusterId]])"
proof -
  let ?t1 = "tr @ [Call ''DescribeCluster'' [VString clusterId]]"
  have "describeInstanceRetry cf tke instanceId (None, ?t1) =
      (None, (Some inst, ?t1 @ [Call ''DescribeInstanceById'' [VString instanceId]]))"
    using assms(4) by (simp add: describeInstanceRetry_def DescribeInstanceById_def)
  then have "Retry (readRetryTimeout cf) (describeInstanceRetry cf tke instanceId) (None, ?t1) =
      (None, (Some inst, ?t1 @ [Call ''DescribeInstanceById'' [VString instanceId]]))"
    using assms(1) by (rule Retry_first_success[rotated])
  then show ?thesis
    using assms(2,3,5,6)
    by (simp add: resourceTencentCloudTkeClusterAttachmentRead_def DescribeCluster_def
        tkeAttachmentReadInstance_def DescribeClusterInstances_def)
qed


text \<open>
  What the \<open>Read\<close> operations among the sources do when the remote API reports the
  resource as absent by an empty answer: the CBS storage and the key pair (the describe
  result is nil), the route table entry (no route table, or a route table without the
  entry), the VPN gateway (the result set is empty), the Redis instance (the result set
  is empty, or the one instance is in the status ISOLATE or TODELETE) and the cluster
  attachment (no cluster, no instance, or an instance that is not among the workers).
  Each sets the resource ID to the empty string and returns nil.  The API is asked once
  per question; the retry duration must leave room for one attempt.
\<close>

lemma absent_reads_clear_id:
  "ResourceId (SetId d []) = []
   \<and> (0 < readRetryTimeout cf \<longrightarrow>
      (api_DescribeDiskById cbs (length tr) (ResourceId d) = Inr None \<longrightarrow>
         resourceTencentCloudCbsStorageRead cf cbs d tr =
           (None, SetId d [], tr @ [Call ''DescribeDiskById'' [VString (ResourceId d)]]))
      \<and> (api_DescribeKeyPairById cvm (length tr) (ResourceId d) = Inr None \<longrightarrow>
         resourceTencentCloudKeyPairRead cf cvm d tr =
           (None, SetId d [], tr @ [Call ''DescribeKeyPairById'' [VString (ResourceId d)]]))
      \<and> (Split (ResourceId d) CHR ''.'' = [item0, item1]
          \<and> api_DescribeRouteTable vpc (length tr) item1 = Inr (info, has)
          \<and> (has = 0 \<or> (has = 1 \<and> findRouteEntry (entryInfos info) item0 = None)) \<longrightarrow>
         resourceTencentCloudVpcRouteEntryRead cf vpc d tr =
           (None, SetId d [], tr @ [Call ''DescribeRouteTable'' [VString item1]]))
      \<and> (api_DescribeVpnGateways vpn (length tr) [ResourceId d] = Inr [] \<longrightarrow>
         resourceTencentCloudVpnGatewayRead cf vpn tg d tr =
           (Returns None, SetId d [], tr @ [Call ''DescribeVpnGateways'' [VStrings [ResourceId d]]]))
      \<and> (api_DescribeInstances redis (length tr)
             (NewDescribeInstancesRequest \<lparr> ReqInstanceId := Some (ResourceId d) \<rparr>) = Inr response
          \<and> (RespInstanceSet response = []
               \<or> (\<exists>i. RespInstanceSet response = [i]
                     \<and> (RedisStatus i = REDIS_STATUS_ISOLATE rc \<or> RedisStatus i = REDIS_STATUS_TODELETE rc))) \<longrightarrow>
         resourceTencentCloudRedisInstanceRead cf rc redis d tr =
           (Returns None, SetId d [],
            tr @ [Call ''DescribeInstances'' [VString (ResourceId d), VNil, VNil]]))
      \<and> (Split (ResourceId d) CHR ''_'' = [instanceId, clusterId]
          \<and> api_DescribeCluster tke (length tr) clusterId = Inr False \<longrightarrow>
         resourceTencentCloudTkeClusterAttachmentRead cf tke d tr =
           (None, SetId d [], tr @ [Call ''DescribeCluster'' [VString clusterId]]))
      \<and> (Split (ResourceId d) CHR ''_'' = [instanceId, clusterId]
          \<and> api_DescribeCluster tke (length tr) clusterId = Inr True
          \<and> api_DescribeInstanceById tke (Suc (length tr)) instanceId = Inr None \<longrightarrow>
         resourceTencentCloudTkeClusterAttachmentRead cf tke d tr =
           (None, SetId d [], tr @ [Call ''DescribeCluster'' [VString clusterId],
                                   Call ''DescribeInstanceById'' [VString instanceId]]))
      \<and> (Split (ResourceId d) CHR ''_'' = [instanceId, clusterId]
          \<and> api_DescribeCluster tke (length tr) clusterId = Inr True
          \<and> api_DescribeInstanceById tke (Suc (length tr)) instanceId = Inr (Some inst)
          \<and> api_DescribeClusterInstances tke (Suc (Suc (length tr))) clusterId = Inr workers
          \<and> instanceId \<notin> set workers \<longrightarrow>
         resourceTencentCloudTkeClusterAttachmentRead cf tke d tr =
           (None, SetId d [], tr @ [Call ''DescribeCluster'' [VString clusterId],
                                   Call ''DescribeInstanceById'' [VString instanceId],
                                   Call ''DescribeClusterInstances'' [VString clusterId]])))"
proof (intro conjI impI)
  show "ResourceId (SetId d []) = []" by (simp add: SetId_def)
next
  assume "0 < readRetryTimeout cf" "api_DescribeDiskById cbs (length tr) (ResourceId d) = Inr None"
  then show "resourceTencentCloudCbsStorageRead cf cbs d tr =
           (None, SetId d [], tr @ [Call ''DescribeDiskById'' [VString (ResourceId d)]])"
    by (rule cbsRead_absent)
next
  assume "0 < readRetryTimeout cf" "api_DescribeKeyPairById cvm (length tr) (ResourceId d) = Inr None"
  then show "resourceTencentCloudKeyPairRead cf cvm d tr =
           (None, SetId d [], tr @ [Call ''DescribeKeyPairById'' [VString (ResourceId d)]])"
    by (rule keyPairRead_absent)
next
  assume t: "0 < readRetryTimeout cf"
    and a: "Split (ResourceId d) CHR ''.'' = [item0, item1]
          \<and> api_DescribeRouteTable vpc (length tr) item1 = Inr (info, has)
          \<and> (has = 0 \<or> (has = 1 \<and> findRouteEntry (entryInfos info) item0 = None))"
  show "resourceTencentCloudVpcRouteEntryRead cf vpc d tr =
           (None, SetId d [], tr @ [Call ''DescribeRouteTable'' [VString item1]])"
    by (rule routeEntryRead_absent[OF t, of d item0 item1 vpc tr info has]) (use a in simp_all)
next
  assume "0 < readRetryTimeout cf" "api_DescribeVpnGateways vpn (length tr) [ResourceId d] = Inr []"
  then show "resourceTencentCloudVpnGatewayRead cf vpn tg d tr =
           (Returns None, SetId d [], tr @ [Call ''DescribeVpnGateways'' [VStrings [ResourceId d]]])"
    by (rule vpnRead_absent)
next
  assume t: "0 < readRetryTimeout cf"
    and a: "api_DescribeInstances redis (length tr)
             (NewDescribeInstancesRequest \<lparr> ReqInstanceId := Some (ResourceId d) \<rparr>) = Inr response
          \<and> (RespInstanceSet response = []
               \<or> (\<exists>i. RespInstanceSet response = [i]
                     \<and> (RedisStatus i = REDIS_STATUS_ISOLATE rc \<or> RedisStatus i = REDIS_STATUS_TODELETE rc)))"
  show "resourceTencentCloudRedisInstanceRead cf rc redis d tr =
           (Returns None, SetId d [],
            tr @ [Call ''DescribeInstances'' [VString (ResourceId d), VNil, VNil]])"
    by (rule redisRead_absent[OF t, of redis tr d response rc]) (use a in simp_all)
next
  assume a: "Split (ResourceId d) CHR ''_'' = [instanceId, clusterId]
          \<and> api_DescribeCluster tke (length tr) clusterId = Inr False"
  show "resourceTencentCloudTkeClusterAttachmentRead cf tke d tr =
           (None, SetId d [], tr @ [Call ''DescribeCluster'' [VString clusterId]])"
    by (rule tkeRead_no_cluster[of d instanceId clusterId tke tr]) (use a in simp_all)
next
  assume t: "0 < readRetryTimeout cf"
    and a: "Split (ResourceId d) CHR ''_'' = [instanceId, clusterId]
          \<and> api_DescribeCluster tke (length tr) clusterId = Inr True
          \<and> api_DescribeInstanceById tke (Suc (length tr)) instanceId = Inr None"
  show "resourceTencentCloudTkeClusterAttachmentRead cf tke d tr =
           (None, SetId d [], tr @ [Call ''DescribeCluster'' [VString clusterId],
                                   Call ''DescribeInstanceById'' [VString instanceId]])"
    by (rule tkeRead_no_instance[OF t, of d instanceId clusterId tke tr]) (use a in simp_all)
next
  assume t: "0 < readRetryTimeout cf"
    and a: "Split (ResourceId d) CHR ''_'' = [instanceId, clusterId]
          \<and> api_DescribeCluster tke (length tr) clusterId = Inr True
          \<and> api_DescribeInstanceById tke (Suc (length tr)) instanceId = Inr (Some inst)
          \<and> api_DescribeClusterInstances tke (Suc (Suc (length tr))) clusterId = Inr workers
          \<and> instanceId \<notin> set workers"
  show "resourceTencentCloudTkeClusterAttachmentRead cf tke d tr =
           (None, SetId d [], tr @ [Call ''DescribeCluster'' [VString clusterId],
                                   Call ''DescribeInstanceById'' [VString instanceId],
                                   Call ''DescribeClusterInstances'' [VString clusterId]])"
    by (rule tkeRead_not_attached[OF t, of d instanceId clusterId tke tr inst workers])
      (use a in simp_all)
qed

lemma absent_reads_clear_id_examples:
  "resourceTencentCloudCbsStorageRead settings0 cbsGone (noData\<lparr>ResourceId := ''disk-1''\<rparr>) [] =
     (None, noData, [Call ''DescribeDiskById'' [VString ''disk-1'']])
   \<and> resourceTencentCloudKeyPairRead settings0 cvmGone (noData\<lparr>ResourceId := ''skey-1''\<rparr>) [] =
     (None, noData, [Call ''DescribeKeyPairById'' [VString ''skey-1'']])
   \<and> resourceTencentCloudVpcRouteEntryRead settings0 routeGone (noData\<lparr>ResourceId := ''77.rtb-abc''\<rparr>) [] =
     (None, noData, [Call ''DescribeRouteTable'' [VString ''rtb-abc'']])
   \<and> resourceTencentCloudVpcRouteEntryRead settings0 route0 (noData\<lparr>ResourceId := ''78.rtb-abc''\<rparr>) [] =
     (None, noData, [Call ''DescribeRouteTable'' [VString ''rtb-abc'']])
   \<and> resourceTencentCloudVpnGatewayRead settings0 vpnGone tag0 (noData\<lparr>ResourceId := ''vpngw-1''\<rparr>) [] =
     (Returns None, noData, [Call ''DescribeVpnGateways'' [VStrings [''vpngw-1'']]])
   \<and> resourceTencentCloudRedisInstanceRead settings0 rconsts0 (redisApi (\<lambda>n. noInstance))
        (noData\<lparr>ResourceId := ''crs-1''\<rparr>) [] =
     (Returns None, noData, [Call ''DescribeInstances'' [VString ''crs-1'', VNil, VNil]])
   \<and> resourceTencentCloudRedisInstanceRead settings0 rconsts0 (redisApi (\<lambda>n. oneInstance (- 2)))
        (noData\<lparr>ResourceId := ''crs-1''\<rparr>) [] =
     (Returns None, noData, [Call ''DescribeInstances'' [VString ''crs-1'', VNil, VNil]])
   \<and> resourceTencentCloudTkeClusterAttachmentRead settings0 (tkeApi False None [])
        (noData\<lparr>ResourceId := ''ins-1_cls-1''\<rparr>) [] =
     (None, noData, [Call ''DescribeCluster'' [VString ''cls-1'']])
   \<and> resourceTencentCloudTkeClusterAttachmentRead settings0 (tkeApi True None [])
        (noData\<lparr>ResourceId := ''ins-1_cls-1''\<rparr>) [] =
     (None, noData, [Call ''DescribeCluster'' [VString ''cls-1''],
                     Call ''DescribeInstanceById'' [VString ''ins-1'']])
   \<and> resourceTencentCloudTkeClusterAttachmentRead settings0 (tkeApi True (Some instance0) [''ins-2''])
        (noData\<lparr>ResourceId := ''ins-1_cls-1''\<rparr>) [] =
     (None, noData, [Call ''DescribeCluster'' [VString ''cls-1''],
                     Call ''DescribeInstanceById'' [VString ''ins-1''],
                     Call ''DescribeClusterInstances'' [VString ''cls-1'']])"
proof -
  have t: "0 < readRetryTimeout settings0" by (simp add: settings0_def)
  have clear: "SetId (noData\<lparr>ResourceId := x\<rparr>) [] = noData" for x
    by (simp add: SetId_def noData_def)
  have s77: "Sprintf_d 77 = ''77''" by code_simp
  note th = absent_reads_clear_id[where cf = settings0 and tr = "[]"]
  have a: "resourceTencentCloudCbsStorageRead settings0 cbsGone (noData\<lparr>ResourceId := ''disk-1''\<rparr>) [] =
     (None, noData, [Call ''DescribeDiskById'' [VString ''disk-1'']])"
    using th[where d = "noData\<lparr>ResourceId := ''disk-1''\<rparr>" and cbs = cbsGone] t
    by (simp add: cbsGone_def cbs0_def clear)
  have b: "resourceTencentCloudKeyPairRead settings0 cvmGone (noData\<lparr>ResourceId := ''skey-1''\<rparr>) [] =
     (None, noData, [Call ''DescribeKeyPairById'' [VString ''skey-1'']])"
    using th[where d = "noData\<lparr>ResourceId := ''skey-1''\<rparr>" and cvm = cvmGone] t
    by (simp add: cvmGone_def cvm0_def clear)
  have c: "resourceTencentCloudVpcRouteEntryRead settings0 routeGone (noData\<lparr>ResourceId := ''77.rtb-abc''\<rparr>) [] =
     (None, noData, [Call ''DescribeRouteTable'' [VString ''rtb-abc'']])"
    using th[where d = "noData\<lparr>ResourceId := ''77.rtb-abc''\<rparr>" and vpc = routeGone
        and ?item0.0 = "''77''" and ?item1.0 = "''rtb-abc''" and info = "\<lparr> entryInfos = [] \<rparr>" and has = 0] t
    by (simp add: routeGone_def route0_def clear)
  have d: "resourceTencentCloudVpcRouteEntryRead settings0 route0 (noData\<lparr>ResourceId := ''78.rtb-abc''\<rparr>) [] =
     (None, noData, [Call ''DescribeRouteTable'' [VString ''rtb-abc'']])"
    using th[where d = "noData\<lparr>ResourceId := ''78.rtb-abc''\<rparr>" and vpc = route0
        and ?item0.0 = "''78''" and ?item1.0 = "''rtb-abc''" and info = "\<lparr> entryInfos = [routeEntry0] \<rparr>"
        and has = 1] t
    by (simp add: route0_def routeEntry0_def s77 clear)
  have e: "resourceTencentCloudVpnGatewayRead settings0 vpnGone tag0 (noData\<lparr>ResourceId := ''vpngw-1''\<rparr>) [] =
     (Returns None, noData, [Call ''DescribeVpnGateways'' [VStrings [''vpngw-1'']]])"
    using th[where d = "noData\<lparr>ResourceId := ''vpngw-1''\<rparr>" and vpn = vpnGone and tg = tag0] t
    by (simp add: vpnGone_def vpn0_def clear)
  have f: "resourceTencentCloudRedisInstanceRead settings0 rconsts0 (redisApi (\<lambda>n. noInstance))
        (noData\<lparr>ResourceId := ''crs-1''\<rparr>) [] =
     (Returns None, noData, [Call ''DescribeInstances'' [VString ''crs-1'', VNil, VNil]])"
    using th[where d = "noData\<lparr>ResourceId := ''crs-1''\<rparr>" and redis = "redisApi (\<lambda>n. noInstance)"
        and rc = rconsts0 and response = "\<lparr> TotalCount = 0, RespInstanceSet = [] \<rparr>"] t
    by (simp add: redisApi_def noInstance_def clear)
  have g: "resourceTencentCloudRedisInstanceRead settings0 rconsts0 (redisApi (\<lambda>n. oneInstance (- 2)))
        (noData\<lparr>ResourceId := ''crs-1''\<rparr>) [] =
     (Returns None, noData, [Call ''DescribeInstances'' [VString ''crs-1'', VNil, VNil]])"
    using th[where d = "noData\<lparr>ResourceId := ''crs-1''\<rparr>" and redis = "redisApi (\<lambda>n. oneInstance (- 2))"
        and rc = rconsts0
        and response = "\<lparr> TotalCount = 1, RespInstanceSet = [redisInstance ''terrform_test'' (- 2) 100003] \<rparr>"] t
    by (simp add: redisApi_def oneInstance_def redisInstance_def rconsts0_def clear)
  have h: "resourceTencentCloudTkeClusterAttachmentRead settings0 (tkeApi False None [])
        (noData\<lparr>ResourceId := ''ins-1_cls-1''\<rparr>) [] =
     (None, noData, [Call ''DescribeCluster'' [VString ''cls-1'']])"
    using th[where d = "noData\<lparr>ResourceId := ''ins-1_cls-1''\<rparr>" and tke = "tkeApi False None []"
        and instanceId = "''ins-1''" and clusterId = "''cls-1''"] t
    by (simp add: tkeApi_def clear)
  have i: "resourceTencentCloudTkeClusterAttachmentRead settings0 (tkeApi True None [])
        (noData\<lparr>ResourceId := ''ins-1_cls-1''\<rparr>) [] =
     (None, noData, [Call ''DescribeCluster'' [VString ''cls-1''],
                     Call ''DescribeInstanceById'' [VString ''ins-1'']])"
    using th[where d = "noData\<lparr>ResourceId := ''ins-1_cls-1''\<rparr>" and tke = "tkeApi True None []"
        and instanceId = "''ins-1''" and clusterId = "''cls-1''"] t
    by (simp add: tkeApi_def clear)
  have j: "resourceTencentCloudTkeClusterAttachmentRead settings0 (tkeApi True (Some instance0) [''ins-2''])
        (noData\<lparr>ResourceId := ''ins-1_cls-1''\<rparr>) [] =
     (None, noData, [Call ''DescribeCluster'' [VString ''cls-1''],
                     Call ''DescribeInstanceById'' [VString ''ins-1''],
                     Call ''DescribeClusterInstances'' [VString ''cls-1'']])"
    using th[where d = "noData\<lparr>ResourceId := ''ins-1_cls-1''\<rparr>"
        and tke = "tkeApi True (Some instance0) [''ins-2'']"
        and instanceId = "''ins-1''" and clusterId = "''cls-1''" and inst = instance0
        and workers = "[''ins-2'']"] t
    by (simp add: tkeApi_def clear)
  from a b c d e f g h i j show ?thesis by blast
qed


section \<open>Create of a Redis instance\<close>

lemma redisCreateRetry_success:
  assumes "redisCreateRetry rc redis dealId s0 = (None, tr2)"
  shows "\<exists>info. CheckRedisCreateOk rc redis dealId s0 = ((True, True, info, None), tr2)"
  using assms
  by (auto simp: redisCreateRetry_def split: prod.splits option.splits if_splits)

lemma redisCreate_id_changed:
  assumes "ResourceId (fst (snd (resourceTencentCloudRedisInstanceCreate cf hp rc redis tg d tr))) \<noteq> ResourceId d"
  shows "\<exists>dealId tr1 tr2 info. CheckRedisCreateOk rc redis dealId tr1 = ((True, True, info, None), tr2)"
proof -
  from assms obtain dealId tr1 tr2 where
    "Retry (20 * readRetryTimeout cf) (redisCreateRetry rc redis dealId) tr1 = (None, tr2)"
    by (auto simp: resourceTencentCloudRedisInstanceCreate_def Let_def
          split: if_splits prod.splits sum.splits option.splits)
  then have "\<exists>s0. True \<and> redisCreateRetry rc redis dealId s0 = (None, tr2)"
    by (rule Retry_success_last) simp_all
  then show ?thesis using redisCreateRetry_success by blast
qed

lemma redisCreate_poll_error:
  assumes "GetString d ''availability_zone'' = [] \<or> Contains (GetString d ''availability_zone'') (Region cf)"
    and "RedisCreateInstances redis (GetString d ''availability_zone'') (GetString d ''type'')
           (GetString d ''password'') (GetString d ''vpc_id'') (GetString d ''subnet_id'')
           (GetString d ''name'') (GetInt d ''mem_size'') (GetInt d ''project_id'') (GetInt d ''port'')
           (GetStrings d ''security_groups'') tr = (Inr dealId, tr1)"
    and "dealId \<noteq> []"
    and "Retry (20 * readRetryTimeout cf) (redisCreateRetry rc redis dealId) tr1 = (Some err, tr2)"
  shows "resourceTencentCloudRedisInstanceCreate cf hp rc redis tg d tr = (Returns (Some err), d, tr2)"
  using assms by (auto simp: resourceTencentCloudRedisInstanceCreate_def Let_def)

lemma redisCreateRetry_processing:
  assumes "\<forall>n. \<exists>resp i. api_DescribeInstances redis n
               (NewDescribeInstancesRequest \<lparr> ReqInstanceId := Some dealId \<rparr>) = Inr resp
             \<and> RespInstanceSet resp = [i] \<and> RedisStatus i \<noteq> REDIS_STATUS_ONLINE rc
             \<and> (RedisStatus i = REDIS_STATUS_INIT rc \<or> RedisStatus i = REDIS_STATUS_PROCESSING rc)"
  shows "redisCreateRetry rc redis dealId tr =
     (Some (RetryableError (Error ''create redis task is processing'')),
      tr @ [Call ''DescribeInstances'' [VString dealId, VNil, VNil]])"
proof -
  obtain resp i where r: "api_DescribeInstances redis (length tr)
               (NewDescribeInstancesRequest \<lparr> ReqInstanceId := Some dealId \<rparr>) = Inr resp"
    and s: "RespInstanceSet resp = [i]" "RedisStatus i \<noteq> REDIS_STATUS_ONLINE rc"
      "RedisStatus i = REDIS_STATUS_INIT rc \<or> RedisStatus i = REDIS_STATUS_PROCESSING rc"
    using assms by blast
  show ?thesis
    using s by (auto simp: redisCreateRetry_def CheckRedisCreateOk_answered[OF r])
qed

lemma redisCreate_poll_timeout:
  assumes "\<forall>n. \<exists>resp i. api_DescribeInstances redis n
               (NewDescribeInstancesRequest \<lparr> ReqInstanceId := Some dealId \<rparr>) = Inr resp
             \<and> RespInstanceSet resp = [i] \<and> RedisStatus i \<noteq> REDIS_STATUS_ONLINE rc
             \<and> (RedisStatus i = REDIS_STATUS_INIT rc \<or> RedisStatus i = REDIS_STATUS_PROCESSING rc)"
    and "0 < n"
  shows "Retry n (redisCreateRetry rc redis dealId) tr =
     (Some (Error ''create redis task is processing''),
      tr @ replicate n (Call ''DescribeInstances'' [VString dealId, VNil, VNil]))"
proof -
  let ?c = "Call ''DescribeInstances'' [VString dealId, VNil, VNil]"
  have "\<And>i. i < n \<Longrightarrow> redisCreateRetry rc redis dealId (tr @ replicate i ?c) =
      (Some (RetryableError (Error ''create redis task is processing'')), tr @ replicate (Suc i) ?c)"
    using redisCreateRetry_processing[OF assms(1)] by (simp add: replicate_append_same)
  then have "Retry_from n None (redisCreateRetry rc redis dealId) tr =
     (Some (if n = 0 then TimeoutError else Error ''create redis task is processing''),
      tr @ replicate n ?c)"
    using Retry_from_exhausted[of n "redisCreateRetry rc redis dealId" tr ?c
        "\<lambda>i. Error ''create redis task is processing''" None] by simp
  then show ?thesis using assms(2) by (simp add: Retry_def)
qed

lemma redisCreate_poll_results:
  assumes z: "GetString d ''availability_zone'' = [] \<or> Contains (GetString d ''availability_zone'') (Region cf)"
    and c: "RedisCreateInstances redis (GetString d ''availability_zone'') (GetString d ''type'')
           (GetString d ''password'') (GetString d ''vpc_id'') (GetString d ''subnet_id'')
           (GetString d ''name'') (GetInt d ''mem_size'') (GetInt d ''project_id'') (GetInt d ''port'')
           (GetStrings d ''security_groups'') tr = (Inr dealId, tr1)"
    and ne: "dealId \<noteq> []"
    and t: "0 < readRetryTimeout cf"
  shows "CheckRedisCreateOk rc redis dealId tr1 = ((False, online, info, None), tr2) \<Longrightarrow>
         resourceTencentCloudRedisInstanceCreate cf hp rc redis tg d tr =
           (Returns (Some (Error ''redis instance not exists.'')), d, tr2)"
    and "CheckRedisCreateOk rc redis dealId tr1 = ((has, online, info, Some e), tr2) \<Longrightarrow>
         resourceTencentCloudRedisInstanceCreate cf hp rc redis tg d tr = (Returns (Some e), d, tr2)"
    and "\<forall>n. \<exists>resp i. api_DescribeInstances redis n
               (NewDescribeInstancesRequest \<lparr> ReqInstanceId := Some dealId \<rparr>) = Inr resp
             \<and> RespInstanceSet resp = [i] \<and> RedisStatus i \<noteq> REDIS_STATUS_ONLINE rc
             \<and> (RedisStatus i = REDIS_STATUS_INIT rc \<or> RedisStatus i = REDIS_STATUS_PROCESSING rc) \<Longrightarrow>
         resourceTencentCloudRedisInstanceCreate cf hp rc redis tg d tr =
           (Returns (Some (Error ''create redis task is processing'')), d,
            tr1 @ replicate (20 * readRetryTimeout cf)
                    (Call ''DescribeInstances'' [VString dealId, VNil, VNil]))"
proof -
  have t20: "0 < 20 * readRetryTimeout cf" using t by simp
  note pe = redisCreate_poll_error[OF z c ne, where rc = rc and hp = hp and tg = tg]
  {
    assume "CheckRedisCreateOk rc redis dealId tr1 = ((False, online, info, None), tr2)"
    then have "redisCreateRetry rc redis dealId tr1 =
        (Some (NonRetryableError (Error ''redis instance not exists.'')), tr2)"
      by (simp add: redisCreateRetry_def)
    then have "Retry (20 * readRetryTimeout cf) (redisCreateRetry rc redis dealId) tr1 =
        (Some (Error ''redis instance not exists.''), tr2)"
      by (rule Retry_first_failure[OF t20])
    then show "resourceTencentCloudRedisInstanceCreate cf hp rc redis tg d tr =
           (Returns (Some (Error ''redis instance not exists.'')), d, tr2)"
      by (rule pe)
  }
  {
    assume "CheckRedisCreateOk rc redis dealId tr1 = ((has, online, info, Some e), tr2)"
    then have "redisCreateRetry rc redis dealId tr1 = (Some (NonRetryableError e), tr2)"
      by (simp add: redisCreateRetry_def)
    then have "Retry (20 * readRetryTimeout cf) (redisCreateRetry rc redis dealId) tr1 = (Some e, tr2)"
      by (rule Retry_first_failure[OF t20])
    then show "resourceTencentCloudRedisInstanceCreate cf hp rc redis tg d tr = (Returns (Some e), d, tr2)"
      by (rule pe)
  }
  {
    assume "\<forall>n. \<exists>resp i. api_DescribeInstances redis n
               (NewDescribeInstancesRequest \<lparr> ReqInstanceId := Some dealId \<rparr>) = Inr resp
             \<and> RespInstanceSet resp = [i] \<and> RedisStatus i \<noteq> REDIS_STATUS_ONLINE rc
             \<and> (RedisStatus i = REDIS_STATUS_INIT rc \<or> RedisStatus i = REDIS_STATUS_PROCESSING rc)"
    then have "Retry (20 * readRetryTimeout cf) (redisCreateRetry rc redis dealId) tr1 =
        (Some (Error ''create redis task is processing''),
         tr1 @ replicate (20 * readRetryTimeout cf) (Call ''DescribeInstances'' [VString dealId, VNil, VNil]))"
      using t20 by (rule redisCreate_poll_timeout)
    then show "resourceTencentCloudRedisInstanceCreate cf hp rc redis tg d tr =
           (Returns (Some (Error ''create redis task is processing'')), d,
            tr1 @ replicate (20 * readRetryTimeout cf)
                    (Call ''DescribeInstances'' [VString dealId, VNil, VNil]))"
      by (rule pe)
  }
qed

text \<open>
  C6.  \<open>Create\<close> of a Redis instance polls before it commits.  The resource ID is
  changed only if some call of \<open>CheckRedisCreateOk\<close> in the poll has reported that the
  instance exists and is online.  When the zone check has passed and
  \<open>CreateInstances\<close> has returned a deal ID, every error of the poll is the result of
  \<open>Create\<close> and the resource data, with its ID, are as before: the error
  "redis instance not exists." when the first check reports the instance missing, the
  error of the check when the first check returns one, and the error
  "create redis task is processing" when every check that fits into the duration finds
  the instance in the status INIT or PROCESSING.
\<close>

theorem redis_create_sets_id_after_online:
  "(ResourceId (fst (snd (resourceTencentCloudRedisInstanceCreate cf hp rc redis tg d tr))) \<noteq> ResourceId d \<longrightarrow>
      (\<exists>dealId tr1 tr2 info.
         CheckRedisCreateOk rc redis dealId tr1 = ((True, True, info, None), tr2)))
   \<and> ((GetString d ''availability_zone'' = [] \<or> Contains (GetString d ''availability_zone'') (Region cf))
       \<and> RedisCreateInstances redis (GetString d ''availability_zone'') (GetString d ''type'')
           (GetString d ''password'') (GetString d ''vpc_id'') (GetString d ''subnet_id'')
           (GetString d ''name'') (GetInt d ''mem_size'') (GetInt d ''project_id'') (GetInt d ''port'')
           (GetStrings d ''security_groups'') tr = (Inr dealId, tr1)
       \<and> dealId \<noteq> [] \<and> 0 < readRetryTimeout cf \<longrightarrow>
      (Retry (20 * readRetryTimeout cf) (redisCreateRetry rc redis dealId) tr1 = (Some err, tr2) \<longrightarrow>
         resourceTencentCloudRedisInstanceCreate cf hp rc redis tg d tr = (Returns (Some err), d, tr2))
      \<and> (CheckRedisCreateOk rc redis dealId tr1 = ((False, online, info, None), tr2) \<longrightarrow>
         resourceTencentCloudRedisInstanceCreate cf hp rc redis tg d tr =
           (Returns (Some (Error ''redis instance not exists.'')), d, tr2))
      \<and> (CheckRedisCreateOk rc redis dealId tr1 = ((has, online, info, Some e), tr2) \<longrightarrow>
         resourceTencentCloudRedisInstanceCreate cf hp rc redis tg d tr = (Returns (Some e), d, tr2))
      \<and> ((\<forall>n. \<exists>resp i. api_DescribeInstances redis n
               (NewDescribeInstancesRequest \<lparr> ReqInstanceId := Some dealId \<rparr>) = Inr resp
             \<and> RespInstanceSet resp = [i] \<and> RedisStatus i \<noteq> REDIS_STATUS_ONLINE rc
             \<and> (RedisStatus i = REDIS_STATUS_INIT rc \<or> RedisStatus i = REDIS_STATUS_PROCESSING rc)) \<longrightarrow>
         resourceTencentCloudRedisInstanceCreate cf hp rc redis tg d tr =
           (Returns (Some (Error ''create redis task is processing'')), d,
            tr1 @ replicate (20 * readRetryTimeout cf)
                    (Call ''DescribeInstances'' [VString dealId, VNil, VNil]))))"
proof (intro conjI impI)
  assume "ResourceId (fst (snd (resourceTencentCloudRedisInstanceCreate cf hp rc redis tg d tr))) \<noteq> ResourceId d"
  then show "\<exists>dealId tr1 tr2 info.
         CheckRedisCreateOk rc redis dealId tr1 = ((True, True, info, None), tr2)"
    by (rule redisCreate_id_changed)
qed (auto intro: redisCreate_poll_error redisCreate_poll_results)


end
